theory Spec2Isabelle
  imports Complex_Main
begin

section \<open>Python values\<close>

text \<open>
  A Python \<open>str\<close> is a sequence of Unicode code points, so it is modelled as a list of
  naturals. \<open>u\<close> embeds an ASCII literal; literals with CJK characters are written as
  code point lists, with the source text in a comment.
\<close>

type_synonym pystr = "nat list"

definition u :: "string \<Rightarrow> pystr" where
  "u s = map of_char s"

text \<open>
  The values that travel through tool parameters, tool results and envelopes are JSON
  shaped. A \<open>dict\<close> keeps insertion order, so it is an association list.
\<close>

datatype json =
    JNone
  | JBool bool
  | JInt int
  | JFloat real
  | JStr pystr
  | JList "json list"
  | JDict "(pystr \<times> json) list"

type_synonym pydict = "(pystr \<times> json) list"

text \<open>\<open>d.get(k)\<close> / \<open>k in d\<close>.\<close>

fun dget :: "pydict \<Rightarrow> pystr \<Rightarrow> json option" where
  "dget [] k = None"
| "dget ((k', v) # d) k = (if k' = k then Some v else dget d k)"

text \<open>\<open>d[k] = v\<close>: an existing key keeps its position, a new key goes last.\<close>

fun dset :: "pydict \<Rightarrow> pystr \<Rightarrow> json \<Rightarrow> pydict" where
  "dset [] k v = [(k, v)]"
| "dset ((k', v') # d) k v = (if k' = k then (k, v) # d else (k', v') # dset d k v)"

text \<open>\<open>d.get(k, default)\<close>.\<close>

definition dget_default :: "pydict \<Rightarrow> pystr \<Rightarrow> json \<Rightarrow> json" where
  "dget_default d k dflt = (case dget d k of Some v \<Rightarrow> v | None \<Rightarrow> dflt)"

text \<open>Truth value of a Python object in a boolean context.\<close>

fun truthy :: "json \<Rightarrow> bool" where
  "truthy JNone = False"
| "truthy (JBool b) = b"
| "truthy (JInt i) = (i \<noteq> 0)"
| "truthy (JFloat r) = (r \<noteq> 0)"
| "truthy (JStr s) = (s \<noteq> [])"
| "truthy (JList xs) = (xs \<noteq> [])"
| "truthy (JDict d) = (d \<noteq> [])"

text \<open>
  Exceptions are values: the class and \<open>str(e)\<close>. Only instances of Python's
  \<open>Exception\<close> are modelled; these are the failures the source raises and catches.
\<close>

datatype exn_class =
    ValueError
  | TypeError
  | KeyError
  | AttributeError
  | SMTPAuthenticationError
  | SMTPConnectError
  | SMTPException
  | OverflowError
  | OtherError

datatype exn = Exn exn_class pystr

fun exn_str :: "exn \<Rightarrow> pystr" where
  "exn_str (Exn c m) = m"

text \<open>
  \<open>f"{v}"\<close>: a \<open>str\<close> is inserted as it is; the rendering of any other value is the
  interpreter's, taken as the parameter \<open>fmt\<close>.
\<close>

fun py_format :: "(json \<Rightarrow> pystr) \<Rightarrow> json \<Rightarrow> pystr" where
  "py_format fmt (JStr s) = s"
| "py_format fmt v = fmt v"

text \<open>Decimal rendering of a natural number, as \<open>str(n)\<close> gives it.\<close>

fun show_nat :: "nat \<Rightarrow> pystr" where
  "show_nat n = (if n < 10 then [48 + n] else show_nat (n div 10) @ [48 + n mod 10])"

declare show_nat.simps [simp del]

section \<open>The tool framework (src/mcp/base\_tool.py)\<close>

text \<open>
  A tool has a name and an \<open>execute\<close> operation that takes the keyword arguments and the
  tool's state, and either returns a value or raises; the state after the call is
  returned with the outcome.
\<close>

record 's mcp_tool =
  name :: pystr
  execute :: "pydict \<Rightarrow> 's \<Rightarrow> (exn + json) \<times> 's"

text \<open>
  The \<open>TypeError\<close> of a call \<open>f(**kwargs)\<close> whose map has a key that is also bound
  positionally (\<open>self\<close>, or a named first parameter): it is raised when the call binds
  its arguments, before the body of \<open>f\<close> runs. The message names the function by its
  qualified name and quotes the parameter (the wording of CPython 3.10 and later).
\<close>

definition multiple_values :: "pystr \<Rightarrow> pystr \<Rightarrow> exn" where
  "multiple_values f k =
     Exn TypeError (f @ u ''() got multiple values for argument '' @ [39] @ k @ [39])"

text \<open>The \<open>TypeError\<close> of a keyword that is not a parameter of a function without
  \<open>**kwargs\<close>.\<close>

definition unexpected_keyword :: "pystr \<Rightarrow> pystr \<Rightarrow> exn" where
  "unexpected_keyword f k =
     Exn TypeError (f @ u ''() got an unexpected keyword argument '' @ [39] @ k @ [39])"

text \<open>The \<open>TypeError\<close> of required parameters left without a value: their number and
  their quoted names.\<close>

fun last_names :: "pystr list \<Rightarrow> pystr" where
  "last_names [] = []"
| "last_names [z] = u ''and '' @ [39] @ z @ [39]"
| "last_names (b # rest) = [39] @ b @ [39] @ u '', '' @ last_names rest"

fun missing_names :: "pystr list \<Rightarrow> pystr" where
  "missing_names [] = []"
| "missing_names [a] = [39] @ a @ [39]"
| "missing_names [a, b] = [39] @ a @ [39] @ u '' and '' @ [39] @ b @ [39]"
| "missing_names (a # rest) = [39] @ a @ [39] @ u '', '' @ last_names rest"

definition missing_arguments :: "pystr \<Rightarrow> pystr list \<Rightarrow> exn" where
  "missing_arguments f names =
     Exn TypeError
       (f @ u ''() missing '' @ show_nat (length names) @ u '' required positional argument''
          @ (if length names = 1 then [] else u ''s'') @ u '': '' @ missing_names names)"

text \<open>
  \<open>BaseMCPTool.safe_execute(self, **kwargs)\<close>: a parameter map with the key \<open>self\<close> makes
  the call itself raise, outside the \<open>try\<close>; otherwise both branches of the \<open>try\<close>
  return an envelope.
\<close>

definition safe_execute :: "'s mcp_tool \<Rightarrow> pydict \<Rightarrow> 's \<Rightarrow> (exn + json) \<times> 's" where
  "safe_execute t kwargs s =
     (if dget kwargs (u ''self'') \<noteq> None
      then (Inl (multiple_values (u ''BaseMCPTool.safe_execute'') (u ''self'')), s)
      else
        (case execute t kwargs s of
           (Inr result, s') \<Rightarrow>
             (Inr (JDict [(u ''success'', JBool True),
                          (u ''result'', result),
                          (u ''tool_name'', JStr (name t))]), s')
         | (Inl e, s') \<Rightarrow>
             (Inr (JDict [(u ''success'', JBool False),
                          (u ''error'', JStr (exn_str e)),
                          (u ''tool_name'', JStr (name t))]), s')))"

section \<open>The calendar event tool (src/mcp/calendar\_tools.py)\<close>

text \<open>
  The two readings of \<open>datetime.now()\<close> that a call makes: the rendered
  \<open>timestamp()\<close> and the rendered \<open>isoformat()\<close>.
\<close>

record clock =
  now_timestamp :: pystr
  now_isoformat :: pystr

text \<open>\<open>x or default\<close>.\<close>

definition py_or :: "json option \<Rightarrow> json \<Rightarrow> json" where
  "py_or x d = (case x of None \<Rightarrow> d | Some v \<Rightarrow> if truthy v then v else d)"

definition create_event :: "clock \<Rightarrow> pydict \<Rightarrow> json list \<Rightarrow> (exn + json) \<times> json list" where
  "create_event clk kwargs events =
     (case (dget kwargs (u ''title''), dget kwargs (u ''start_time''), dget kwargs (u ''end_time'')) of
        (Some title, Some start_time, Some end_time) \<Rightarrow>
          (let event_id = u ''event_'' @ show_nat (length events + 1) @ u ''_'' @ now_timestamp clk;
               event = JDict [(u ''id'', JStr event_id),
                              (u ''title'', title),
                              (u ''start_time'', start_time),
                              (u ''end_time'', end_time),
                              (u ''description'', py_or (dget kwargs (u ''description'')) (JStr [])),
                              (u ''location'', py_or (dget kwargs (u ''location'')) (JStr [])),
                              (u ''attendees'', py_or (dget kwargs (u ''attendees'')) (JList [])),
                              (u ''created_at'', JStr (now_isoformat clk))]
           in (Inr (JDict [(u ''action'', JStr (u ''create'')),
                           (u ''event_id'', JStr event_id),
                           (u ''event'', event),
                           (u ''status'', JStr (u ''created''))]),
               events @ [event]))
      | _ \<Rightarrow> (Inl (Exn TypeError (u ''_create_event() missing required positional arguments'')), events))"

text \<open>\<open>s.startswith(p)\<close> on JSON values: only a \<open>str\<close> has the method, and the
  argument must be a \<open>str\<close>.\<close>

fun py_startswith :: "json \<Rightarrow> json \<Rightarrow> exn + bool" where
  "py_startswith (JStr s) (JStr p) = Inr (take (length p) s = p)"
| "py_startswith (JStr s) p = Inl (Exn TypeError (u ''startswith first arg must be str or a tuple of str''))"
| "py_startswith v p = Inl (Exn AttributeError (u ''object has no attribute startswith''))"

text \<open>The list comprehension of \<open>_list_events\<close>: it stops at the first element whose
  test raises.\<close>

fun filter_events :: "json \<Rightarrow> json list \<Rightarrow> exn + json list" where
  "filter_events date_filter [] = Inr []"
| "filter_events date_filter (event # events) =
     (case event of
        JDict d \<Rightarrow>
          (case dget d (u ''start_time'') of
             None \<Rightarrow> Inl (Exn KeyError ([39] @ u ''start_time'' @ [39]))
           | Some st \<Rightarrow>
               (case py_startswith st date_filter of
                  Inl e \<Rightarrow> Inl e
                | Inr b \<Rightarrow>
                    (case filter_events date_filter events of
                       Inl e \<Rightarrow> Inl e
                     | Inr rest \<Rightarrow> Inr (if b then event # rest else rest))))
      | _ \<Rightarrow> Inl (Exn TypeError (u ''event is not subscriptable'')))"

definition list_events :: "pydict \<Rightarrow> json list \<Rightarrow> (exn + json) \<times> json list" where
  "list_events kwargs events =
     (let date_filter = (case dget kwargs (u ''date_filter'') of None \<Rightarrow> JNone | Some v \<Rightarrow> v);
          filtered = (if truthy date_filter then filter_events date_filter events else Inr events)
      in case filtered of
           Inl e \<Rightarrow> (Inl e, events)
         | Inr evs \<Rightarrow>
             (Inr (JDict [(u ''action'', JStr (u ''list'')),
                          (u ''events'', JList evs),
                          (u ''total_count'', JInt (int (length evs))),
                          (u ''date_filter'', date_filter)]), events))"

text \<open>\<open>next((e for e in self.events if e["id"] == event_id), None)\<close>, as the index of
  the event found.\<close>

fun find_event :: "json \<Rightarrow> json list \<Rightarrow> nat option" where
  "find_event event_id [] = None"
| "find_event event_id (e # es) =
     (if (case e of JDict d \<Rightarrow> dget d (u ''id'') = Some event_id | _ \<Rightarrow> False) then Some 0
      else map_option Suc (find_event event_id es))"

definition updatable_fields :: "pystr list" where
  "updatable_fields =
     [u ''title'', u ''start_time'', u ''end_time'', u ''description'', u ''location'', u ''attendees'']"

text \<open>The loop over \<open>updatable_fields\<close>: the event and the list of updated fields.\<close>

fun update_fields :: "pydict \<Rightarrow> pystr list \<Rightarrow> pydict \<Rightarrow> pystr list \<Rightarrow> pydict \<times> pystr list" where
  "update_fields kwargs [] event updated = (event, updated)"
| "update_fields kwargs (field # rest) event updated =
     (case dget kwargs field of
        Some v \<Rightarrow> update_fields kwargs rest (dset event field v) (updated @ [field])
      | None \<Rightarrow> update_fields kwargs rest event updated)"

definition event_missing :: "(json \<Rightarrow> pystr) \<Rightarrow> json \<Rightarrow> exn" where
  \<comment> \<open>the \<open>ValueError\<close> of an unknown id: the source's five CJK characters, a colon, a
      space, and the formatted id\<close>
  "event_missing fmt event_id =
     Exn ValueError ([20107, 20214, 19981, 23384, 22312, 58, 32] @ py_format fmt event_id)"

definition update_event ::
  "(json \<Rightarrow> pystr) \<Rightarrow> clock \<Rightarrow> pydict \<Rightarrow> json list \<Rightarrow> (exn + json) \<times> json list" where
  "update_event fmt clk kwargs events =
     (case dget kwargs (u ''event_id'') of
        None \<Rightarrow> (Inl (Exn TypeError (u ''_update_event() missing 1 required positional argument: event_id'')), events)
      | Some event_id \<Rightarrow>
          (case find_event event_id events of
             None \<Rightarrow> (Inl (event_missing fmt event_id), events)
           | Some i \<Rightarrow>
               (case events ! i of
                  JDict event0 \<Rightarrow>
                    (if event0 = [] then (Inl (event_missing fmt event_id), events)
                     else
                       (let (event1, updated_fields) = update_fields kwargs updatable_fields event0 [];
                            event = dset event1 (u ''updated_at'') (JStr (now_isoformat clk))
                        in (Inr (JDict [(u ''action'', JStr (u ''update'')),
                                        (u ''event_id'', event_id),
                                        (u ''updated_fields'', JList (map JStr updated_fields)),
                                        (u ''event'', JDict event),
                                        (u ''status'', JStr (u ''updated''))]),
                            events[i := JDict event])))
                | _ \<Rightarrow> (Inl (event_missing fmt event_id), events))))"

definition delete_event ::
  "(json \<Rightarrow> pystr) \<Rightarrow> pydict \<Rightarrow> json list \<Rightarrow> (exn + json) \<times> json list" where
  "delete_event fmt kwargs events =
     (case dget kwargs (u ''event_id'') of
        None \<Rightarrow> (Inl (Exn TypeError (u ''_delete_event() missing 1 required positional argument: event_id'')), events)
      | Some event_id \<Rightarrow>
          (case find_event event_id events of
             None \<Rightarrow> (Inl (event_missing fmt event_id), events)
           | Some i \<Rightarrow>
               (if events ! i = JDict [] then (Inl (event_missing fmt event_id), events)
                else
                  (Inr (JDict [(u ''action'', JStr (u ''delete'')),
                               (u ''event_id'', event_id),
                               (u ''status'', JStr (u ''deleted''))]),
                   remove1 (events ! i) events))))"

text \<open>The check of the parameters that \<open>create\<close> requires, in the order of the loop.\<close>

fun first_missing :: "pydict \<Rightarrow> pystr list \<Rightarrow> pystr option" where
  "first_missing kwargs [] = None"
| "first_missing kwargs (r # rs) =
     (case dget kwargs r of None \<Rightarrow> Some r | Some _ \<Rightarrow> first_missing kwargs rs)"

text \<open>\<open>kwargs\<close> without one key: what \<open>**kwargs\<close> receives once a named parameter is bound.\<close>

definition ddel :: "pydict \<Rightarrow> pystr \<Rightarrow> pydict" where
  "ddel d k = filter (\<lambda>(k', v). k' \<noteq> k) d"

text \<open>\<open>CalendarEventTool.execute(self, action, **kwargs)\<close>, called with the parameter map
  as keyword arguments.\<close>

definition calendar_execute ::
  "(json \<Rightarrow> pystr) \<Rightarrow> clock \<Rightarrow> pydict \<Rightarrow> json list \<Rightarrow> (exn + json) \<times> json list" where
  "calendar_execute fmt clk params events =
     (if dget params (u ''self'') \<noteq> None
      then (Inl (multiple_values (u ''CalendarEventTool.execute'') (u ''self'')), events)
      else
     (case dget params (u ''action'') of
        None \<Rightarrow> (Inl (Exn TypeError (u ''execute() missing 1 required positional argument: action'')), events)
      | Some action \<Rightarrow>
          (let kwargs = ddel params (u ''action'') in
           if action = JStr (u ''create'') then
             (case first_missing kwargs [u ''title'', u ''start_time'', u ''end_time''] of
                Some r \<Rightarrow> (Inl (Exn ValueError (u ''Missing required parameter for create: '' @ r)), events)
              | None \<Rightarrow> create_event clk kwargs events)
           else if action = JStr (u ''list'') then list_events kwargs events
           else if action = JStr (u ''update'') then
             (if dget kwargs (u ''event_id'') = None
              then (Inl (Exn ValueError (u ''Missing required parameter for update: event_id'')), events)
              else update_event fmt clk kwargs events)
           else if action = JStr (u ''delete'') then
             (if dget kwargs (u ''event_id'') = None
              then (Inl (Exn ValueError (u ''Missing required parameter for delete: event_id'')), events)
              else delete_event fmt kwargs events)
           else
             \<comment> \<open>the source's message for an unsupported action, then the formatted action\<close>
             (Inl (Exn ValueError ([19981, 25903, 25345, 30340, 25805, 20316, 58, 32] @ py_format fmt action)),
              events))))"

definition CalendarEventTool :: "(json \<Rightarrow> pystr) \<Rightarrow> clock \<Rightarrow> (json list) mcp_tool" where
  "CalendarEventTool fmt clk = \<lparr> name = u ''calendar_event'', execute = calendar_execute fmt clk \<rparr>"

section \<open>The email send tool (src/mcp/email\_tools.py)\<close>

text \<open>
  What the mail libraries do during one call of \<open>execute\<close>, step by step: \<open>None\<close> when
  the step succeeds, the exception when it raises. \<open>build_error\<close> is the construction of
  the MIME text part from the body (\<open>MIMEText(body, 'plain', 'utf-8')\<close>), before the
  \<open>try\<close>; the other steps are inside it.
\<close>

record smtp_session =
  build_error :: "exn option"
  context_error :: "exn option"
  connect_error :: "exn option"
  starttls_error :: "exn option"
  login_error :: "exn option"
  sendmail_error :: "exn option"

definition email_parameters :: "pystr list" where
  "email_parameters =
     [u ''to_addresses'', u ''subject'', u ''body'', u ''sender_email'', u ''sender_password'',
      u ''cc_addresses'']"

definition email_required :: "pystr list" where
  "email_required =
     [u ''to_addresses'', u ''subject'', u ''body'', u ''sender_email'', u ''sender_password'']"

text \<open>\<open>a + b\<close> on JSON values: whether the operands can be added (lists, strings, numbers).\<close>

fun is_number :: "json \<Rightarrow> bool" where
  "is_number (JBool b) = True"
| "is_number (JInt i) = True"
| "is_number (JFloat r) = True"
| "is_number v = False"

fun py_add_ok :: "json \<Rightarrow> json \<Rightarrow> bool" where
  "py_add_ok (JList a) (JList b) = True"
| "py_add_ok (JStr a) (JStr b) = True"
| "py_add_ok a b = (is_number a \<and> is_number b)"

text \<open>The handlers of the login \<open>try\<close>: both log, close the connection and return
  \<open>False\<close>.\<close>

fun login_handler :: "exn \<Rightarrow> json" where
  "login_handler (Exn SMTPAuthenticationError m) = JBool False"
| "login_handler (Exn c m) = JBool False"

text \<open>The handler of the send \<open>try\<close>.\<close>

fun send_handler :: "exn \<Rightarrow> json" where
  "send_handler (Exn c m) = JBool False"

text \<open>The four handlers of the outer \<open>try\<close>, in the order of the source.\<close>

fun outer_handler :: "exn \<Rightarrow> json" where
  "outer_handler (Exn SMTPAuthenticationError m) = JBool False"
| "outer_handler (Exn SMTPConnectError m) = JBool False"
| "outer_handler (Exn SMTPException m) = JBool False"
| "outer_handler (Exn c m) = JBool False"

text \<open>\<open>type(v).__name__\<close>.\<close>

fun type_name :: "json \<Rightarrow> pystr" where
  "type_name JNone = u ''NoneType''"
| "type_name (JBool b) = u ''bool''"
| "type_name (JInt i) = u ''int''"
| "type_name (JFloat r) = u ''float''"
| "type_name (JStr s) = u ''str''"
| "type_name (JList xs) = u ''list''"
| "type_name (JDict d) = u ''dict''"

text \<open>
  \<open>', '.join(v)\<close>: the exception it raises, if any. The value must be iterable and its
  elements strings; a \<open>str\<close> iterates over its characters and a \<open>dict\<close> over its keys. The
  error names the first element, from index \<open>i\<close>, that is not a string.
\<close>

fun is_str :: "json \<Rightarrow> bool" where
  "is_str (JStr s) = True"
| "is_str v = False"

fun join_item_error :: "nat \<Rightarrow> json list \<Rightarrow> exn option" where
  "join_item_error i [] = None"
| "join_item_error i (x # xs) =
     (if is_str x then join_item_error (Suc i) xs
      else Some (Exn TypeError (u ''sequence item '' @ show_nat i @ u '': expected str instance, ''
                                  @ type_name x @ u '' found'')))"

fun join_error :: "json \<Rightarrow> exn option" where
  "join_error (JList xs) = join_item_error 0 xs"
| "join_error (JStr s) = None"
| "join_error (JDict d) = None"
| "join_error v = Some (Exn TypeError (u ''can only join an iterable''))"

text \<open>
  The keywords of a call of \<open>execute\<close> are bound in the order of the map: the first that is
  \<open>self\<close> or that is not a parameter raises.
\<close>

fun email_keyword_error :: "pystr list \<Rightarrow> exn option" where
  "email_keyword_error [] = None"
| "email_keyword_error (k # ks) =
     (if k = u ''self'' then Some (multiple_values (u ''EmailSendTool.execute'') k)
      else if k \<notin> set email_parameters then Some (unexpected_keyword (u ''EmailSendTool.execute'') k)
      else email_keyword_error ks)"

text \<open>
  The \<open>try\<close> of \<open>execute\<close>: the SMTP session with the message built. Every exception is
  caught by a handler that returns \<open>False\<close>. The message has no Message-ID header, so
  \<open>msg.get('Message-ID')\<close> is \<open>None\<close>.
\<close>

definition email_session :: "smtp_session \<Rightarrow> json \<Rightarrow> json \<Rightarrow> json \<Rightarrow> json" where
  "email_session smtp to_addresses cc_addresses subject =
     (case context_error smtp of
        Some e \<Rightarrow> outer_handler e
      | None \<Rightarrow>
     (case connect_error smtp of
        Some e \<Rightarrow> outer_handler e
      | None \<Rightarrow>
     (case starttls_error smtp of
        Some e \<Rightarrow> outer_handler e
      | None \<Rightarrow>
     (case login_error smtp of
        Some e \<Rightarrow> login_handler e
      | None \<Rightarrow>
     (if \<not> py_add_ok to_addresses (if truthy cc_addresses then cc_addresses else JList [])
      then outer_handler (Exn TypeError (u ''unsupported operand type(s) for +''))
      else
        (case sendmail_error smtp of
           Some e \<Rightarrow> send_handler e
         | None \<Rightarrow>
             JDict [(u ''status'', JStr (u ''sent'')),
                    (u ''to_addresses'', to_addresses),
                    (u ''cc_addresses'', (if truthy cc_addresses then cc_addresses else JList [])),
                    (u ''subject'', subject),
                    (u ''message_id'', JNone)]))))))"

text \<open>
  \<open>EmailSendTool.execute\<close>. The signature has no \<open>**kwargs\<close>, so an unknown keyword or a
  missing required one is a \<open>TypeError\<close> of the call. The message is built before the
  \<open>try\<close>: joining the recipients (and the copies, when given) and constructing the text
  part raise out of \<open>execute\<close>. The tool keeps no state.
\<close>

definition email_execute :: "smtp_session \<Rightarrow> pydict \<Rightarrow> unit \<Rightarrow> (exn + json) \<times> unit" where
  "email_execute smtp kwargs s =
     (case email_keyword_error (map fst kwargs) of
        Some e \<Rightarrow> (Inl e, s)
      | None \<Rightarrow>
        (if filter (\<lambda>r. dget kwargs r = None) email_required \<noteq> []
         then (Inl (missing_arguments (u ''EmailSendTool.execute'')
                      (filter (\<lambda>r. dget kwargs r = None) email_required)), s)
         else
           (let to_addresses = dget_default kwargs (u ''to_addresses'') JNone;
                subject = dget_default kwargs (u ''subject'') JNone;
                cc_addresses = dget_default kwargs (u ''cc_addresses'') JNone
            in case join_error to_addresses of
                 Some e \<Rightarrow> (Inl e, s)
               | None \<Rightarrow>
                 (case (if truthy cc_addresses then join_error cc_addresses else None) of
                    Some e \<Rightarrow> (Inl e, s)
                  | None \<Rightarrow>
                    (case build_error smtp of
                       Some e \<Rightarrow> (Inl e, s)
                     | None \<Rightarrow> (Inr (email_session smtp to_addresses cc_addresses subject), s))))))"

definition EmailSendTool :: "smtp_session \<Rightarrow> unit mcp_tool" where
  "EmailSendTool smtp = \<lparr> name = u ''email_send'', execute = email_execute smtp \<rparr>"

text \<open>The failures the handlers of \<open>execute\<close> see: a step of the SMTP session raises, or
  the recipient lists cannot be concatenated.\<close>

definition send_fails :: "smtp_session \<Rightarrow> pydict \<Rightarrow> bool" where
  "send_fails smtp kwargs \<longleftrightarrow>
     context_error smtp \<noteq> None \<or> connect_error smtp \<noteq> None \<or> starttls_error smtp \<noteq> None
     \<or> login_error smtp \<noteq> None \<or> sendmail_error smtp \<noteq> None
     \<or> \<not> py_add_ok (dget_default kwargs (u ''to_addresses'') JNone)
            (if truthy (dget_default kwargs (u ''cc_addresses'') JNone)
             then dget_default kwargs (u ''cc_addresses'') JNone
             else JList [])"

text \<open>The call binds: every keyword is a parameter of \<open>execute\<close> and the five required
  ones are present.\<close>

definition email_call_binds :: "pydict \<Rightarrow> bool" where
  "email_call_binds kwargs \<longleftrightarrow>
     list_all (\<lambda>k. k \<in> set email_parameters) (map fst kwargs)
     \<and> list_all (\<lambda>r. dget kwargs r \<noteq> None) email_required"

text \<open>The message is built: the recipients (and the copies, when given) can be joined and
  the text part is constructed.\<close>

definition email_message_built :: "smtp_session \<Rightarrow> pydict \<Rightarrow> bool" where
  "email_message_built smtp kwargs \<longleftrightarrow>
     join_error (dget_default kwargs (u ''to_addresses'') JNone) = None
     \<and> (if truthy (dget_default kwargs (u ''cc_addresses'') JNone)
          then join_error (dget_default kwargs (u ''cc_addresses'') JNone) = None
          else True)
     \<and> build_error smtp = None"

section \<open>The document retriever (src/rag/retriever.py)\<close>

text \<open>\<open>sub in s\<close> on strings.\<close>

fun contains :: "pystr \<Rightarrow> pystr \<Rightarrow> bool" where
  "contains sub [] = (sub = [])"
| "contains sub (c # cs) = (take (length sub) (c # cs) = sub \<or> contains sub cs)"

text \<open>\<open>xs[:n]\<close>: a negative bound counts from the end.\<close>

definition py_slice_to :: "int \<Rightarrow> 'a list \<Rightarrow> 'a list" where
  "py_slice_to n xs = (if 0 \<le> n then take (nat n) xs else take (length xs - nat (- n)) xs)"

text \<open>The code points that \<open>str.strip()\<close> removes.\<close>

definition is_space :: "nat \<Rightarrow> bool" where
  "is_space c \<longleftrightarrow>
     (9 \<le> c \<and> c \<le> 13) \<or> (28 \<le> c \<and> c \<le> 32) \<or> c = 133 \<or> c = 160 \<or> c = 5760
     \<or> (8192 \<le> c \<and> c \<le> 8202) \<or> c = 8232 \<or> c = 8233 \<or> c = 8239 \<or> c = 8287 \<or> c = 12288"

definition py_strip :: "pystr \<Rightarrow> pystr" where
  "py_strip s = rev (dropWhile is_space (rev (dropWhile is_space s)))"

text \<open>One match of the vector store, as \<open>VectorStore.search_similar\<close> builds it. Scores
  are real numbers.\<close>

record search_result =
  content :: json
  metadata :: json
  similarity_score :: real
  distance :: real

text \<open>
  The query sent to the store: three keywords about leave (given by their code points)
  append a fixed suffix.
\<close>

definition enhanced_query :: "pystr \<Rightarrow> pystr" where
  "enhanced_query query =
     (if contains [24180, 20551] query \<or> contains [20241, 20551] query \<or> contains [20551, 26399] query
      then query @ [32, 20844, 21496, 25919, 31574, 32, 21592, 24037, 31119, 21033, 32, 20241, 20551, 21046, 24230]
      else query)"

definition filter_dict_of :: "pystr option \<Rightarrow> pydict option" where
  "filter_dict_of filter_category =
     (case filter_category of
        None \<Rightarrow> None
      | Some c \<Rightarrow> if c = [] then None else Some [(u ''category'', JStr c)])"

text \<open>
  The labelled block of one match. \<open>fmt3\<close> renders a score with three decimals
  (\<open>:.3f\<close>). The labels and the default \<open>unknown\<close> are the source's CJK literals.
  \<open>metadata.get\<close> raises when the metadata is not a \<open>dict\<close>.
\<close>

definition enriched_content ::
  "(json \<Rightarrow> pystr) \<Rightarrow> (real \<Rightarrow> pystr) \<Rightarrow> search_result \<Rightarrow> exn + pystr" where
  "enriched_content fmt fmt3 r =
     (case metadata r of
        JDict md \<Rightarrow>
          Inr (py_strip
            ([10] @ [25991, 26723, 26469, 28304, 58, 32]
                  @ py_format fmt (dget_default md (u ''filename'') (JStr [26410, 30693]))
             @ [10] @ [25991, 26723, 31867, 21035, 58, 32]
                  @ py_format fmt (dget_default md (u ''category'') (JStr [26410, 30693]))
             @ [10] @ [30456, 20284, 24230, 58, 32] @ fmt3 (similarity_score r)
             @ [10, 10] @ [20869, 23481, 58] @ [10]
             @ py_format fmt (content r) @ [10]))
      | _ \<Rightarrow> Inl (Exn AttributeError (u ''object has no attribute get'')))"

text \<open>The loop that builds \<open>documents\<close>: it stops at the first match that raises.\<close>

fun enrich_all ::
  "(json \<Rightarrow> pystr) \<Rightarrow> (real \<Rightarrow> pystr) \<Rightarrow> search_result list \<Rightarrow> exn + pystr list" where
  "enrich_all fmt fmt3 [] = Inr []"
| "enrich_all fmt fmt3 (r # rs) =
     (case enriched_content fmt fmt3 r of
        Inl e \<Rightarrow> Inl e
      | Inr doc \<Rightarrow> (case enrich_all fmt fmt3 rs of Inl e \<Rightarrow> Inl e | Inr docs \<Rightarrow> Inr (doc # docs)))"

definition has_dict_metadata :: "search_result \<Rightarrow> bool" where
  "has_dict_metadata r = (case metadata r of JDict md \<Rightarrow> True | _ \<Rightarrow> False)"

text \<open>
  \<open>DocumentRetriever.retrieve_documents\<close>. \<open>search\<close> is \<open>VectorStore.search_similar\<close>,
  which catches its own failures. The logging of the first five raw matches reads their
  metadata, so it raises on a match whose metadata is not a \<open>dict\<close>; every exception of
  the body ends in the handler that returns the empty list.
\<close>

definition retrieve_documents ::
  "(json \<Rightarrow> pystr) \<Rightarrow> (real \<Rightarrow> pystr) \<Rightarrow> (pystr \<Rightarrow> int \<Rightarrow> pydict option \<Rightarrow> search_result list)
   \<Rightarrow> pystr \<Rightarrow> int \<Rightarrow> pystr option \<Rightarrow> real \<Rightarrow> pystr list" where
  "retrieve_documents fmt fmt3 search query n_results filter_category min_similarity =
     (let filter_dict = filter_dict_of filter_category;
          search_results = search (enhanced_query query) (n_results * 4) filter_dict;
          filtered_results = filter (\<lambda>result. similarity_score result \<ge> min_similarity) search_results
      in if \<not> list_all has_dict_metadata (py_slice_to 5 search_results) then []
         else case enrich_all fmt fmt3 (py_slice_to n_results filtered_results) of
                Inl e \<Rightarrow> []
              | Inr documents \<Rightarrow> documents)"

text \<open>\<open>str.rstrip()\<close>.\<close>

definition py_rstrip :: "pystr \<Rightarrow> pystr" where
  "py_rstrip s = rev (dropWhile is_space (rev s))"

text \<open>
  The labelled block of a match, line by line as the specification describes it: the
  source label (four CJK characters, a colon, a space) and the file name; the category
  label and the category; the similarity label and the score with three decimals; an
  empty line; the content label (two CJK characters and a colon); then the raw content
  on the following lines, without trailing white space. A missing file name or category
  reads as the two CJK characters for "unknown".
\<close>

definition metadata_dict :: "search_result \<Rightarrow> pydict" where
  "metadata_dict r = (case metadata r of JDict md \<Rightarrow> md | v \<Rightarrow> [])"

definition block_text :: "(json \<Rightarrow> pystr) \<Rightarrow> (real \<Rightarrow> pystr) \<Rightarrow> search_result \<Rightarrow> pystr" where
  "block_text fmt fmt3 r =
     [25991, 26723, 26469, 28304, 58, 32]
       @ py_format fmt (dget_default (metadata_dict r) (u ''filename'') (JStr [26410, 30693])) @ [10]
     @ [25991, 26723, 31867, 21035, 58, 32]
       @ py_format fmt (dget_default (metadata_dict r) (u ''category'') (JStr [26410, 30693])) @ [10]
     @ [30456, 20284, 24230, 58, 32] @ fmt3 (similarity_score r) @ [10]
     @ [10]
     @ [20869, 23481, 58]
     @ py_rstrip ([10] @ py_format fmt (content r) @ [10])"

section \<open>The upload endpoint (src/api/routes.py, config/settings.py)\<close>

record settings =
  max_file_size :: int
  email_sender :: pystr
  email_password :: pystr
  default_recipient :: pystr

text \<open>\<open>s.split(sep)\<close> for a one-character separator.\<close>

fun split_on :: "nat \<Rightarrow> pystr \<Rightarrow> pystr list" where
  "split_on sep [] = [[]]"
| "split_on sep (c # cs) =
     (case split_on sep cs of
        [] \<Rightarrow> [[c]]
      | part # parts \<Rightarrow> if c = sep then [] # part # parts else (c # part) # parts)"

text \<open>\<open>s.rfind(c)\<close>: the last index of a character, if it occurs.\<close>

fun rfind :: "nat \<Rightarrow> pystr \<Rightarrow> nat option" where
  "rfind c [] = None"
| "rfind c (x # xs) =
     (case rfind c xs of
        Some i \<Rightarrow> Some (Suc i)
      | None \<Rightarrow> if x = c then Some 0 else None)"

text \<open>
  \<open>Path(p).suffix\<close> of pathlib on POSIX: the last component of the path (empty
  components and \<open>.\<close> are dropped), from its last dot on, unless that dot is the first or
  the last character of the component.
\<close>

definition path_name :: "pystr \<Rightarrow> pystr" where
  "path_name p =
     (case filter (\<lambda>part. part \<noteq> [] \<and> part \<noteq> u ''.'') (split_on 47 p) of
        [] \<Rightarrow> []
      | parts \<Rightarrow> last parts)"

definition path_suffix :: "pystr \<Rightarrow> pystr" where
  "path_suffix p =
     (let nm = path_name p in
      case rfind 46 nm of
        None \<Rightarrow> []
      | Some i \<Rightarrow> if 0 < i \<and> i < length nm - 1 then drop i nm else [])"

definition allowed_extensions :: "pystr list" where
  "allowed_extensions = [u ''.pdf'', u ''.docx'', u ''.txt'']"

text \<open>The uploaded file as the handler reads it, and what the file system and the id
  generator do during the call.\<close>

record upload_file =
  filename :: "pystr option"
  size' :: "int option"

record upload_env =
  new_uuid :: pystr
  save_error :: "exn option"
  content_length :: nat

record upload_response =
  resp_filename :: pystr
  resp_file_size :: int
  resp_upload_id :: pystr
  resp_status :: pystr

text \<open>What a block raises: an \<open>HTTPException\<close> with its status code, or another
  exception. The detail text of an \<open>HTTPException\<close> is not modelled.\<close>

datatype raised = RaisedHTTP int | RaisedPy exn

datatype http_exception = HTTPException int

text \<open>The body of the \<open>try\<close> of \<open>upload_document\<close>.\<close>

definition upload_body ::
  "(pystr \<Rightarrow> pystr) \<Rightarrow> settings \<Rightarrow> upload_env \<Rightarrow> upload_file \<Rightarrow> raised + upload_response" where
  "upload_body lower cfg env file =
     (case filename file of
        None \<Rightarrow> Inl (RaisedPy (Exn TypeError (u ''expected str, bytes or os.PathLike object, not NoneType'')))
      | Some fname \<Rightarrow>
          (let file_extension = lower (path_suffix fname) in
           if file_extension \<notin> set allowed_extensions then Inl (RaisedHTTP 400)
           else
             (case size' file of
                None \<Rightarrow> Inl (RaisedPy (Exn TypeError (u ''comparison not supported between NoneType and int'')))
              | Some sz \<Rightarrow>
                  if sz > max_file_size cfg then Inl (RaisedHTTP 400)
                  else
                    (case save_error env of
                       Some e \<Rightarrow> Inl (RaisedPy e)
                     | None \<Rightarrow>
                         Inr \<lparr>resp_filename = fname,
                              resp_file_size = int (content_length env),
                              resp_upload_id = new_uuid env,
                              resp_status = u ''uploaded''\<rparr>))))"

text \<open>
  \<open>upload_document\<close>: the \<open>try\<close> has one handler, \<open>except Exception\<close>. \<open>HTTPException\<close>
  is a subclass of \<open>Exception\<close>, so the handler catches whatever the body raises and
  raises \<open>HTTPException(status_code=500)\<close>.
\<close>

definition upload_document ::
  "(pystr \<Rightarrow> pystr) \<Rightarrow> settings \<Rightarrow> upload_env \<Rightarrow> upload_file \<Rightarrow> http_exception + upload_response" where
  "upload_document lower cfg env file =
     (case upload_body lower cfg env file of
        Inl (RaisedHTTP code) \<Rightarrow> Inl (HTTPException 500)
      | Inl (RaisedPy e) \<Rightarrow> Inl (HTTPException 500)
      | Inr resp \<Rightarrow> Inr resp)"

text \<open>The settings' literal defaults that the model reads.\<close>

definition default_settings :: settings where
  "default_settings =
     \<lparr>max_file_size = 10 * 1024 * 1024,
      email_sender = u ''208621381@qq.com'',
      email_password = u ''lgntvtzvjpzbbibc'',
      default_recipient = u ''example@company.com''\<rparr>"

section \<open>Calendar time normalisation (src/agents/knowledge\_agent.py)\<close>

text \<open>
  A \<open>datetime\<close>: the date as its proleptic Gregorian ordinal (\<open>date.toordinal()\<close>), and
  the time of day. The library accepts the ordinals 1 to 3652059 (year 9999).
\<close>

record datetime =
  dt_ordinal :: int
  dt_hour :: nat
  dt_minute :: nat
  dt_second :: nat
  dt_microsecond :: nat

definition max_ordinal :: int where
  "max_ordinal = 3652059"

text \<open>\<open>dt + timedelta(days=d)\<close> for \<open>d \<ge> 0\<close>.\<close>

definition add_days :: "datetime \<Rightarrow> int \<Rightarrow> exn + datetime" where
  "add_days dt d =
     (if dt_ordinal dt + d > max_ordinal then Inl (Exn OverflowError (u ''date value out of range''))
      else Inr (dt\<lparr>dt_ordinal := dt_ordinal dt + d\<rparr>))"

text \<open>\<open>dt + timedelta(hours=1)\<close>.\<close>

definition add_hour :: "datetime \<Rightarrow> exn + datetime" where
  "add_hour dt =
     (if dt_hour dt < 23 then Inr (dt\<lparr>dt_hour := dt_hour dt + 1\<rparr>)
      else if dt_ordinal dt + 1 > max_ordinal then Inl (Exn OverflowError (u ''date value out of range''))
      else Inr (dt\<lparr>dt_ordinal := dt_ordinal dt + 1, dt_hour := 0\<rparr>))"

text \<open>\<open>dt.replace(hour=h, minute=m, second=0, microsecond=0)\<close>.\<close>

definition replace_time :: "datetime \<Rightarrow> nat \<Rightarrow> nat \<Rightarrow> exn + datetime" where
  "replace_time dt h m =
     (if h > 23 then Inl (Exn ValueError (u ''hour must be in 0..23''))
      else if m > 59 then Inl (Exn ValueError (u ''minute must be in 0..59''))
      else Inr (dt\<lparr>dt_hour := h, dt_minute := m, dt_second := 0, dt_microsecond := 0\<rparr>))"

text \<open>Seconds since the start of day 0: the position of a \<open>datetime\<close> on the time line.\<close>

definition seconds_of :: "datetime \<Rightarrow> int" where
  "seconds_of dt = ((dt_ordinal dt * 24 + int (dt_hour dt)) * 60 + int (dt_minute dt)) * 60 + int (dt_second dt)"

text \<open>
  \<open>dt.strftime("%Y-%m-%dT%H:%M:%S")\<close>. The date part is the library's conversion of the
  ordinal to year, month and day, the parameter \<open>render_date\<close>; the time part is written
  out.
\<close>

definition two_digits :: "nat \<Rightarrow> pystr" where
  "two_digits n = [48 + n div 10 mod 10, 48 + n mod 10]"

definition strftime_iso :: "(int \<Rightarrow> pystr) \<Rightarrow> datetime \<Rightarrow> pystr" where
  "strftime_iso render_date dt =
     render_date (dt_ordinal dt) @ u ''T'' @ two_digits (dt_hour dt) @ u '':'' @ two_digits (dt_minute dt)
       @ u '':'' @ two_digits (dt_second dt)"

text \<open>
  The regular expressions. \<open>\d\<close> matches the Unicode decimal digits; their values are the
  interpreter's table \<open>dv\<close> (\<open>None\<close> for a code point that is not a digit). \<open>int\<close> of a
  matched group reads the digits in base ten.
\<close>

definition py_int :: "(nat \<Rightarrow> nat option) \<Rightarrow> pystr \<Rightarrow> nat" where
  "py_int dv digits = foldl (\<lambda>acc c. 10 * acc + (case dv c of Some d \<Rightarrow> d | None \<Rightarrow> 0)) 0 digits"

text \<open>
  \<open>(\d{1,2})\<close> followed by the rest of a pattern, at the start of the text: the group
  takes two digits if the rest then matches, and one digit otherwise (backtracking).
\<close>

definition match_digits ::
  "(nat \<Rightarrow> nat option) \<Rightarrow> (pystr \<Rightarrow> 'a option) \<Rightarrow> pystr \<Rightarrow> (pystr \<times> 'a) option" where
  "match_digits dv rest_of_pattern text =
     (case text of
        [] \<Rightarrow> None
      | a # t \<Rightarrow>
          if dv a = None then None
          else
            (case (case t of
                     b # t' \<Rightarrow> if dv b = None then None
                               else map_option (\<lambda>r. ([a, b], r)) (rest_of_pattern t')
                   | [] \<Rightarrow> None) of
               Some r \<Rightarrow> Some r
             | None \<Rightarrow> map_option (\<lambda>r. ([a], r)) (rest_of_pattern t)))"

text \<open>The character U+70B9 (the hour marker of the source's patterns).\<close>

definition match_dian :: "pystr \<Rightarrow> unit option" where
  "match_dian text = (case text of c # t \<Rightarrow> if c = 28857 then Some () else None | [] \<Rightarrow> None)"

text \<open>\<open>:(\d{2})\<close>.\<close>

definition match_colon_minutes :: "(nat \<Rightarrow> nat option) \<Rightarrow> pystr \<Rightarrow> pystr option" where
  "match_colon_minutes dv text =
     (case text of
        c # a # b # t \<Rightarrow> if c = 58 \<and> dv a \<noteq> None \<and> dv b \<noteq> None then Some [a, b] else None
      | _ \<Rightarrow> None)"

text \<open>
  The four entries of \<open>time_patterns\<close>, in the order of the source:
  \<^item> \<open>HourMark\<close>: \<open>(\d{1,2})\<close> then U+70B9;
  \<^item> \<open>AfternoonHour\<close>: U+4E0B U+5348 (afternoon), \<open>(\d{1,2})\<close>, U+70B9;
  \<^item> \<open>MorningHour\<close>: U+4E0A U+5348 (morning), \<open>(\d{1,2})\<close>, U+70B9;
  \<^item> \<open>HourMinute\<close>: \<open>(\d{1,2}):(\d{2})\<close>.
\<close>

datatype time_pattern = HourMark | AfternoonHour | MorningHour | HourMinute

definition time_patterns :: "time_pattern list" where
  "time_patterns = [HourMark, AfternoonHour, MorningHour, HourMinute]"

text \<open>A match of a pattern at the start of the text: its groups.\<close>

fun match_here :: "(nat \<Rightarrow> nat option) \<Rightarrow> time_pattern \<Rightarrow> pystr \<Rightarrow> pystr list option" where
  "match_here dv HourMark text = map_option (\<lambda>(g, r). [g]) (match_digits dv match_dian text)"
| "match_here dv AfternoonHour text =
     (case text of
        a # b # t \<Rightarrow> if a = 19979 \<and> b = 21320
                       then map_option (\<lambda>(g, r). [g]) (match_digits dv match_dian t) else None
      | _ \<Rightarrow> None)"
| "match_here dv MorningHour text =
     (case text of
        a # b # t \<Rightarrow> if a = 19978 \<and> b = 21320
                       then map_option (\<lambda>(g, r). [g]) (match_digits dv match_dian t) else None
      | _ \<Rightarrow> None)"
| "match_here dv HourMinute text =
     map_option (\<lambda>(g, g'). [g, g']) (match_digits dv (match_colon_minutes dv) text)"

text \<open>\<open>re.search\<close>: the match at the leftmost position that has one.\<close>

fun re_search :: "(nat \<Rightarrow> nat option) \<Rightarrow> time_pattern \<Rightarrow> pystr \<Rightarrow> pystr list option" where
  "re_search dv p [] = match_here dv p []"
| "re_search dv p (c # cs) =
     (case match_here dv p (c # cs) of
        Some groups \<Rightarrow> Some groups
      | None \<Rightarrow> re_search dv p cs)"

text \<open>\<open>m.group(i)\<close> as a number.\<close>

definition group_int :: "(nat \<Rightarrow> nat option) \<Rightarrow> pystr list \<Rightarrow> nat \<Rightarrow> nat" where
  "group_int dv groups i = (if i \<le> length groups \<and> 0 < i then py_int dv (groups ! (i - 1)) else 0)"

text \<open>The extractor paired with each pattern (the \<open>lambda\<close> of the source).\<close>

fun extractor :: "(nat \<Rightarrow> nat option) \<Rightarrow> pystr \<Rightarrow> time_pattern \<Rightarrow> pystr list \<Rightarrow> nat" where
  "extractor dv query HourMark m = group_int dv m 1"
| "extractor dv query AfternoonHour m =
     (if group_int dv m 1 < 12 then group_int dv m 1 + 12 else group_int dv m 1)"
| "extractor dv query MorningHour m = group_int dv m 1"
| "extractor dv query HourMinute m =
     group_int dv m 1 + (if contains [19979, 21320] query \<and> group_int dv m 1 < 12 then 12 else 0)"

text \<open>\<open>":(" in pattern\<close>: true of the last pattern only.\<close>

fun has_minute_group :: "time_pattern \<Rightarrow> bool" where
  "has_minute_group HourMinute = True"
| "has_minute_group p = False"

text \<open>
  The loop over \<open>time_patterns\<close>, from the defaults \<open>hour = 14\<close>, \<open>minute = 0\<close>: the first
  pattern that matches sets the hour (and the minute, for the last pattern) and ends the
  loop with \<open>break\<close>.
\<close>

fun scan_time_patterns ::
  "(nat \<Rightarrow> nat option) \<Rightarrow> pystr \<Rightarrow> time_pattern list \<Rightarrow> nat \<times> nat \<Rightarrow> nat \<times> nat" where
  "scan_time_patterns dv query [] (hour, minute) = (hour, minute)"
| "scan_time_patterns dv query (p # ps) (hour, minute) =
     (case re_search dv p query of
        Some m \<Rightarrow>
          if has_minute_group p then (extractor dv query p m, group_int dv m 2)
          else (extractor dv query p m, minute)
      | None \<Rightarrow> scan_time_patterns dv query ps (hour, minute))"

text \<open>The day offset: tomorrow, the day after tomorrow, today (the three two-character
  words of the source, tested in this order), tomorrow by default.\<close>

definition day_offset :: "pystr \<Rightarrow> int" where
  "day_offset query =
     (if contains [26126, 22825] query then 1
      else if contains [21518, 22825] query then 2
      else if contains [20170, 22825] query then 0
      else 1)"

text \<open>\<open>_process_calendar_time\<close>. \<open>now\<close> is the reading of \<open>datetime.now()\<close>.\<close>

definition process_calendar_time ::
  "(nat \<Rightarrow> nat option) \<Rightarrow> (int \<Rightarrow> pystr) \<Rightarrow> datetime \<Rightarrow> pydict \<Rightarrow> pystr \<Rightarrow> exn + pydict" where
  "process_calendar_time dv render_date now params query =
     (case add_days now (day_offset query) of
        Inl e \<Rightarrow> Inl e
      | Inr target_date \<Rightarrow>
          (let (hour, minute) = scan_time_patterns dv query time_patterns (14, 0) in
           case replace_time target_date hour minute of
             Inl e \<Rightarrow> Inl e
           | Inr start_dt \<Rightarrow>
               (case add_hour start_dt of
                  Inl e \<Rightarrow> Inl e
                | Inr end_dt \<Rightarrow>
                    Inr (dset (dset params (u ''start_time'') (JStr (strftime_iso render_date start_dt)))
                           (u ''end_time'') (JStr (strftime_iso render_date end_dt))))))"

section \<open>Parameter extraction (src/agents/knowledge\_agent.py)\<close>

text \<open>
  Computations that act on the world outside the agent (the completion API, the clock, the
  tools' stores) and may raise: they take the world and return the outcome with the world
  after the call.
\<close>

type_synonym ('a, 'w) action = "'w \<Rightarrow> (exn + 'a) \<times> 'w"

definition py_return :: "'a \<Rightarrow> ('a, 'w) action" where
  "py_return a w = (Inr a, w)"

definition py_raise :: "exn \<Rightarrow> ('a, 'w) action" where
  "py_raise e w = (Inl e, w)"

definition py_pure :: "exn + 'a \<Rightarrow> ('a, 'w) action" where
  "py_pure r w = (r, w)"

definition py_bind :: "('a, 'w) action \<Rightarrow> ('a \<Rightarrow> ('b, 'w) action) \<Rightarrow> ('b, 'w) action" where
  "py_bind m f w = (case m w of (Inl e, w') \<Rightarrow> (Inl e, w') | (Inr a, w') \<Rightarrow> f a w')"

text \<open>
  What the agent takes from outside its own code:
  \<^item> \<open>env_llm category query\<close>: the completion call of the intelligent extraction with
    the prompt of the category, the search for a JSON object in the reply and its
    parsing; it raises on a timeout, an API failure, a reply with no JSON object or one
    that does not parse, and returns the parsed object otherwise;
  \<^item> \<open>env_now\<close>: the reading of \<open>datetime.now()\<close>;
  \<^item> \<open>env_digit\<close>, \<open>env_render_date\<close>: the interpreter's digit table and date rendering;
  \<^item> \<open>env_settings\<close>: the settings;
  \<^item> \<open>env_fallback query category\<close>: \<open>_fallback_parameter_extraction\<close>, left
    unconstrained;
  \<^item> \<open>env_email_with_meeting query meeting_info\<close>:
    \<open>_extract_email_parameters_with_meeting\<close>, left unconstrained.
\<close>

record 'w agent_env =
  env_llm :: "pystr \<Rightarrow> pystr \<Rightarrow> (pydict, 'w) action"
  env_now :: "'w \<Rightarrow> datetime"
  env_digit :: "nat \<Rightarrow> nat option"
  env_render_date :: "int \<Rightarrow> pystr"
  env_settings :: settings
  env_fallback :: "pystr \<Rightarrow> pystr \<Rightarrow> (json, 'w) action"
  env_email_with_meeting :: "pystr \<Rightarrow> json \<Rightarrow> (pydict, 'w) action"

text \<open>\<open>params.get(k) in (None, "", "__AUTO__")\<close>.\<close>

definition is_auto :: "json option \<Rightarrow> bool" where
  "is_auto v \<longleftrightarrow> v = None \<or> v = Some JNone \<or> v = Some (JStr []) \<or> v = Some (JStr (u ''__AUTO__''))"

text \<open>The sender injected from the settings (the same code in both extraction
  functions).\<close>

definition inject_sender :: "settings \<Rightarrow> pydict \<Rightarrow> pydict" where
  "inject_sender cfg params =
     (let p1 = (if is_auto (dget params (u ''sender_email''))
                then dset params (u ''sender_email'') (JStr (email_sender cfg)) else params)
      in if is_auto (dget p1 (u ''sender_password''))
         then dset p1 (u ''sender_password'') (JStr (email_password cfg)) else p1)"

text \<open>The default recipient: unless \<open>to_addresses\<close> is a non-empty list.\<close>

definition inject_recipient :: "settings \<Rightarrow> pydict \<Rightarrow> pydict" where
  "inject_recipient cfg params =
     (case dget params (u ''to_addresses'') of
        Some (JList (a # as)) \<Rightarrow> params
      | _ \<Rightarrow> dset params (u ''to_addresses'') (JList [JStr (default_recipient cfg)]))"

text \<open>
  \<open>_intelligent_parameter_extraction\<close>: a category other than the three known ones
  returns \<open>{}\<close> before any call; otherwise the parsed reply goes through the time
  normalisation (calendar, action \<open>create\<close>) or the sender and recipient defaults (email).
  An exception of the time normalisation is not a \<open>JSONDecodeError\<close>, so it leaves the
  function.
\<close>

definition intelligent_parameter_extraction ::
  "'w agent_env \<Rightarrow> pystr \<Rightarrow> pystr \<Rightarrow> (pydict, 'w) action" where
  "intelligent_parameter_extraction env query tool_category =
     (if tool_category \<noteq> u ''calendar'' \<and> tool_category \<noteq> u ''email'' \<and> tool_category \<noteq> u ''file''
      then py_return []
      else py_bind (env_llm env tool_category query) (\<lambda>params.
        py_bind
          (if tool_category = u ''calendar'' \<and> dget params (u ''action'') = Some (JStr (u ''create''))
           then (\<lambda>w. (process_calendar_time (env_digit env) (env_render_date env) (env_now env w) params query, w))
           else py_return params) (\<lambda>params1.
        py_return
          (if tool_category = u ''email''
           then inject_sender (env_settings env) (inject_recipient (env_settings env) params1)
           else params1))))"

text \<open>\<open>params.setdefault(k, v)\<close>.\<close>

definition setdefault :: "pydict \<Rightarrow> pystr \<Rightarrow> json \<Rightarrow> pydict" where
  "setdefault d k v = (case dget d k of None \<Rightarrow> d @ [(k, v)] | Some v' \<Rightarrow> d)"

text \<open>The defaults of each category at the end of \<open>_extract_tool_parameters\<close>.\<close>

definition category_defaults :: "settings \<Rightarrow> pystr \<Rightarrow> pydict \<Rightarrow> pydict" where
  "category_defaults cfg tool_category params =
     (if tool_category = u ''calendar'' then
        (let p1 = setdefault params (u ''tool_name'') (JStr (u ''calendar_event''))
         in dset p1 (u ''action'') (dget_default p1 (u ''action'') (JStr (u ''create''))))
      else if tool_category = u ''email'' then
        (let p1 = setdefault params (u ''tool_name'') (JStr (u ''email_send''));
             p2 = (case dget p1 (u ''to_addresses'') of
                     Some (JStr to_addr) \<Rightarrow> dset p1 (u ''to_addresses'') (JList [JStr to_addr])
                   | _ \<Rightarrow> p1)
         in inject_sender cfg p2)
      else if tool_category = u ''file'' then
        (let p1 = setdefault params (u ''tool_name'') (JStr (u ''file_search''))
         in if dget p1 (u ''tool_name'') = Some (JStr (u ''file_search''))
            then setdefault (setdefault (setdefault p1 (u ''directory'') (JStr (u ''./'')))
                               (u ''filename_pattern'') (JStr (u ''*'')))
                   (u ''recursive'') (JBool True)
            else p1)
      else params)"

text \<open>
  \<open>_extract_tool_parameters\<close>: the intelligent extraction, the fallback when it raises
  (an exception of the fallback leaves the function), \<open>{}\<close> for a result that is not a
  \<open>dict\<close>, then the defaults of the category.
\<close>

definition extract_tool_parameters ::
  "'w agent_env \<Rightarrow> pystr \<Rightarrow> pystr \<Rightarrow> (pydict, 'w) action" where
  "extract_tool_parameters env query tool_category w =
     (case intelligent_parameter_extraction env query tool_category w of
        (Inr params, w1) \<Rightarrow> (Inr (category_defaults (env_settings env) tool_category params), w1)
      | (Inl e, w1) \<Rightarrow>
          (case env_fallback env query tool_category w1 of
             (Inl e', w2) \<Rightarrow> (Inl e', w2)
           | (Inr (JDict params), w2) \<Rightarrow>
               (Inr (category_defaults (env_settings env) tool_category params), w2)
           | (Inr v, w2) \<Rightarrow> (Inr (category_defaults (env_settings env) tool_category []), w2)))"

text \<open>The ASCII digits: the instance of the interpreter's digit table used to run the
  model on concrete inputs.\<close>

definition ascii_digit :: "nat \<Rightarrow> nat option" where
  "ascii_digit c = (if 48 \<le> c \<and> c \<le> 57 then Some (c - 48) else None)"

text \<open>
  A fixture to run the agent on concrete inputs: the completion API answers from a fixed
  table by category, the clock reads 2024-01-15 09:30:12, dates are rendered for January
  2024 (ordinal 738886 is 2024-01-01), the fallback returns \<open>{}\<close>.
\<close>

definition render_january_2024 :: "int \<Rightarrow> pystr" where
  "render_january_2024 i = u ''2024-01-'' @ two_digits (nat (i - 738885))"

definition scripted_env :: "(pystr \<Rightarrow> pydict) \<Rightarrow> 'w agent_env" where
  "scripted_env replies =
     \<lparr>env_llm = (\<lambda>category query. py_return (replies category)),
      env_now = (\<lambda>w. \<lparr>dt_ordinal = 738900, dt_hour = 9, dt_minute = 30, dt_second = 12, dt_microsecond = 5\<rparr>),
      env_digit = ascii_digit,
      env_render_date = render_january_2024,
      env_settings = default_settings,
      env_fallback = (\<lambda>query category. py_return (JDict [])),
      env_email_with_meeting = (\<lambda>query meeting_info. py_return [])\<rparr>"

section \<open>Composite tool execution (src/agents/knowledge\_agent.py)\<close>

text \<open>Sequencing of computations that may raise.\<close>

definition try_bind :: "exn + 'a \<Rightarrow> ('a \<Rightarrow> exn + 'b) \<Rightarrow> exn + 'b" where
  "try_bind r f = (case r of Inl e \<Rightarrow> Inl e | Inr a \<Rightarrow> f a)"

text \<open>\<open>v.get(k, default)\<close>, \<open>v.copy()\<close> and iteration, on a value that need not have
  them.\<close>

fun py_get :: "json \<Rightarrow> pystr \<Rightarrow> json \<Rightarrow> exn + json" where
  "py_get (JDict d) k dflt = Inr (dget_default d k dflt)"
| "py_get v k dflt = Inl (Exn AttributeError (u ''object has no attribute get''))"

fun py_copy :: "json \<Rightarrow> exn + json" where
  "py_copy (JDict d) = Inr (JDict d)"
| "py_copy (JList xs) = Inr (JList xs)"
| "py_copy v = Inl (Exn AttributeError (u ''object has no attribute copy''))"

fun py_iter :: "json \<Rightarrow> exn + json list" where
  "py_iter (JList xs) = Inr xs"
| "py_iter (JStr s) = Inr (map (\<lambda>c. JStr [c]) s)"
| "py_iter (JDict d) = Inr (map (\<lambda>(k, v). JStr k) d)"
| "py_iter v = Inl (Exn TypeError (u ''object is not iterable''))"

text \<open>
  A tool collection (\<open>FileTools\<close>, \<open>EmailTools\<close>, \<open>CalendarTools\<close>): the name of its class,
  its tools by name, and the text of its error for an unknown name. \<open>execute_tool(self, tool_name, **kwargs)\<close>
  raises at the call when the parameters carry the key \<open>self\<close> or \<open>tool_name\<close> (at the
  first of them in the order of the map), raises
  for a name that is not registered, and otherwise runs the tool through \<open>safe_execute\<close>.
\<close>

record 'w tool_collection =
  collection_class :: pystr
  collection_tools :: "(pystr \<times> 'w mcp_tool) list"
  unknown_tool_text :: pystr

definition collection_execute_tool ::
  "(json \<Rightarrow> pystr) \<Rightarrow> 'w tool_collection \<Rightarrow> json \<Rightarrow> pydict \<Rightarrow> (json, 'w) action" where
  "collection_execute_tool fmt coll tool_name kwargs =
     (case find (\<lambda>k. k = u ''self'' \<or> k = u ''tool_name'') (map fst kwargs) of
        Some k \<Rightarrow> py_raise (multiple_values (collection_class coll @ u ''.execute_tool'') k)
      | None \<Rightarrow>
        (case tool_name of
           JStr nm \<Rightarrow>
             (case map_of (collection_tools coll) nm of
                None \<Rightarrow> py_raise (Exn ValueError (unknown_tool_text coll @ nm))
              | Some t \<Rightarrow> safe_execute t kwargs)
         | JList xs \<Rightarrow> py_raise (Exn TypeError (u ''unhashable type: list''))
         | JDict d \<Rightarrow> py_raise (Exn TypeError (u ''unhashable type: dict''))
         | v \<Rightarrow> py_raise (Exn ValueError (unknown_tool_text coll @ fmt v))))"

text \<open>\<open>r.get("result", {}).get("event", default)\<close>.\<close>

definition result_event :: "json \<Rightarrow> json \<Rightarrow> exn + json" where
  "result_event r dflt = try_bind (py_get r (u ''result'') (JDict [])) (\<lambda>res. py_get res (u ''event'') dflt)"

text \<open>The meeting information kept after one meeting of a multiple creation: the event
  of the first successful result.\<close>

definition first_meeting_info :: "json \<Rightarrow> json \<Rightarrow> exn + json" where
  "first_meeting_info meeting_info meeting_result =
     (if truthy meeting_info then Inr meeting_info
      else try_bind (py_get meeting_result (u ''success'') JNone) (\<lambda>success.
        if \<not> truthy success then Inr meeting_info
        else try_bind (result_event meeting_result JNone) (\<lambda>ev.
          if truthy ev then try_bind (result_event meeting_result (JDict [])) py_copy
          else Inr (JDict []))))"

text \<open>The error of a missing tool name (the source's message, by its code points).\<close>

definition missing_tool_name :: exn where
  "missing_tool_name =
     Exn ValueError [32570, 23569, 24517, 35201, 30340, 116, 111, 111, 108, 95, 110, 97, 109, 101, 21442, 25968]"

definition starts_with_underscore :: "pystr \<Rightarrow> bool" where
  "starts_with_underscore k = (case k of c # cs \<Rightarrow> c = 95 | [] \<Rightarrow> False)"

text \<open>The loop that creates the meetings of a multiple creation.\<close>

fun create_meetings ::
  "(json \<Rightarrow> pystr) \<Rightarrow> 'w tool_collection \<Rightarrow> json list \<Rightarrow> json list \<times> json \<Rightarrow> (json list \<times> json, 'w) action" where
  "create_meetings fmt tool_instance [] (meeting_results, meeting_info) =
     py_return (meeting_results, meeting_info)"
| "create_meetings fmt tool_instance (meeting_params # rest) (meeting_results, meeting_info) =
     (case meeting_params of
        JDict mp \<Rightarrow>
          (let clean_params = filter (\<lambda>(k, v). \<not> starts_with_underscore k) mp;
               tool_name = dget_default clean_params (u ''tool_name'') JNone
           in if \<not> truthy tool_name then py_raise missing_tool_name
              else py_bind (collection_execute_tool fmt tool_instance tool_name
                              (ddel clean_params (u ''tool_name''))) (\<lambda>meeting_result.
                   py_bind (py_pure (first_meeting_info meeting_info meeting_result)) (\<lambda>meeting_info'.
                   create_meetings fmt tool_instance rest
                     (meeting_results @ [meeting_result], meeting_info'))))
      | v \<Rightarrow> py_raise (Exn AttributeError (u ''object has no attribute items'')))"

text \<open>The copies of the events of the successful results.\<close>

fun successful_meetings :: "json list \<Rightarrow> exn + json list" where
  "successful_meetings [] = Inr []"
| "successful_meetings (r # rs) =
     try_bind (py_get r (u ''success'') JNone) (\<lambda>success.
     try_bind (if truthy success
               then try_bind (result_event r (JDict [])) (\<lambda>event.
                      if truthy event then try_bind (py_copy event) (\<lambda>c. Inr [c]) else Inr [])
               else Inr []) (\<lambda>this.
     try_bind (successful_meetings rs) (\<lambda>others. Inr (this @ others))))"

text \<open>\<open>all(r.get("success", False) for r in meeting_results)\<close>.\<close>

fun all_succeeded :: "json list \<Rightarrow> exn + bool" where
  "all_succeeded [] = Inr True"
| "all_succeeded (r # rs) =
     try_bind (py_get r (u ''success'') (JBool False)) (\<lambda>success.
       if truthy success then all_succeeded rs else Inr False)"

text \<open>
  The template step of an email send: when \<open>template\<close> is a \<open>dict\<close>, the template tool is
  run and a missing subject or body is taken from its result; any exception of the step
  is logged and ignored, keeping the parameters as they are at that point.
\<close>

definition apply_email_template ::
  "(json \<Rightarrow> pystr) \<Rightarrow> 'w tool_collection \<Rightarrow> pydict \<Rightarrow> (pydict, 'w) action" where
  "apply_email_template fmt tool_instance tool_params w =
     (case dget tool_params (u ''template'') of
        Some (JDict template_info) \<Rightarrow>
          (case collection_execute_tool fmt tool_instance (JStr (u ''email_template'')) template_info w of
             (Inl e, w') \<Rightarrow> (Inr tool_params, w')
           | (Inr template_result, w') \<Rightarrow>
               if \<not> truthy template_result then (Inr tool_params, w')
               else
                 (case (if truthy (dget_default tool_params (u ''subject'') JNone) then Inr tool_params
                        else try_bind (py_get template_result (u ''subject'') JNone)
                               (\<lambda>s. Inr (dset tool_params (u ''subject'') s))) of
                    Inl e \<Rightarrow> (Inr tool_params, w')
                  | Inr p1 \<Rightarrow>
                      (case (if truthy (dget_default p1 (u ''body'') JNone) then Inr p1
                             else try_bind (py_get template_result (u ''body'') JNone)
                                    (\<lambda>b. Inr (dset p1 (u ''body'') b))) of
                         Inl e \<Rightarrow> (Inr p1, w')
                       | Inr p2 \<Rightarrow> (Inr p2, w'))))
      | _ \<Rightarrow> (Inr tool_params, w))"

text \<open>The meeting information kept after a single calendar tool has run.\<close>

definition created_meeting_info :: "json \<Rightarrow> json \<Rightarrow> exn + json" where
  "created_meeting_info meeting_info result =
     try_bind (py_get result (u ''success'') JNone) (\<lambda>success.
       if \<not> truthy success then Inr meeting_info
       else try_bind (try_bind (py_get result (u ''result'') (JDict []))
                        (\<lambda>res. py_get res (u ''action'') JNone)) (\<lambda>action.
         if action = JStr (u ''create'') then result_event result (JDict []) else Inr meeting_info))"

text \<open>
  One turn of the loop of \<open>_execute_composite_tools\<close>, on the loop's variables
  \<open>(results, all_success, meeting_info)\<close>. A category that is not in the tool map sets
  \<open>all_success\<close> to \<open>False\<close> and continues with the next one.
\<close>

definition run_category ::
  "'w agent_env \<Rightarrow> (json \<Rightarrow> pystr) \<Rightarrow> (pystr \<times> 'w tool_collection) list \<Rightarrow> pystr \<Rightarrow> pystr
   \<Rightarrow> json list \<times> bool \<times> json \<Rightarrow> (json list \<times> bool \<times> json, 'w) action" where
  "run_category env fmt tools_map query category st =
     (case st of (results, all_success, meeting_info) \<Rightarrow>
      (case map_of tools_map category of
         None \<Rightarrow> py_return (results, False, meeting_info)
       | Some tool_instance \<Rightarrow>
           py_bind (if category = u ''email'' \<and> truthy meeting_info
                    then env_email_with_meeting env query meeting_info
                    else extract_tool_parameters env query category) (\<lambda>tool_params.
           if category = u ''calendar'' \<and> dget tool_params (u ''_multiple_meetings'') \<noteq> None then
             py_bind (py_pure (py_iter (dget_default tool_params (u ''_multiple_meetings'') JNone))) (\<lambda>meetings.
             py_bind (create_meetings fmt tool_instance meetings ([], meeting_info)) (\<lambda>(meeting_results, meeting_info1).
             py_bind (py_pure (successful_meetings meeting_results)) (\<lambda>successful.
             py_bind (py_pure (all_succeeded meeting_results)) (\<lambda>ok.
               py_return
                 (results @
                    [JDict [(u ''category'', JStr category),
                            (u ''result'',
                               JDict [(u ''success'', JBool ok),
                                      (u ''result'',
                                         JDict [(u ''action'', JStr (u ''create_multiple'')),
                                                (u ''meetings'', JList successful),
                                                (u ''total_created'', JInt (int (length successful)))])]),
                            (u ''tool_params'', JDict (ddel tool_params (u ''_multiple_meetings'')))]],
                  all_success,
                  if successful \<noteq> []
                  then JDict [(u ''meetings'', JList successful),
                              (u ''total_created'', JInt (int (length successful)))]
                  else meeting_info1)))))
           else
             py_bind (if category = u ''email'' then apply_email_template fmt tool_instance tool_params
                      else py_return tool_params) (\<lambda>tool_params1.
             if \<not> truthy (dget_default tool_params1 (u ''tool_name'') JNone) then py_raise missing_tool_name
             else
               py_bind (collection_execute_tool fmt tool_instance
                          (dget_default tool_params1 (u ''tool_name'') JNone)
                          (ddel tool_params1 (u ''tool_name''))) (\<lambda>result.
               py_bind (py_pure (if category = u ''calendar'' then created_meeting_info meeting_info result
                                 else Inr meeting_info)) (\<lambda>meeting_info1.
                 py_return
                   (results @
                      [JDict [(u ''category'', JStr category),
                              (u ''result'', result),
                              (u ''tool_params'', JDict tool_params1)]],
                    all_success, meeting_info1)))))))"

text \<open>The loop over the categories, in the order listed; an exception ends it.\<close>

fun composite_loop ::
  "'w agent_env \<Rightarrow> (json \<Rightarrow> pystr) \<Rightarrow> (pystr \<times> 'w tool_collection) list \<Rightarrow> pystr \<Rightarrow> pystr list
   \<Rightarrow> json list \<times> bool \<times> json \<Rightarrow> (json list \<times> bool \<times> json, 'w) action" where
  "composite_loop env fmt tools_map query [] st = py_return st"
| "composite_loop env fmt tools_map query (category # categories) st =
     py_bind (run_category env fmt tools_map query category st)
       (composite_loop env fmt tools_map query categories)"

text \<open>\<open>[cat.strip() for cat in tool_category.split("|")]\<close>.\<close>

definition categories_of :: "pystr \<Rightarrow> pystr list" where
  "categories_of tool_category = map py_strip (split_on 124 tool_category)"

text \<open>
  \<open>_execute_composite_tools\<close>: the envelope of a loop that ran to its end, and the
  envelope of the handler \<open>except Exception\<close> around the whole body.
\<close>

definition execute_composite_tools ::
  "'w agent_env \<Rightarrow> (json \<Rightarrow> pystr) \<Rightarrow> (pystr \<times> 'w tool_collection) list \<Rightarrow> pystr \<Rightarrow> pystr
   \<Rightarrow> 'w \<Rightarrow> json \<times> 'w" where
  "execute_composite_tools env fmt tools_map tool_category query w =
     (case composite_loop env fmt tools_map query (categories_of tool_category) ([], True, JNone) w of
        (Inr (results, all_success, meeting_info), w') \<Rightarrow>
          (JDict [(u ''success'', JBool all_success),
                  (u ''result'',
                     JDict [(u ''composite_results'', JList results),
                            (u ''total_tools'', JInt (int (length (categories_of tool_category)))),
                            (u ''executed_tools'', JInt (int (length results)))]),
                  (u ''tool_category'', JStr tool_category),
                  (u ''tool_params'', JDict [(u ''composite'', JBool True)])], w')
      | (Inl e, w') \<Rightarrow>
          (JDict [(u ''success'', JBool False),
                  (u ''error'', JStr (exn_str e)),
                  (u ''tool_category'', JStr tool_category)], w'))"

text \<open>
  The tool map as \<open>_init_tools\<close> builds it. The calendar and email collections hold the
  tools modelled above beside a second tool each (scheduling, templates); the tools that
  are not modelled are parameters.
\<close>

definition tools_map_of ::
  "'w tool_collection \<Rightarrow> 'w tool_collection \<Rightarrow> 'w tool_collection \<Rightarrow> (pystr \<times> 'w tool_collection) list" where
  "tools_map_of file_tools email_tools calendar_tools =
     [(u ''file'', file_tools), (u ''email'', email_tools), (u ''calendar'', calendar_tools)]"

definition CalendarTools :: "json list mcp_tool \<Rightarrow> json list mcp_tool \<Rightarrow> (json list) tool_collection" where
  \<comment> \<open>the unknown-tool text is the source's seven CJK characters, a colon and a space\<close>
  "CalendarTools calendar_event smart_scheduling =
     \<lparr>collection_class = u ''CalendarTools'',
      collection_tools = [(u ''calendar_event'', calendar_event), (u ''smart_scheduling'', smart_scheduling)],
      unknown_tool_text = [26410, 30693, 30340, 26085, 21382, 24037, 20855, 58, 32]\<rparr>"

text \<open>
  The executions of a composite run, told step by step: \<open>composite_trace cats mi w es w'\<close>
  says that going through the categories \<open>cats\<close> from the meeting information \<open>mi\<close> and
  the world \<open>w\<close>, without an exception, the categories of the tool map were executed
  one after the other with the entries \<open>es\<close> (category, result, tool parameters), ending
  in the world \<open>w'\<close>.
  \<^item> A category outside the tool map executes nothing.
  \<^item> A category of the tool map with a single tool: its parameters are extracted (from the
    meeting, for an email after a meeting; by the extraction otherwise), the template step
    runs for an email, and the entry's result is what the collection's \<open>execute_tool\<close>
    returns for the tool name and the other parameters.
  \<^item> A calendar request with the marker \<open>_multiple_meetings\<close>: every meeting is created
    in turn, and the entry's result is the aggregate of the meetings created.
\<close>

inductive composite_trace ::
  "'w agent_env \<Rightarrow> (json \<Rightarrow> pystr) \<Rightarrow> (pystr \<times> 'w tool_collection) list \<Rightarrow> pystr
   \<Rightarrow> pystr list \<Rightarrow> json \<Rightarrow> 'w \<Rightarrow> (pystr \<times> json \<times> pydict) list \<Rightarrow> 'w \<Rightarrow> bool"
  for env :: "'w agent_env" and fmt :: "json \<Rightarrow> pystr" and tm :: "(pystr \<times> 'w tool_collection) list"
    and q :: pystr where
  trace_end:
    "composite_trace env fmt tm q [] mi w [] w"
| trace_unknown:
    "map_of tm c = None \<Longrightarrow>
     composite_trace env fmt tm q cats mi w es w' \<Longrightarrow>
     composite_trace env fmt tm q (c # cats) mi w es w'"
| trace_tool:
    "map_of tm c = Some inst \<Longrightarrow>
     (if c = u ''email'' \<and> truthy mi then env_email_with_meeting env q mi
      else extract_tool_parameters env q c) w = (Inr tp0, w1) \<Longrightarrow>
     \<not> (c = u ''calendar'' \<and> dget tp0 (u ''_multiple_meetings'') \<noteq> None) \<Longrightarrow>
     (if c = u ''email'' then apply_email_template fmt inst tp0 else py_return tp0) w1 = (Inr tp, w2) \<Longrightarrow>
     truthy (dget_default tp (u ''tool_name'') JNone) \<Longrightarrow>
     collection_execute_tool fmt inst (dget_default tp (u ''tool_name'') JNone) (ddel tp (u ''tool_name'')) w2
       = (Inr r, w3) \<Longrightarrow>
     (if c = u ''calendar'' then created_meeting_info mi r else Inr mi) = Inr mi1 \<Longrightarrow>
     composite_trace env fmt tm q cats mi1 w3 es w' \<Longrightarrow>
     composite_trace env fmt tm q (c # cats) mi w ((c, r, tp) # es) w'"
| trace_meetings:
    "map_of tm c = Some inst \<Longrightarrow>
     c = u ''calendar'' \<Longrightarrow>
     extract_tool_parameters env q c w = (Inr tp0, w1) \<Longrightarrow>
     dget tp0 (u ''_multiple_meetings'') = Some marker \<Longrightarrow>
     py_iter marker = Inr meetings \<Longrightarrow>
     create_meetings fmt inst meetings ([], mi) w1 = (Inr (meeting_results, mi1), w2) \<Longrightarrow>
     successful_meetings meeting_results = Inr successful \<Longrightarrow>
     all_succeeded meeting_results = Inr ok \<Longrightarrow>
     composite_trace env fmt tm q cats
       (if successful \<noteq> []
        then JDict [(u ''meetings'', JList successful), (u ''total_created'', JInt (int (length successful)))]
        else mi1) w2 es w' \<Longrightarrow>
     composite_trace env fmt tm q (c # cats) mi w
       ((c,
         JDict [(u ''success'', JBool ok),
                (u ''result'',
                   JDict [(u ''action'', JStr (u ''create_multiple'')),
                          (u ''meetings'', JList successful),
                          (u ''total_created'', JInt (int (length successful)))])],
         ddel tp0 (u ''_multiple_meetings'')) # es) w'"

text \<open>The entry of \<open>composite_results\<close> for one executed category.\<close>

definition composite_entry :: "pystr \<times> json \<times> pydict \<Rightarrow> json" where
  "composite_entry x =
     (case x of (category, result, tool_params) \<Rightarrow>
        JDict [(u ''category'', JStr category), (u ''result'', result), (u ''tool_params'', JDict tool_params)])"

text \<open>
  A fixture to run the composite execution on concrete inputs: the world is the calendar's
  event list; the tool map registers the seven tools of the source under their names, the
  calendar event tool as modelled above and the others as tools that return \<open>None\<close>.
\<close>

definition stub_tool :: "pystr \<Rightarrow> 'w mcp_tool" where
  "stub_tool nm = \<lparr>name = nm, execute = (\<lambda>kwargs. py_return JNone)\<rparr>"

definition fixture_tools_map :: "(pystr \<times> (json list) tool_collection) list" where
  "fixture_tools_map =
     tools_map_of
       \<lparr>collection_class = u ''FileTools'',
        collection_tools = [(u ''file_search'', stub_tool (u ''file_search'')),
                            (u ''file_read'', stub_tool (u ''file_read'')),
                            (u ''file_write'', stub_tool (u ''file_write''))],
        unknown_tool_text = [26410, 30693, 30340, 25991, 20214, 24037, 20855, 58, 32]\<rparr>
       \<lparr>collection_class = u ''EmailTools'',
        collection_tools = [(u ''email_send'', stub_tool (u ''email_send'')),
                            (u ''email_template'', stub_tool (u ''email_template''))],
        unknown_tool_text = [26410, 30693, 30340, 37038, 20214, 24037, 20855, 58, 32]\<rparr>
       (CalendarTools
          (CalendarEventTool (\<lambda>v. []) \<lparr>now_timestamp = u ''1705311012.0'', now_isoformat = u ''2024-01-15T09:30:12''\<rparr>)
          (stub_tool (u ''smart_scheduling'')))"

section \<open>The action-execution node of the workflow (src/agents/workflow.py)\<close>

definition sensitive_keys :: "pystr list" where
  "sensitive_keys =
     [u ''password'', u ''sender_password'', u ''api_key'', u ''token'', u ''secret'', u ''authorization'']"

text \<open>
  \<open>_redact\<close>. \<open>lower\<close> is \<open>str.lower\<close>, a table of the interpreter. The items of a
  \<open>dict\<close> and the elements of a \<open>list\<close> are visited in order; the keys of a \<open>dict\<close> are
  distinct, so the \<open>dict\<close> built has one item for each item visited.
\<close>

fun redact :: "(pystr \<Rightarrow> pystr) \<Rightarrow> json \<Rightarrow> json"
  and redact_items :: "(pystr \<Rightarrow> pystr) \<Rightarrow> pydict \<Rightarrow> pydict"
  and redact_list :: "(pystr \<Rightarrow> pystr) \<Rightarrow> json list \<Rightarrow> json list" where
  "redact lower (JDict d) = JDict (redact_items lower d)"
| "redact lower (JList xs) = JList (redact_list lower xs)"
| "redact lower JNone = JNone"
| "redact lower (JBool b) = JBool b"
| "redact lower (JInt i) = JInt i"
| "redact lower (JFloat r) = JFloat r"
| "redact lower (JStr s) = JStr s"
| "redact_items lower [] = []"
| "redact_items lower ((k, val) # d) =
     (if lower k \<in> set sensitive_keys then (k, JStr (u ''***'')) else (k, redact lower val))
     # redact_items lower d"
| "redact_list lower [] = []"
| "redact_list lower (x # xs) = redact lower x # redact_list lower xs"

text \<open>The state of one workflow run (\<open>AgentState\<close>). \<open>tool_result\<close> is a key that may be
  absent.\<close>

record agent_state =
  query :: pystr
  intent_analysis :: pydict
  documents :: "pystr list"
  context_text :: pystr
  response :: pystr
  actions :: "json list"
  conversation_history :: "json list"
  error :: pystr
  iteration_count :: int
  tool_result :: "json option"
  request_id :: "pystr option"

text \<open>The \<open>except\<close> branch of the node.\<close>

definition node_failed :: "exn \<Rightarrow> agent_state \<Rightarrow> agent_state" where
  "node_failed e state =
     state\<lparr>error := exn_str e,
           actions := [JDict [(u ''type'', JStr (u ''error'')),
                              (u ''status'', JStr (u ''failed'')),
                              (u ''error'', JStr (exn_str e))]]\<rparr>"

text \<open>
  \<open>action_execution_node\<close>. \<open>execute_tool\<close> is \<open>KnowledgeAgent().execute_tool\<close>, acting on
  the world \<open>w\<close> outside the workflow state. A \<open>tool_result\<close> that is not a \<open>dict\<close>, or
  that lacks the key read, raises inside the \<open>try\<close>.
\<close>

definition action_execution_node ::
  "(pystr \<Rightarrow> pystr) \<Rightarrow> (pydict \<Rightarrow> 'w \<Rightarrow> (exn + json) \<times> 'w) \<Rightarrow> agent_state \<Rightarrow> 'w \<Rightarrow> agent_state \<times> 'w" where
  "action_execution_node lower execute_tool state w =
     (let intent = intent_analysis state in
      if truthy (dget_default intent (u ''requires_tools'') (JBool False)) then
        (case execute_tool intent w of
           (Inl e, w') \<Rightarrow> (node_failed e state, w')
         | (Inr (JDict tr), w') \<Rightarrow>
             (case dget tr (u ''success'') of
                None \<Rightarrow> (node_failed (Exn KeyError ([39] @ u ''success'' @ [39])) state, w')
              | Some success \<Rightarrow>
                  if truthy success then
                    (case dget tr (u ''result'') of
                       None \<Rightarrow> (node_failed (Exn KeyError ([39] @ u ''result'' @ [39])) state, w')
                     | Some result \<Rightarrow>
                         (state\<lparr>actions :=
                                  [JDict [(u ''type'', dget_default intent (u ''tool_category'') (JStr (u ''unknown''))),
                                          (u ''status'', JStr (u ''completed'')),
                                          (u ''result'', result),
                                          (u ''tool_params'',
                                             redact lower (dget_default tr (u ''tool_params'') (JDict [])))]],
                                tool_result := Some (JDict tr)\<rparr>, w'))
                  else
                    (case dget tr (u ''error'') of
                       None \<Rightarrow> (node_failed (Exn KeyError ([39] @ u ''error'' @ [39])) state, w')
                     | Some err \<Rightarrow>
                         (state\<lparr>actions :=
                                  [JDict [(u ''type'', dget_default intent (u ''tool_category'') (JStr (u ''unknown''))),
                                          (u ''status'', JStr (u ''failed'')),
                                          (u ''error'', err)]],
                                tool_result := None\<rparr>, w')))
         | (Inr v, w') \<Rightarrow> (node_failed (Exn TypeError (u ''tool_result is not subscriptable'')) state, w'))
      else (state\<lparr>actions := []\<rparr>, w))"

text \<open>
  Every item \<open>(key, value)\<close> of every \<open>dict\<close> inside a value, at any depth, through
  dictionaries and lists.
\<close>

fun entries :: "json \<Rightarrow> (pystr \<times> json) list"
  and entries_items :: "pydict \<Rightarrow> (pystr \<times> json) list"
  and entries_list :: "json list \<Rightarrow> (pystr \<times> json) list" where
  "entries (JDict d) = entries_items d"
| "entries (JList xs) = entries_list xs"
| "entries JNone = []"
| "entries (JBool b) = []"
| "entries (JInt i) = []"
| "entries (JFloat r) = []"
| "entries (JStr s) = []"
| "entries_items [] = []"
| "entries_items ((k, val) # d) = (k, val) # entries val @ entries_items d"
| "entries_list [] = []"
| "entries_list (x # xs) = entries x @ entries_list xs"

text \<open>\<open>str.lower\<close> on ASCII text: the instance of the interpreter's table used to run the
  model on concrete inputs.\<close>

definition ascii_lower :: "pystr \<Rightarrow> pystr" where
  "ascii_lower s = map (\<lambda>c. if 65 \<le> c \<and> c \<le> 90 then c + 32 else c) s"

section \<open>Basic facts\<close>

lemma u_eq_iff [simp]: "u s = u t \<longleftrightarrow> s = t"
proof -
  have "inj (of_char :: char \<Rightarrow> nat)"
    by (rule inj_on_inverseI [where g = char_of]) simp
  then show ?thesis
    by (simp add: u_def)
qed

lemma u_Nil_iff [simp]: "u s = [] \<longleftrightarrow> s = []" "[] = u s \<longleftrightarrow> s = []"
  by (auto simp: u_def)

lemma ddel_simps [simp]:
  "ddel [] k = []"
  "ddel ((k', v) # d) k = (if k' = k then ddel d k else (k', v) # ddel d k)"
  by (auto simp: ddel_def)

lemma event_1_prefix: "u ''event_'' @ show_nat (Suc 0) @ u ''_'' @ ts = u ''event_1_'' @ ts"
  by (simp add: u_def show_nat.simps)

section \<open>The safe-execution wrapper\<close>

text \<open>
  C1, as claimed, fails on a parameter map with the key \<open>self\<close>: the call
  \<open>safe_execute(**{"self": 1, "action": "list"})\<close> on the calendar event tool raises a
  \<open>TypeError\<close> when it binds its arguments, before the \<open>try\<close> of the wrapper is entered,
  and no envelope is returned.
\<close>

theorem safe_execute_counterexample:
  "safe_execute (CalendarEventTool (\<lambda>v. []) \<lparr>now_timestamp = u ''1.5'', now_isoformat = u ''2024-01-15T09:00:00''\<rparr>)
     [(u ''self'', JInt 1), (u ''action'', JStr (u ''list''))] []
   = (Inl (Exn TypeError (u ''BaseMCPTool.safe_execute() got multiple values for argument '' @ [39] @ u ''self'' @ [39])), [])"
  by (simp add: safe_execute_def multiple_values_def u_def)

text \<open>
  C1, amended. For every tool and every parameter map without the key \<open>self\<close>,
  \<open>safe_execute\<close> returns an envelope and never raises: when \<open>execute\<close> returns a value the
  envelope is \<open>{success: True, result: value, tool_name: name}\<close>, and when \<open>execute\<close> raises
  an exception the envelope is \<open>{success: False, error: str(e), tool_name: name}\<close>; the
  tool's state is whatever \<open>execute\<close> left. For a parameter map with the key \<open>self\<close>, the
  call of \<open>safe_execute\<close> itself raises the \<open>TypeError\<close> of an argument given twice, and
  the tool is not run.
\<close>

theorem safe_execute_envelope_unless_self:
  "(dget kw (u ''self'') = None \<longrightarrow>
      (\<exists>env s'. safe_execute t kw s = (Inr env, s'))
      \<and> (\<forall>v s'. execute t kw s = (Inr v, s') \<longrightarrow>
            safe_execute t kw s =
              (Inr (JDict [(u ''success'', JBool True), (u ''result'', v),
                           (u ''tool_name'', JStr (name t))]), s'))
      \<and> (\<forall>e s'. execute t kw s = (Inl e, s') \<longrightarrow>
            safe_execute t kw s =
              (Inr (JDict [(u ''success'', JBool False), (u ''error'', JStr (exn_str e)),
                           (u ''tool_name'', JStr (name t))]), s')))
   \<and> (dget kw (u ''self'') \<noteq> None \<longrightarrow>
        safe_execute t kw s =
          (Inl (multiple_values (u ''BaseMCPTool.safe_execute'') (u ''self'')), s))"
  by (cases "execute t kw s"; cases "fst (execute t kw s)") (auto simp: safe_execute_def)

text \<open>
  The wrapper on the calendar tool: a \<open>list\<close> call on an empty calendar returns, and a call
  with an unsupported action raises inside \<open>execute\<close>; both come back as envelopes. A
  \<open>list\<close> call that also carries the key \<open>self\<close> raises.
\<close>

theorem safe_execute_envelope_unless_self_witness:
  "safe_execute (CalendarEventTool (\<lambda>v. []) \<lparr>now_timestamp = u ''1.5'', now_isoformat = u ''2024-01-15T09:00:00''\<rparr>)
     [(u ''action'', JStr (u ''list''))] []
   = (Inr (JDict [(u ''success'', JBool True),
                  (u ''result'', JDict [(u ''action'', JStr (u ''list'')), (u ''events'', JList []),
                                        (u ''total_count'', JInt 0), (u ''date_filter'', JNone)]),
                  (u ''tool_name'', JStr (u ''calendar_event''))]), [])
   \<and> safe_execute (CalendarEventTool (\<lambda>v. []) \<lparr>now_timestamp = u ''1.5'', now_isoformat = u ''2024-01-15T09:00:00''\<rparr>)
     [(u ''action'', JStr (u ''purge''))] []
   = (Inr (JDict [(u ''success'', JBool False),
                  (u ''error'', JStr ([19981, 25903, 25345, 30340, 25805, 20316, 58, 32] @ u ''purge'')),
                  (u ''tool_name'', JStr (u ''calendar_event''))]), [])
   \<and> safe_execute (CalendarEventTool (\<lambda>v. []) \<lparr>now_timestamp = u ''1.5'', now_isoformat = u ''2024-01-15T09:00:00''\<rparr>)
     [(u ''action'', JStr (u ''list'')), (u ''self'', JStr (u ''me''))] []
   = (Inl (multiple_values (u ''BaseMCPTool.safe_execute'') (u ''self'')), [])"
proof -
  let ?t = "CalendarEventTool (\<lambda>v. []) \<lparr>now_timestamp = u ''1.5'', now_isoformat = u ''2024-01-15T09:00:00''\<rparr>"
  have ok: "execute ?t [(u ''action'', JStr (u ''list''))] [] =
      (Inr (JDict [(u ''action'', JStr (u ''list'')), (u ''events'', JList []),
                   (u ''total_count'', JInt 0), (u ''date_filter'', JNone)]), [])"
    by (simp add: CalendarEventTool_def calendar_execute_def list_events_def)
  have bad: "execute ?t [(u ''action'', JStr (u ''purge''))] [] =
      (Inl (Exn ValueError ([19981, 25903, 25345, 30340, 25805, 20316, 58, 32] @ u ''purge'')), [])"
    by (simp add: CalendarEventTool_def calendar_execute_def)
  have nm: "name ?t = u ''calendar_event''"
    by (simp add: CalendarEventTool_def)
  from safe_execute_envelope_unless_self [of "[(u ''action'', JStr (u ''list''))]" ?t "[]"] ok nm
  have one: "safe_execute ?t [(u ''action'', JStr (u ''list''))] [] =
      (Inr (JDict [(u ''success'', JBool True),
                  (u ''result'', JDict [(u ''action'', JStr (u ''list'')), (u ''events'', JList []),
                                        (u ''total_count'', JInt 0), (u ''date_filter'', JNone)]),
                  (u ''tool_name'', JStr (u ''calendar_event''))]), [])"
    by simp
  from safe_execute_envelope_unless_self [of "[(u ''action'', JStr (u ''purge''))]" ?t "[]"] bad nm
  have two: "safe_execute ?t [(u ''action'', JStr (u ''purge''))] [] =
      (Inr (JDict [(u ''success'', JBool False),
                  (u ''error'', JStr ([19981, 25903, 25345, 30340, 25805, 20316, 58, 32] @ u ''purge'')),
                  (u ''tool_name'', JStr (u ''calendar_event''))]), [])"
    by simp
  from safe_execute_envelope_unless_self
    [of "[(u ''action'', JStr (u ''list'')), (u ''self'', JStr (u ''me''))]" ?t "[]"]
  have three: "safe_execute ?t [(u ''action'', JStr (u ''list'')), (u ''self'', JStr (u ''me''))] []
      = (Inl (multiple_values (u ''BaseMCPTool.safe_execute'') (u ''self'')), [])"
    by simp
  from one two three show ?thesis by (intro conjI)
qed

section \<open>The calendar lifecycle\<close>

lemma create_first:
  "calendar_execute fmt c1
     [(u ''action'', JStr (u ''create'')), (u ''title'', t), (u ''start_time'', st), (u ''end_time'', et)] []
   = (Inr (JDict [(u ''action'', JStr (u ''create'')),
                  (u ''event_id'', JStr (u ''event_1_'' @ now_timestamp c1)),
                  (u ''event'', JDict [(u ''id'', JStr (u ''event_1_'' @ now_timestamp c1)),
                                       (u ''title'', t), (u ''start_time'', st), (u ''end_time'', et),
                                       (u ''description'', JStr []), (u ''location'', JStr []),
                                       (u ''attendees'', JList []),
                                       (u ''created_at'', JStr (now_isoformat c1))]),
                  (u ''status'', JStr (u ''created''))]),
      [JDict [(u ''id'', JStr (u ''event_1_'' @ now_timestamp c1)),
              (u ''title'', t), (u ''start_time'', st), (u ''end_time'', et),
              (u ''description'', JStr []), (u ''location'', JStr []),
              (u ''attendees'', JList []),
              (u ''created_at'', JStr (now_isoformat c1))]])"
  by (simp add: calendar_execute_def create_event_def Let_def py_or_def event_1_prefix)

lemma list_one:
  "calendar_execute fmt c2 [(u ''action'', JStr (u ''list''))] [ev]
   = (Inr (JDict [(u ''action'', JStr (u ''list'')), (u ''events'', JList [ev]),
                  (u ''total_count'', JInt 1), (u ''date_filter'', JNone)]), [ev])"
  by (simp add: calendar_execute_def list_events_def Let_def)

lemma update_title:
  "calendar_execute fmt c3
     [(u ''action'', JStr (u ''update'')), (u ''event_id'', JStr eid), (u ''title'', t')]
     [JDict [(u ''id'', JStr eid), (u ''title'', t), (u ''start_time'', st), (u ''end_time'', et),
             (u ''description'', d), (u ''location'', l), (u ''attendees'', a), (u ''created_at'', c)]]
   = (Inr (JDict [(u ''action'', JStr (u ''update'')),
                  (u ''event_id'', JStr eid),
                  (u ''updated_fields'', JList [JStr (u ''title'')]),
                  (u ''event'', JDict [(u ''id'', JStr eid), (u ''title'', t'), (u ''start_time'', st),
                                       (u ''end_time'', et), (u ''description'', d), (u ''location'', l),
                                       (u ''attendees'', a), (u ''created_at'', c),
                                       (u ''updated_at'', JStr (now_isoformat c3))]),
                  (u ''status'', JStr (u ''updated''))]),
      [JDict [(u ''id'', JStr eid), (u ''title'', t'), (u ''start_time'', st),
              (u ''end_time'', et), (u ''description'', d), (u ''location'', l),
              (u ''attendees'', a), (u ''created_at'', c),
              (u ''updated_at'', JStr (now_isoformat c3))]])"
  by (simp add: calendar_execute_def update_event_def Let_def updatable_fields_def)

lemma delete_found:
  "dget ev (u ''id'') = Some (JStr eid) \<Longrightarrow>
   calendar_execute fmt c4 [(u ''action'', JStr (u ''delete'')), (u ''event_id'', JStr eid)] [JDict ev]
   = (Inr (JDict [(u ''action'', JStr (u ''delete'')), (u ''event_id'', JStr eid),
                  (u ''status'', JStr (u ''deleted''))]), [])"
  by (auto simp add: calendar_execute_def delete_event_def Let_def)

lemma delete_missing:
  "calendar_execute fmt c5 [(u ''action'', JStr (u ''delete'')), (u ''event_id'', JStr eid)] []
   = (Inl (Exn ValueError ([20107, 20214, 19981, 23384, 22312, 58, 32] @ eid)), [])"
  by (simp add: calendar_execute_def delete_event_def Let_def event_missing_def)

text \<open>
  C3. On a calendar with no events: \<open>create\<close> with a title, a start time and an end time
  returns status \<open>created\<close> and a non-empty \<open>event_id\<close>; \<open>list\<close> then returns exactly that
  event; \<open>update\<close> of the title by that id returns status \<open>updated\<close> with \<open>title\<close> in
  \<open>updated_fields\<close>; \<open>delete\<close> of the id returns status \<open>deleted\<close> and leaves the calendar
  empty; a second \<open>delete\<close> of the id raises the \<open>ValueError\<close> of an unknown event
  (the not-found failure). The clock readings \<open>c1 \<dots> c5\<close> of the five calls are arbitrary.
\<close>

theorem calendar_lifecycle:
  "\<exists>eid ev ev'.
     calendar_execute fmt c1
       [(u ''action'', JStr (u ''create'')), (u ''title'', t), (u ''start_time'', st), (u ''end_time'', et)] []
     = (Inr (JDict [(u ''action'', JStr (u ''create'')), (u ''event_id'', JStr eid),
                    (u ''event'', ev), (u ''status'', JStr (u ''created''))]), [ev])
   \<and> eid \<noteq> []
   \<and> calendar_execute fmt c2 [(u ''action'', JStr (u ''list''))] [ev]
     = (Inr (JDict [(u ''action'', JStr (u ''list'')), (u ''events'', JList [ev]),
                    (u ''total_count'', JInt 1), (u ''date_filter'', JNone)]), [ev])
   \<and> calendar_execute fmt c3
       [(u ''action'', JStr (u ''update'')), (u ''event_id'', JStr eid), (u ''title'', t')] [ev]
     = (Inr (JDict [(u ''action'', JStr (u ''update'')), (u ''event_id'', JStr eid),
                    (u ''updated_fields'', JList [JStr (u ''title'')]),
                    (u ''event'', ev'), (u ''status'', JStr (u ''updated''))]), [ev'])
   \<and> calendar_execute fmt c4 [(u ''action'', JStr (u ''delete'')), (u ''event_id'', JStr eid)] [ev']
     = (Inr (JDict [(u ''action'', JStr (u ''delete'')), (u ''event_id'', JStr eid),
                    (u ''status'', JStr (u ''deleted''))]), [])
   \<and> calendar_execute fmt c5 [(u ''action'', JStr (u ''delete'')), (u ''event_id'', JStr eid)] []
     = (Inl (Exn ValueError ([20107, 20214, 19981, 23384, 22312, 58, 32] @ eid)), [])"
proof -
  let ?eid = "u ''event_1_'' @ now_timestamp c1"
  let ?ev = "JDict [(u ''id'', JStr ?eid), (u ''title'', t), (u ''start_time'', st), (u ''end_time'', et),
                    (u ''description'', JStr []), (u ''location'', JStr []), (u ''attendees'', JList []),
                    (u ''created_at'', JStr (now_isoformat c1))]"
  let ?ev' = "[(u ''id'', JStr ?eid), (u ''title'', t'), (u ''start_time'', st), (u ''end_time'', et),
               (u ''description'', JStr []), (u ''location'', JStr []), (u ''attendees'', JList []),
               (u ''created_at'', JStr (now_isoformat c1)), (u ''updated_at'', JStr (now_isoformat c3))]"
  have nonempty: "?eid \<noteq> []"
    by (simp add: u_def)
  have found: "dget ?ev' (u ''id'') = Some (JStr ?eid)"
    by simp
  show ?thesis
    apply (rule exI [of _ ?eid], rule exI [of _ ?ev], rule exI [of _ "JDict ?ev'"])
    apply (intro conjI)
         apply (rule create_first)
        apply (rule nonempty)
       apply (rule list_one)
      apply (rule update_title)
     apply (rule delete_found [OF found])
    apply (rule delete_missing)
    done
qed

text \<open>The lifecycle at the values of the repository's own test: the title is the four
  characters of the test's meeting title, and the new title the eight of its update.\<close>

theorem calendar_lifecycle_witness:
  "\<exists>eid ev ev'.
     calendar_execute (\<lambda>v. []) \<lparr>now_timestamp = u ''1705298400.0'', now_isoformat = u ''2024-01-15T06:00:00''\<rparr>
       [(u ''action'', JStr (u ''create'')), (u ''title'', JStr [27979, 35797, 20250, 35758]),
        (u ''start_time'', JStr (u ''2024-01-15T14:00:00'')), (u ''end_time'', JStr (u ''2024-01-15T15:00:00''))] []
     = (Inr (JDict [(u ''action'', JStr (u ''create'')), (u ''event_id'', JStr eid),
                    (u ''event'', ev), (u ''status'', JStr (u ''created''))]), [ev])
   \<and> eid \<noteq> []
   \<and> calendar_execute (\<lambda>v. []) \<lparr>now_timestamp = u ''1705298401.0'', now_isoformat = u ''2024-01-15T06:00:01''\<rparr>
       [(u ''action'', JStr (u ''list''))] [ev]
     = (Inr (JDict [(u ''action'', JStr (u ''list'')), (u ''events'', JList [ev]),
                    (u ''total_count'', JInt 1), (u ''date_filter'', JNone)]), [ev])
   \<and> calendar_execute (\<lambda>v. []) \<lparr>now_timestamp = u ''1705298402.0'', now_isoformat = u ''2024-01-15T06:00:02''\<rparr>
       [(u ''action'', JStr (u ''update'')), (u ''event_id'', JStr eid),
        (u ''title'', JStr [26356, 26032, 21518, 30340, 27979, 35797, 20250, 35758])] [ev]
     = (Inr (JDict [(u ''action'', JStr (u ''update'')), (u ''event_id'', JStr eid),
                    (u ''updated_fields'', JList [JStr (u ''title'')]),
                    (u ''event'', ev'), (u ''status'', JStr (u ''updated''))]), [ev'])
   \<and> calendar_execute (\<lambda>v. []) \<lparr>now_timestamp = u ''1705298403.0'', now_isoformat = u ''2024-01-15T06:00:03''\<rparr>
       [(u ''action'', JStr (u ''delete'')), (u ''event_id'', JStr eid)] [ev']
     = (Inr (JDict [(u ''action'', JStr (u ''delete'')), (u ''event_id'', JStr eid),
                    (u ''status'', JStr (u ''deleted''))]), [])
   \<and> calendar_execute (\<lambda>v. []) \<lparr>now_timestamp = u ''1705298404.0'', now_isoformat = u ''2024-01-15T06:00:04''\<rparr>
       [(u ''action'', JStr (u ''delete'')), (u ''event_id'', JStr eid)] []
     = (Inl (Exn ValueError ([20107, 20214, 19981, 23384, 22312, 58, 32] @ eid)), [])"
  by (rule calendar_lifecycle)

section \<open>The email send tool\<close>

lemma outer_handler_False [simp]: "outer_handler e = JBool False"
  by (cases e rule: outer_handler.cases) simp_all

lemma login_handler_False [simp]: "login_handler e = JBool False"
  by (cases e rule: login_handler.cases) simp_all

lemma send_handler_False [simp]: "send_handler e = JBool False"
  by (cases e) simp

lemma email_keyword_error_None:
  "email_keyword_error ks = None \<longleftrightarrow> list_all (\<lambda>k. k \<in> set email_parameters) ks"
proof (induction ks)
  case Nil
  show ?case by simp
next
  case (Cons k ks)
  have "u ''self'' \<notin> set email_parameters"
    by (simp add: email_parameters_def)
  with Cons show ?case by auto
qed

lemma no_missing_iff:
  "filter (\<lambda>r. dget kwargs r = None) rs = [] \<longleftrightarrow> list_all (\<lambda>r. dget kwargs r \<noteq> None) rs"
  by (simp add: filter_empty_conv list_all_iff)

lemma email_call_binds_iff:
  "email_call_binds kwargs \<longleftrightarrow>
     email_keyword_error (map fst kwargs) = None
     \<and> filter (\<lambda>r. dget kwargs r = None) email_required = []"
  by (simp only: email_call_binds_def email_keyword_error_None no_missing_iff)

lemma email_session_eq:
  "email_session smtp (dget_default kwargs (u ''to_addresses'') JNone)
     (dget_default kwargs (u ''cc_addresses'') JNone) sj =
     (if send_fails smtp kwargs then JBool False
      else JDict [(u ''status'', JStr (u ''sent'')),
                  (u ''to_addresses'', dget_default kwargs (u ''to_addresses'') JNone),
                  (u ''cc_addresses'',
                     (if truthy (dget_default kwargs (u ''cc_addresses'') JNone)
                      then dget_default kwargs (u ''cc_addresses'') JNone
                      else JList [])),
                  (u ''subject'', sj),
                  (u ''message_id'', JNone)])"
  unfolding email_session_def send_fails_def
  by (cases "context_error smtp"; cases "connect_error smtp"; cases "starttls_error smtp";
      cases "login_error smtp"; cases "sendmail_error smtp"; simp)

lemma email_execute_bound:
  assumes "email_call_binds kwargs" and "email_message_built smtp kwargs"
  shows "email_execute smtp kwargs s =
     (if send_fails smtp kwargs then (Inr (JBool False), s)
      else (Inr (JDict [(u ''status'', JStr (u ''sent'')),
                        (u ''to_addresses'', dget_default kwargs (u ''to_addresses'') JNone),
                        (u ''cc_addresses'',
                           (if truthy (dget_default kwargs (u ''cc_addresses'') JNone)
                            then dget_default kwargs (u ''cc_addresses'') JNone
                            else JList [])),
                        (u ''subject'', dget_default kwargs (u ''subject'') JNone),
                        (u ''message_id'', JNone)]), s))"
proof -
  from assms(1) have a: "email_keyword_error (map fst kwargs) = None"
    and b: "filter (\<lambda>r. dget kwargs r = None) email_required = []"
    by (simp_all add: email_call_binds_iff)
  from assms(2) have d: "join_error (dget_default kwargs (u ''to_addresses'') JNone) = None"
    and e: "(if truthy (dget_default kwargs (u ''cc_addresses'') JNone)
             then join_error (dget_default kwargs (u ''cc_addresses'') JNone) else None) = None"
    and f: "build_error smtp = None"
    by (simp_all add: email_message_built_def split: if_splits)
  have "email_execute smtp kwargs s =
      (Inr (email_session smtp (dget_default kwargs (u ''to_addresses'') JNone)
              (dget_default kwargs (u ''cc_addresses'') JNone)
              (dget_default kwargs (u ''subject'') JNone)), s)"
    unfolding email_execute_def Let_def
    by (simp only: a b d e f option.case if_False simp_thms)
  then show ?thesis
    by (simp only: email_session_eq if_distrib [of "\<lambda>x. (Inr x, s)"])
qed

lemma email_execute_unbound:
  assumes "\<not> (email_call_binds kwargs \<and> email_message_built smtp kwargs)"
  shows "\<exists>e. email_execute smtp kwargs s = (Inl e, s)"
proof (cases "email_keyword_error (map fst kwargs)")
  case (Some e)
  then show ?thesis
    by (simp add: email_execute_def)
next
  case a: None
  show ?thesis
  proof (cases "filter (\<lambda>r. dget kwargs r = None) email_required = []")
    case False
    with a show ?thesis
      by (simp add: email_execute_def)
  next
    case b: True
    with a assms have nb: "\<not> email_message_built smtp kwargs"
      by (simp add: email_call_binds_iff)
    show ?thesis
    proof (cases "join_error (dget_default kwargs (u ''to_addresses'') JNone)")
      case (Some e)
      with a b show ?thesis
        by (simp add: email_execute_def Let_def)
    next
      case d: None
      show ?thesis
      proof (cases "(if truthy (dget_default kwargs (u ''cc_addresses'') JNone)
             then join_error (dget_default kwargs (u ''cc_addresses'') JNone) else None)")
        case (Some e)
        with a b d show ?thesis
          unfolding email_execute_def Let_def
          by (simp only: option.case if_False simp_thms) blast
      next
        case e: None
        with nb d obtain x where f: "build_error smtp = Some x"
          by (auto simp: email_message_built_def split: if_splits)
        with a b d e show ?thesis
          unfolding email_execute_def Let_def
          by (simp only: option.case if_False simp_thms) blast
      qed
    qed
  qed
qed

text \<open>
  C6, as claimed, fails on an invocation whose message cannot be built: with
  \<open>to_addresses = [1]\<close> the join of the recipients raises a \<open>TypeError\<close> before the \<open>try\<close>
  of \<open>execute\<close> is entered, so the call raises instead of returning \<open>False\<close>, although the
  SMTP session itself would have succeeded.
\<close>

theorem email_execute_counterexample:
  "email_execute
     \<lparr>build_error = None, context_error = None, connect_error = None, starttls_error = None,
      login_error = None, sendmail_error = None\<rparr>
     [(u ''to_addresses'', JList [JInt 1]), (u ''subject'', JStr (u ''Hello'')),
      (u ''body'', JStr (u ''Hi'')), (u ''sender_email'', JStr (u ''s@example.com'')),
      (u ''sender_password'', JStr (u ''pw''))] ()
   = (Inl (Exn TypeError (u ''sequence item 0: expected str instance, int found'')), ())"
  by (simp add: email_execute_def email_parameters_def email_required_def dget_default_def Let_def
        u_def show_nat.simps)

text \<open>
  C6, amended. For every invocation of the email send tool's \<open>execute\<close> that binds its
  keyword arguments (every key is one of the six parameters and the five required ones are
  present) and builds its message (the recipients, and the copies when given, are joined
  and the text part is constructed): when a step of the SMTP session fails (context,
  connection, STARTTLS, login with an authentication or any other error, sending, or any
  unexpected error in between) the call returns the boolean \<open>False\<close>, neither raising nor
  returning a map; when every step succeeds it returns the map
  \<open>{status: "sent", to_addresses, cc_addresses, subject, message_id}\<close>, with the caller's
  recipients and subject, the caller's copies or the empty list, and no message id. Every
  other invocation raises, before the \<open>try\<close>, and returns nothing.
\<close>

theorem email_execute_false_or_sent_or_raises:
  "(email_call_binds kwargs \<and> email_message_built smtp kwargs \<longrightarrow>
      (send_fails smtp kwargs \<longrightarrow> email_execute smtp kwargs s = (Inr (JBool False), s))
      \<and> (\<not> send_fails smtp kwargs \<longrightarrow>
           (\<exists>to_addresses subject.
              dget kwargs (u ''to_addresses'') = Some to_addresses
            \<and> dget kwargs (u ''subject'') = Some subject
            \<and> email_execute smtp kwargs s =
                (Inr (JDict [(u ''status'', JStr (u ''sent'')),
                             (u ''to_addresses'', to_addresses),
                             (u ''cc_addresses'',
                                (if truthy (dget_default kwargs (u ''cc_addresses'') JNone)
                                 then dget_default kwargs (u ''cc_addresses'') JNone
                                 else JList [])),
                             (u ''subject'', subject),
                             (u ''message_id'', JNone)]), s))))
   \<and> (\<not> (email_call_binds kwargs \<and> email_message_built smtp kwargs) \<longrightarrow>
        (\<exists>e. email_execute smtp kwargs s = (Inl e, s)))"
proof (intro conjI impI)
  assume ok: "email_call_binds kwargs \<and> email_message_built smtp kwargs"
  assume "send_fails smtp kwargs"
  with ok show "email_execute smtp kwargs s = (Inr (JBool False), s)"
    by (simp add: email_execute_bound)
next
  assume ok: "email_call_binds kwargs \<and> email_message_built smtp kwargs"
  assume works: "\<not> send_fails smtp kwargs"
  from ok obtain ta sj
    where "dget kwargs (u ''to_addresses'') = Some ta" "dget kwargs (u ''subject'') = Some sj"
    by (auto simp: email_call_binds_def email_required_def)
  with ok works
  show "\<exists>to_addresses subject.
              dget kwargs (u ''to_addresses'') = Some to_addresses
            \<and> dget kwargs (u ''subject'') = Some subject
            \<and> email_execute smtp kwargs s =
                (Inr (JDict [(u ''status'', JStr (u ''sent'')),
                             (u ''to_addresses'', to_addresses),
                             (u ''cc_addresses'',
                                (if truthy (dget_default kwargs (u ''cc_addresses'') JNone)
                                 then dget_default kwargs (u ''cc_addresses'') JNone
                                 else JList [])),
                             (u ''subject'', subject),
                             (u ''message_id'', JNone)]), s)"
    by (simp add: email_execute_bound) (simp add: dget_default_def)
next
  assume "\<not> (email_call_binds kwargs \<and> email_message_built smtp kwargs)"
  then show "\<exists>e. email_execute smtp kwargs s = (Inl e, s)"
    by (rule email_execute_unbound)
qed

text \<open>A session whose login is refused, a session in which every step succeeds, and a call
  without a body.\<close>

theorem email_execute_false_or_sent_or_raises_witness:
  "email_execute
     \<lparr>build_error = None, context_error = None, connect_error = None, starttls_error = None,
      login_error = Some (Exn SMTPAuthenticationError (u ''535 Login Fail'')), sendmail_error = None\<rparr>
     [(u ''to_addresses'', JList [JStr (u ''a@example.com'')]), (u ''subject'', JStr (u ''Hello'')),
      (u ''body'', JStr (u ''Hi'')), (u ''sender_email'', JStr (u ''s@example.com'')),
      (u ''sender_password'', JStr (u ''pw''))] ()
   = (Inr (JBool False), ())
   \<and> email_execute
        \<lparr>build_error = None, context_error = None, connect_error = None, starttls_error = None,
         login_error = None, sendmail_error = None\<rparr>
        [(u ''to_addresses'', JList [JStr (u ''a@example.com'')]), (u ''subject'', JStr (u ''Hello'')),
         (u ''body'', JStr (u ''Hi'')), (u ''sender_email'', JStr (u ''s@example.com'')),
         (u ''sender_password'', JStr (u ''pw''))] ()
      = (Inr (JDict [(u ''status'', JStr (u ''sent'')),
                     (u ''to_addresses'', JList [JStr (u ''a@example.com'')]),
                     (u ''cc_addresses'', JList []),
                     (u ''subject'', JStr (u ''Hello'')),
                     (u ''message_id'', JNone)]), ())
   \<and> (\<exists>e. email_execute
          \<lparr>build_error = None, context_error = None, connect_error = None, starttls_error = None,
           login_error = None, sendmail_error = None\<rparr>
          [(u ''to_addresses'', JList [JStr (u ''a@example.com'')]), (u ''subject'', JStr (u ''Hello'')),
           (u ''sender_email'', JStr (u ''s@example.com'')), (u ''sender_password'', JStr (u ''pw''))] ()
        = (Inl e, ()))"
proof -
  let ?kw = "[(u ''to_addresses'', JList [JStr (u ''a@example.com'')]), (u ''subject'', JStr (u ''Hello'')),
      (u ''body'', JStr (u ''Hi'')), (u ''sender_email'', JStr (u ''s@example.com'')),
      (u ''sender_password'', JStr (u ''pw''))]"
  let ?nobody = "[(u ''to_addresses'', JList [JStr (u ''a@example.com'')]), (u ''subject'', JStr (u ''Hello'')),
      (u ''sender_email'', JStr (u ''s@example.com'')), (u ''sender_password'', JStr (u ''pw''))]"
  let ?bad = "\<lparr>build_error = None, context_error = None, connect_error = None, starttls_error = None,
      login_error = Some (Exn SMTPAuthenticationError (u ''535 Login Fail'')), sendmail_error = None\<rparr>"
  let ?good = "\<lparr>build_error = None, context_error = None, connect_error = None, starttls_error = None,
      login_error = None, sendmail_error = None\<rparr>"
  have binds: "email_call_binds ?kw"
    by (simp add: email_call_binds_def email_parameters_def email_required_def)
  have built: "email_message_built ?bad ?kw" "email_message_built ?good ?kw"
    by (simp_all add: email_message_built_def dget_default_def)
  have fails: "send_fails ?bad ?kw"
    by (simp add: send_fails_def dget_default_def)
  have works: "\<not> send_fails ?good ?kw"
    by (simp add: send_fails_def dget_default_def)
  have unbound: "\<not> email_call_binds ?nobody"
    by (simp add: email_call_binds_def email_required_def)
  from email_execute_false_or_sent_or_raises [of ?kw ?bad "()"] binds built fails
  have one: "email_execute ?bad ?kw () = (Inr (JBool False), ())"
    by simp
  from email_execute_false_or_sent_or_raises [of ?kw ?good "()"] binds built works
  have two: "email_execute ?good ?kw ()
      = (Inr (JDict [(u ''status'', JStr (u ''sent'')),
                     (u ''to_addresses'', JList [JStr (u ''a@example.com'')]),
                     (u ''cc_addresses'', JList []),
                     (u ''subject'', JStr (u ''Hello'')),
                     (u ''message_id'', JNone)]), ())"
    by (simp add: dget_default_def)
  from email_execute_false_or_sent_or_raises [of ?nobody ?good "()"] unbound
  have three: "\<exists>e. email_execute ?good ?nobody () = (Inl e, ())"
    by simp
  from one two three show ?thesis by (intro conjI)
qed

text \<open>
  C9, as claimed, fails on a send that fails before the \<open>try\<close> of \<open>execute\<close>: a call with the
  unknown keyword \<open>template\<close> (the composite execution passes the model's parameters on as
  they are) raises a \<open>TypeError\<close> out of \<open>execute\<close>, and the wrapper surfaces the failed send
  as \<open>success: False\<close>.
\<close>

theorem failed_send_counterexample:
  "safe_execute
     (EmailSendTool
        \<lparr>build_error = None, context_error = None, connect_error = None, starttls_error = None,
         login_error = None, sendmail_error = None\<rparr>)
     [(u ''to_addresses'', JList [JStr (u ''a@example.com'')]), (u ''subject'', JStr (u ''Hello'')),
      (u ''body'', JStr (u ''Hi'')), (u ''sender_email'', JStr (u ''s@example.com'')),
      (u ''sender_password'', JStr (u ''pw'')), (u ''template'', JDict [])] ()
   = (Inr (JDict [(u ''success'', JBool False),
                  (u ''error'', JStr (u ''EmailSendTool.execute() got an unexpected keyword argument ''
                                        @ [39] @ u ''template'' @ [39])),
                  (u ''tool_name'', JStr (u ''email_send''))]), ())"
  by (simp add: safe_execute_def EmailSendTool_def email_execute_def email_parameters_def
        unexpected_keyword_def u_def)

text \<open>
  C9, amended. When a call of the email send tool binds its keyword arguments and builds
  its message, and a step of the SMTP session fails, \<open>execute\<close> returns \<open>False\<close> instead of
  raising, so the safe-execution wrapper reports the call as a success: the envelope is
  \<open>{success: True, result: False, tool_name: "email_send"}\<close>. When the call does not bind
  or the message cannot be built, \<open>execute\<close> raises and the wrapper reports
  \<open>{success: False, error: message, tool_name: "email_send"}\<close>; with the key \<open>self\<close> among
  the parameters the wrapper itself raises.
\<close>

theorem failed_send_envelope:
  "(email_call_binds kwargs \<and> email_message_built smtp kwargs \<and> send_fails smtp kwargs \<longrightarrow>
      safe_execute (EmailSendTool smtp) kwargs s =
        (Inr (JDict [(u ''success'', JBool True), (u ''result'', JBool False),
                     (u ''tool_name'', JStr (u ''email_send''))]), s))
   \<and> (dget kwargs (u ''self'') = None
        \<and> \<not> (email_call_binds kwargs \<and> email_message_built smtp kwargs) \<longrightarrow>
        (\<exists>e. email_execute smtp kwargs s = (Inl e, s)
            \<and> safe_execute (EmailSendTool smtp) kwargs s =
                (Inr (JDict [(u ''success'', JBool False), (u ''error'', JStr (exn_str e)),
                             (u ''tool_name'', JStr (u ''email_send''))]), s)))
   \<and> (dget kwargs (u ''self'') \<noteq> None \<longrightarrow>
        safe_execute (EmailSendTool smtp) kwargs s =
          (Inl (multiple_values (u ''BaseMCPTool.safe_execute'') (u ''self'')), s))"
proof (intro conjI impI)
  assume a: "email_call_binds kwargs \<and> email_message_built smtp kwargs \<and> send_fails smtp kwargs"
  then have "list_all (\<lambda>k. k \<in> set email_parameters) (map fst kwargs)"
    by (simp add: email_call_binds_def)
  then have "dget kwargs (u ''self'') = None"
    by (induction kwargs) (auto simp: email_parameters_def)
  with a show "safe_execute (EmailSendTool smtp) kwargs s =
        (Inr (JDict [(u ''success'', JBool True), (u ''result'', JBool False),
                     (u ''tool_name'', JStr (u ''email_send''))]), s)"
    by (simp add: safe_execute_def EmailSendTool_def email_execute_bound)
next
  assume a: "dget kwargs (u ''self'') = None
        \<and> \<not> (email_call_binds kwargs \<and> email_message_built smtp kwargs)"
  then obtain e where "email_execute smtp kwargs s = (Inl e, s)"
    using email_execute_unbound [of kwargs smtp s] by blast
  with a show "\<exists>e. email_execute smtp kwargs s = (Inl e, s)
            \<and> safe_execute (EmailSendTool smtp) kwargs s =
                (Inr (JDict [(u ''success'', JBool False), (u ''error'', JStr (exn_str e)),
                             (u ''tool_name'', JStr (u ''email_send''))]), s)"
    by (simp add: safe_execute_def EmailSendTool_def)
next
  assume "dget kwargs (u ''self'') \<noteq> None"
  then show "safe_execute (EmailSendTool smtp) kwargs s =
          (Inl (multiple_values (u ''BaseMCPTool.safe_execute'') (u ''self'')), s)"
    by (auto simp: safe_execute_def)
qed

text \<open>The SMTP server cannot be reached; a call without a body; a call with the key
  \<open>self\<close>.\<close>

theorem failed_send_envelope_witness:
  "safe_execute
     (EmailSendTool
        \<lparr>build_error = None, context_error = None,
         connect_error = Some (Exn SMTPConnectError (u ''Connection refused'')),
         starttls_error = None, login_error = None, sendmail_error = None\<rparr>)
     [(u ''to_addresses'', JList [JStr (u ''a@example.com'')]), (u ''subject'', JStr (u ''Hello'')),
      (u ''body'', JStr (u ''Hi'')), (u ''sender_email'', JStr (u ''s@example.com'')),
      (u ''sender_password'', JStr (u ''pw''))] ()
   = (Inr (JDict [(u ''success'', JBool True), (u ''result'', JBool False),
                  (u ''tool_name'', JStr (u ''email_send''))]), ())
   \<and> (\<exists>e. email_execute
          \<lparr>build_error = None, context_error = None,
           connect_error = Some (Exn SMTPConnectError (u ''Connection refused'')),
           starttls_error = None, login_error = None, sendmail_error = None\<rparr>
          [(u ''to_addresses'', JList [JStr (u ''a@example.com'')]), (u ''subject'', JStr (u ''Hello'')),
           (u ''sender_email'', JStr (u ''s@example.com'')), (u ''sender_password'', JStr (u ''pw''))] ()
        = (Inl e, ())
      \<and> safe_execute
          (EmailSendTool
             \<lparr>build_error = None, context_error = None,
              connect_error = Some (Exn SMTPConnectError (u ''Connection refused'')),
              starttls_error = None, login_error = None, sendmail_error = None\<rparr>)
          [(u ''to_addresses'', JList [JStr (u ''a@example.com'')]), (u ''subject'', JStr (u ''Hello'')),
           (u ''sender_email'', JStr (u ''s@example.com'')), (u ''sender_password'', JStr (u ''pw''))] ()
        = (Inr (JDict [(u ''success'', JBool False), (u ''error'', JStr (exn_str e)),
                       (u ''tool_name'', JStr (u ''email_send''))]), ()))
   \<and> safe_execute
       (EmailSendTool
          \<lparr>build_error = None, context_error = None,
           connect_error = Some (Exn SMTPConnectError (u ''Connection refused'')),
           starttls_error = None, login_error = None, sendmail_error = None\<rparr>)
       [(u ''self'', JNone)] ()
     = (Inl (multiple_values (u ''BaseMCPTool.safe_execute'') (u ''self'')), ())"
proof -
  let ?kw = "[(u ''to_addresses'', JList [JStr (u ''a@example.com'')]), (u ''subject'', JStr (u ''Hello'')),
      (u ''body'', JStr (u ''Hi'')), (u ''sender_email'', JStr (u ''s@example.com'')),
      (u ''sender_password'', JStr (u ''pw''))]"
  let ?nobody = "[(u ''to_addresses'', JList [JStr (u ''a@example.com'')]), (u ''subject'', JStr (u ''Hello'')),
      (u ''sender_email'', JStr (u ''s@example.com'')), (u ''sender_password'', JStr (u ''pw''))]"
  let ?smtp = "\<lparr>build_error = None, context_error = None,
         connect_error = Some (Exn SMTPConnectError (u ''Connection refused'')),
         starttls_error = None, login_error = None, sendmail_error = None\<rparr>"
  have binds: "email_call_binds ?kw"
    by (simp add: email_call_binds_def email_parameters_def email_required_def)
  have built: "email_message_built ?smtp ?kw"
    by (simp add: email_message_built_def dget_default_def)
  have fails: "send_fails ?smtp ?kw"
    by (simp add: send_fails_def dget_default_def)
  have unbound: "\<not> email_call_binds ?nobody"
    by (simp add: email_call_binds_def email_required_def)
  have noself: "dget ?nobody (u ''self'') = None"
    by simp
  have self: "dget [(u ''self'', JNone)] (u ''self'') \<noteq> None"
    by simp
  from failed_send_envelope [of ?kw ?smtp "()"] binds built fails
  have one: "safe_execute (EmailSendTool ?smtp) ?kw () =
      (Inr (JDict [(u ''success'', JBool True), (u ''result'', JBool False),
                   (u ''tool_name'', JStr (u ''email_send''))]), ())"
    by blast
  from failed_send_envelope [of ?nobody ?smtp "()"] unbound noself
  have two: "\<exists>e. email_execute ?smtp ?nobody () = (Inl e, ())
      \<and> safe_execute (EmailSendTool ?smtp) ?nobody () =
          (Inr (JDict [(u ''success'', JBool False), (u ''error'', JStr (exn_str e)),
                       (u ''tool_name'', JStr (u ''email_send''))]), ())"
    by blast
  from failed_send_envelope [of "[(u ''self'', JNone)]" ?smtp "()"] self
  have three: "safe_execute (EmailSendTool ?smtp) [(u ''self'', JNone)] ()
      = (Inl (multiple_values (u ''BaseMCPTool.safe_execute'') (u ''self'')), ())"
    by blast
  from one two three show ?thesis by (intro conjI)
qed

section \<open>Masking of sensitive tool parameters\<close>

lemma redact_masks:
  "(k, v) \<in> set (entries (redact lower x)) \<Longrightarrow> lower k \<in> set sensitive_keys \<Longrightarrow> v = JStr (u ''***'')"
  "(k, v) \<in> set (entries_items (redact_items lower d)) \<Longrightarrow> lower k \<in> set sensitive_keys \<Longrightarrow> v = JStr (u ''***'')"
  "(k, v) \<in> set (entries_list (redact_list lower xs)) \<Longrightarrow> lower k \<in> set sensitive_keys \<Longrightarrow> v = JStr (u ''***'')"
  by (induction lower x and lower d and lower xs rule: redact_redact_items_redact_list.induct)
     (auto split: if_splits)

text \<open>
  C2. For every action record that the action-execution node builds, and every item
  \<open>(k, v)\<close> at any nesting depth of the record's \<open>tool_params\<close> (inside nested
  dictionaries and inside lists): if the lowercased key is one of \<open>password\<close>,
  \<open>sender_password\<close>, \<open>api_key\<close>, \<open>token\<close>, \<open>secret\<close>, \<open>authorization\<close>, then the value
  is the placeholder \<open>"***"\<close>. The intent, the tool outcome and the lowercasing table are
  arbitrary.
\<close>

theorem action_record_masked:
  assumes "action_execution_node lower execute_tool state w = (state', w')"
    and "JDict action \<in> set (actions state')"
    and "dget action (u ''tool_params'') = Some tool_params"
    and "(k, v) \<in> set (entries tool_params)"
    and "lower k \<in> set sensitive_keys"
  shows "v = JStr (u ''***'')"
  using assms
  by (auto simp: action_execution_node_def Let_def node_failed_def
      split: if_splits prod.splits sum.splits json.splits option.splits dest: redact_masks(1))

text \<open>
  An email send whose parameters carry the sender's password at the top level, an API key
  in a nested dictionary and a token in a dictionary inside a list, with keys in mixed
  case: the node's record shows the placeholder at all three.
\<close>

theorem action_record_masked_witness:
  "action_execution_node ascii_lower
     (\<lambda>intent w. (Inr (JDict [(u ''success'', JBool True),
                               (u ''result'', JBool False),
                               (u ''tool_category'', JStr (u ''email'')),
                               (u ''tool_params'',
                                  JDict [(u ''tool_name'', JStr (u ''email_send'')),
                                         (u ''Sender_Password'', JStr (u ''hunter2'')),
                                         (u ''extra'', JDict [(u ''API_KEY'', JStr (u ''sk-1''))]),
                                         (u ''hops'', JList [JDict [(u ''Token'', JInt 7)]])])]), w))
     \<lparr>query = u ''send'', intent_analysis = [(u ''requires_tools'', JBool True), (u ''tool_category'', JStr (u ''email''))],
      documents = [], context_text = [], response = [], actions = [], conversation_history = [],
      error = [], iteration_count = 1, tool_result = None, request_id = None\<rparr> ()
   = (\<lparr>query = u ''send'', intent_analysis = [(u ''requires_tools'', JBool True), (u ''tool_category'', JStr (u ''email''))],
      documents = [], context_text = [], response = [],
      actions = [JDict [(u ''type'', JStr (u ''email'')),
                        (u ''status'', JStr (u ''completed'')),
                        (u ''result'', JBool False),
                        (u ''tool_params'',
                           JDict [(u ''tool_name'', JStr (u ''email_send'')),
                                  (u ''Sender_Password'', JStr (u ''***'')),
                                  (u ''extra'', JDict [(u ''API_KEY'', JStr (u ''***''))]),
                                  (u ''hops'', JList [JDict [(u ''Token'', JStr (u ''***''))]])])]],
      conversation_history = [], error = [], iteration_count = 1,
      tool_result = Some (JDict [(u ''success'', JBool True),
                               (u ''result'', JBool False),
                               (u ''tool_category'', JStr (u ''email'')),
                               (u ''tool_params'',
                                  JDict [(u ''tool_name'', JStr (u ''email_send'')),
                                         (u ''Sender_Password'', JStr (u ''hunter2'')),
                                         (u ''extra'', JDict [(u ''API_KEY'', JStr (u ''sk-1''))]),
                                         (u ''hops'', JList [JDict [(u ''Token'', JInt 7)]])])]),
      request_id = None\<rparr>, ())
   \<and> (u ''Token'', JStr (u ''***''))
       \<in> set (entries (JDict [(u ''tool_name'', JStr (u ''email_send'')),
                               (u ''Sender_Password'', JStr (u ''***'')),
                               (u ''extra'', JDict [(u ''API_KEY'', JStr (u ''***''))]),
                               (u ''hops'', JList [JDict [(u ''Token'', JStr (u ''***''))]])]))
   \<and> ascii_lower (u ''Token'') \<in> set sensitive_keys"
proof -
  let ?tp = "JDict [(u ''tool_name'', JStr (u ''email_send'')),
                    (u ''Sender_Password'', JStr (u ''hunter2'')),
                    (u ''extra'', JDict [(u ''API_KEY'', JStr (u ''sk-1''))]),
                    (u ''hops'', JList [JDict [(u ''Token'', JInt 7)]])]"
  let ?tr = "[(u ''success'', JBool True), (u ''result'', JBool False),
              (u ''tool_category'', JStr (u ''email'')), (u ''tool_params'', ?tp)]"
  let ?tp' = "JDict [(u ''tool_name'', JStr (u ''email_send'')),
                     (u ''Sender_Password'', JStr (u ''***'')),
                     (u ''extra'', JDict [(u ''API_KEY'', JStr (u ''***''))]),
                     (u ''hops'', JList [JDict [(u ''Token'', JStr (u ''***''))]])]"
  let ?act = "[(u ''type'', JStr (u ''email'')), (u ''status'', JStr (u ''completed'')),
               (u ''result'', JBool False), (u ''tool_params'', ?tp')]"
  let ?st = "\<lparr>query = u ''send'', intent_analysis = [(u ''requires_tools'', JBool True), (u ''tool_category'', JStr (u ''email''))],
      documents = [], context_text = [], response = [], actions = [], conversation_history = [],
      error = [], iteration_count = 1, tool_result = None, request_id = None\<rparr>"
  have low: "ascii_lower (u ''tool_name'') = u ''tool_name''"
    "ascii_lower (u ''Sender_Password'') = u ''sender_password''"
    "ascii_lower (u ''extra'') = u ''extra''"
    "ascii_lower (u ''API_KEY'') = u ''api_key''"
    "ascii_lower (u ''hops'') = u ''hops''"
    "ascii_lower (u ''Token'') = u ''token''"
    by (simp_all add: ascii_lower_def u_def)
  have run: "action_execution_node ascii_lower (\<lambda>intent w. (Inr (JDict ?tr), w)) ?st ()
      = (?st\<lparr>actions := [JDict ?act], tool_result := Some (JDict ?tr)\<rparr>, ())"
    by (simp add: action_execution_node_def dget_default_def low sensitive_keys_def)
  have mem: "JDict ?act \<in> set (actions (?st\<lparr>actions := [JDict ?act], tool_result := Some (JDict ?tr)\<rparr>))"
    by simp
  have tp: "dget ?act (u ''tool_params'') = Some ?tp'"
    by simp
  have item: "(u ''Token'', JStr (u ''***'')) \<in> set (entries ?tp')"
    by simp
  have sens: "ascii_lower (u ''Token'') \<in> set sensitive_keys"
    by (simp add: low sensitive_keys_def)
  from action_record_masked [OF run mem tp item sens] run item sens
  show ?thesis by simp
qed

section \<open>Document retrieval\<close>

lemma py_rstrip_append:
  assumes "A \<noteq> []" and "\<not> is_space (last A)"
  shows "py_rstrip (A @ B) = A @ py_rstrip B"
proof -
  from assms have "dropWhile is_space (rev A) = rev A"
    by (simp add: dropWhile_eq_self_iff hd_rev)
  then show ?thesis
    by (simp add: py_rstrip_def dropWhile_append)
qed

lemma strip_block:
  "py_strip ([10] @ [25991, 26723, 26469, 28304, 58, 32] @ fn
       @ [10] @ [25991, 26723, 31867, 21035, 58, 32] @ cat
       @ [10] @ [30456, 20284, 24230, 58, 32] @ sc
       @ [10, 10] @ [20869, 23481, 58] @ [10] @ c @ [10])
   = [25991, 26723, 26469, 28304, 58, 32] @ fn @ [10]
     @ [25991, 26723, 31867, 21035, 58, 32] @ cat @ [10]
     @ [30456, 20284, 24230, 58, 32] @ sc @ [10]
     @ [10]
     @ [20869, 23481, 58]
     @ py_rstrip ([10] @ c @ [10])"
proof -
  define A where "A = [25991, 26723, 26469, 28304, 58, 32] @ fn @ [10]
     @ [25991, 26723, 31867, 21035, 58, 32] @ cat @ [10]
     @ [30456, 20284, 24230, 58, 32] @ sc @ [10] @ [10] @ [20869, 23481, 58::nat]"
  define B where "B = [10] @ c @ [10::nat]"
  have hd: "A = 25991 # tl A" and ne: "A \<noteq> []" and last: "last A = 58"
    by (simp_all add: A_def)
  have sp: "is_space 10" "\<not> is_space 25991" "\<not> is_space 58"
    by (simp_all add: is_space_def)
  have "dropWhile is_space (10 # A @ B) = A @ B"
    using sp by (subst (1 2) hd) simp
  then have "py_strip (10 # A @ B) = py_rstrip (A @ B)"
    by (simp add: py_strip_def py_rstrip_def)
  also have "\<dots> = A @ py_rstrip B"
    using ne last sp by (simp add: py_rstrip_append)
  finally show ?thesis
    by (simp add: A_def B_def)
qed

lemma enriched_content_block:
  "has_dict_metadata r \<Longrightarrow> enriched_content fmt fmt3 r = Inr (block_text fmt fmt3 r)"
  unfolding enriched_content_def block_text_def has_dict_metadata_def metadata_dict_def
  by (cases "metadata r") (simp_all only: json.case strip_block simp_thms)

lemma enriched_content_Inr:
  "enriched_content fmt fmt3 r = Inr doc \<Longrightarrow> has_dict_metadata r"
  unfolding enriched_content_def has_dict_metadata_def
  by (cases "metadata r") simp_all

lemma enrich_all_ok:
  "list_all has_dict_metadata rs \<Longrightarrow> enrich_all fmt fmt3 rs = Inr (map (block_text fmt fmt3) rs)"
  by (induction rs) (simp_all add: enriched_content_block)

lemma enrich_all_Inr:
  "enrich_all fmt fmt3 rs = Inr docs \<Longrightarrow> docs = map (block_text fmt fmt3) rs"
proof (induction rs arbitrary: docs)
  case Nil
  then show ?case by simp
next
  case (Cons r rs)
  from Cons.prems obtain doc ds where d: "enriched_content fmt fmt3 r = Inr doc"
    and ds: "enrich_all fmt fmt3 rs = Inr ds" and docs: "docs = doc # ds"
    by (auto split: sum.splits)
  from d have "doc = block_text fmt fmt3 r"
    using enriched_content_block [OF enriched_content_Inr [OF d], of fmt fmt3] by simp
  with Cons.IH [OF ds] docs show ?case by simp
qed

text \<open>
  C4. For every query \<open>q\<close>, result count \<open>n_results\<close> (a count: not negative) and threshold
  \<open>min_similarity\<close>: the retriever's answer is determined by the store's reply \<open>raw\<close> to
  the request for \<open>4 * n_results\<close> matches; every match with a score below
  \<open>min_similarity\<close> is discarded, and the answer holds the labelled blocks of the first
  \<open>n_results\<close> survivors, in the store's order, so at most \<open>n_results\<close> of them. The
  labelled block of a match is \<open>block_text\<close>: the source label and the file name, the
  category label and the category, the similarity label and the score with three decimals,
  an empty line, the content label, and the raw content. (When a match carries metadata
  that is not a dictionary the body raises and the answer is the empty list.)
\<close>

theorem retrieve_documents_filters:
  fixes q :: pystr
  assumes "0 \<le> n_results"
  shows "let raw = search (enhanced_query q) (4 * n_results) (filter_dict_of filter_category);
             survivors = take (nat n_results) (filter (\<lambda>r. min_similarity \<le> similarity_score r) raw);
             docs = retrieve_documents fmt fmtf search q n_results filter_category min_similarity
         in (docs = map (block_text fmt fmtf) survivors \<or> docs = [])
          \<and> length docs \<le> nat n_results
          \<and> (list_all has_dict_metadata raw \<longrightarrow> docs = map (block_text fmt fmtf) survivors)"
proof -
  let ?raw = "search (enhanced_query q) (4 * n_results) (filter_dict_of filter_category)"
  let ?sv = "take (nat n_results) (filter (\<lambda>r. min_similarity \<le> similarity_score r) ?raw)"
  let ?docs = "retrieve_documents fmt fmtf search q n_results filter_category min_similarity"
  have eq: "n_results * 4 = 4 * n_results" by simp
  have a: "?docs = map (block_text fmt fmtf) ?sv \<or> ?docs = []"
    using assms
    by (auto simp: retrieve_documents_def Let_def py_slice_to_def eq
        split: sum.splits dest: enrich_all_Inr)
  then have b: "length ?docs \<le> nat n_results"
    by auto
  have c: "?docs = map (block_text fmt fmtf) ?sv" if wf: "list_all has_dict_metadata ?raw"
  proof -
    from wf have "list_all has_dict_metadata (take 5 ?raw)" "list_all has_dict_metadata ?sv"
      by (auto simp: list_all_iff dest: in_set_takeD)
    then show ?thesis
      using assms
      by (simp add: retrieve_documents_def Let_def py_slice_to_def eq enrich_all_ok)
  qed
  from a b c show ?thesis by (simp add: Let_def)
qed

text \<open>
  The example of the claim: the store returns three matches with scores 0.42, 0.20 and
  0.10; with the threshold 0.15 and five results asked for, exactly the first two
  survive. The answer is written out: each block is the source label (code points 25991,
  26723, 26469, 28304, then a colon and a space) with the file name, the category label
  (25991, 26723, 31867, 21035) with the category, the similarity label (30456, 20284,
  24230) with the score, an empty line, the content label (20869, 23481) and the content,
  whose trailing white space is removed.
\<close>

theorem retrieve_documents_filters_witness:
  "(0::int) \<le> 5
   \<and> retrieve_documents (\<lambda>v. []) (\<lambda>x. if x = 42 / 100 then u ''0.420'' else if x = 20 / 100 then u ''0.200'' else u ''0.100'')
       (\<lambda>q n f. [\<lparr>content = JStr (u ''Annual leave is 15 days.  ''),
                   metadata = JDict [(u ''filename'', JStr (u ''hr.txt'')), (u ''category'', JStr (u ''hr''))],
                   similarity_score = 42 / 100, distance = 58 / 100\<rparr>,
                  \<lparr>content = JStr (u ''Leave requests go to the manager.''),
                   metadata = JDict [(u ''filename'', JStr (u ''hr.txt''))],
                   similarity_score = 20 / 100, distance = 80 / 100\<rparr>,
                  \<lparr>content = JStr (u ''Deploy with the release script.''),
                   metadata = JDict [(u ''filename'', JStr (u ''ops.txt'')), (u ''category'', JStr (u ''tech''))],
                   similarity_score = 10 / 100, distance = 90 / 100\<rparr>])
       (u ''leave policy'') 5 None (15 / 100)
     = [[25991, 26723, 26469, 28304, 58, 32] @ u ''hr.txt'' @ [10]
        @ [25991, 26723, 31867, 21035, 58, 32] @ u ''hr'' @ [10]
        @ [30456, 20284, 24230, 58, 32] @ u ''0.420'' @ [10]
        @ [10]
        @ [20869, 23481, 58] @ [10]
        @ u ''Annual leave is 15 days.'',
        [25991, 26723, 26469, 28304, 58, 32] @ u ''hr.txt'' @ [10]
        @ [25991, 26723, 31867, 21035, 58, 32] @ [26410, 30693] @ [10]
        @ [30456, 20284, 24230, 58, 32] @ u ''0.200'' @ [10]
        @ [10]
        @ [20869, 23481, 58] @ [10]
        @ u ''Leave requests go to the manager.'']"
proof -
  have n: "(0::int) \<le> 5" by simp
  have strip1: "py_rstrip ([10] @ u ''Annual leave is 15 days.  '' @ [10]) = [10] @ u ''Annual leave is 15 days.''"
    by (simp add: py_rstrip_def u_def is_space_def)
  have strip2: "py_rstrip ([10] @ u ''Leave requests go to the manager.'' @ [10])
      = [10] @ u ''Leave requests go to the manager.''"
    by (simp add: py_rstrip_def u_def is_space_def)
  show ?thesis
    using retrieve_documents_filters [where n_results = 5
          and fmt = "\<lambda>v. []"
          and fmtf = "\<lambda>x. if x = 42 / 100 then u ''0.420'' else if x = 20 / 100 then u ''0.200'' else u ''0.100''"
          and search = "\<lambda>q n f. [\<lparr>content = JStr (u ''Annual leave is 15 days.  ''),
                   metadata = JDict [(u ''filename'', JStr (u ''hr.txt'')), (u ''category'', JStr (u ''hr''))],
                   similarity_score = 42 / 100, distance = 58 / 100\<rparr>,
                  \<lparr>content = JStr (u ''Leave requests go to the manager.''),
                   metadata = JDict [(u ''filename'', JStr (u ''hr.txt''))],
                   similarity_score = 20 / 100, distance = 80 / 100\<rparr>,
                  \<lparr>content = JStr (u ''Deploy with the release script.''),
                   metadata = JDict [(u ''filename'', JStr (u ''ops.txt'')), (u ''category'', JStr (u ''tech''))],
                   similarity_score = 10 / 100, distance = 90 / 100\<rparr>]"
          and q = "u ''leave policy''" and filter_category = None and min_similarity = "15 / 100", OF n]
    by (simp add: Let_def has_dict_metadata_def block_text_def metadata_dict_def dget_default_def
          strip1 strip2 del: append.simps)
qed

section \<open>Rejections of the upload endpoint\<close>

lemma suffix_notes_exe: "ascii_lower (path_suffix (u ''notes.exe'')) = u ''.exe''"
  by (simp add: path_suffix_def path_name_def u_def ascii_lower_def)

lemma suffix_big_pdf: "ascii_lower (path_suffix (u ''big.pdf'')) = u ''.pdf''"
  by (simp add: path_suffix_def path_name_def u_def ascii_lower_def)

text \<open>Whatever the upload handler raises carries the status 500: the body's own
  \<open>HTTPException(400)\<close> never reaches the client.\<close>

lemma upload_rejection_status:
  "upload_document lower cfg env file = Inl (HTTPException code) \<Longrightarrow> code = 500"
  by (auto simp: upload_document_def split: sum.splits raised.splits)

text \<open>
  C5. The claim is that a file whose extension is not \<open>.pdf\<close>, \<open>.docx\<close> or \<open>.txt\<close>, and a
  file larger than the configured maximum, are rejected with status 400. On the code, the
  upload of \<open>notes.exe\<close> (10 bytes) and the upload of \<open>big.pdf\<close> (one byte more than the
  maximum of 10 MiB) are both rejected with status 500: the body raises
  \<open>HTTPException(400)\<close> inside the \<open>try\<close>, and the handler \<open>except Exception\<close> replaces
  it.
\<close>

theorem upload_rejections_raise_500:
  "upload_document ascii_lower default_settings
     \<lparr>new_uuid = u ''0b0e7a52-0000-4000-8000-000000000000'', save_error = None, content_length = 10\<rparr>
     \<lparr>filename = Some (u ''notes.exe''), size' = Some 10\<rparr>
   = Inl (HTTPException 500)
   \<and> upload_document ascii_lower default_settings
     \<lparr>new_uuid = u ''0b0e7a52-0000-4000-8000-000000000000'', save_error = None, content_length = 10485761\<rparr>
     \<lparr>filename = Some (u ''big.pdf''), size' = Some 10485761\<rparr>
   = Inl (HTTPException 500)"
  by (simp add: upload_document_def upload_body_def suffix_notes_exe suffix_big_pdf
      allowed_extensions_def default_settings_def)

section \<open>Calendar time normalisation\<close>

text \<open>
  A text matched by the afternoon pattern or by the morning pattern contains a text matched
  by the first pattern (digits and the hour mark), so the first pattern matches it too.
\<close>

lemma hour_mark_suffix:
  "match_here dv HourMark t \<noteq> None \<Longrightarrow> re_search dv HourMark (xs @ t) \<noteq> None"
  by (induction xs) (cases t; auto split: option.splits)+

lemma afternoon_here_gives_mark:
  "match_here dv AfternoonHour str \<noteq> None \<Longrightarrow> re_search dv HourMark str \<noteq> None"
proof -
  assume a: "match_here dv AfternoonHour str \<noteq> None"
  then obtain x y t where t: "str = x # y # t" and m: "match_here dv HourMark t \<noteq> None"
    by (cases str; cases "tl str") (auto split: if_splits)
  from hour_mark_suffix [OF m, of "[x, y]"] t show ?thesis by simp
qed

lemma morning_here_gives_mark:
  "match_here dv MorningHour str \<noteq> None \<Longrightarrow> re_search dv HourMark str \<noteq> None"
proof -
  assume a: "match_here dv MorningHour str \<noteq> None"
  then obtain x y t where t: "str = x # y # t" and m: "match_here dv HourMark t \<noteq> None"
    by (cases str; cases "tl str") (auto split: if_splits)
  from hour_mark_suffix [OF m, of "[x, y]"] t show ?thesis by simp
qed

lemma re_search_mono:
  "re_search dv HourMark cs \<noteq> None \<Longrightarrow> re_search dv HourMark (c # cs) \<noteq> None"
  by (auto split: option.splits)

lemma afternoon_shadowed:
  "re_search dv AfternoonHour str \<noteq> None \<Longrightarrow> re_search dv HourMark str \<noteq> None"
proof (induction str)
  case Nil
  then show ?case by simp
next
  case (Cons c cs)
  show ?case
  proof (cases "match_here dv AfternoonHour (c # cs)")
    case None
    with Cons.prems have "re_search dv AfternoonHour cs \<noteq> None" by simp
    then have "re_search dv HourMark cs \<noteq> None" by (rule Cons.IH)
    then show ?thesis by (rule re_search_mono)
  next
    case (Some m)
    then show ?thesis by (intro afternoon_here_gives_mark) simp
  qed
qed

lemma morning_shadowed:
  "re_search dv MorningHour str \<noteq> None \<Longrightarrow> re_search dv HourMark str \<noteq> None"
proof (induction str)
  case Nil
  then show ?case by simp
next
  case (Cons c cs)
  show ?case
  proof (cases "match_here dv MorningHour (c # cs)")
    case None
    with Cons.prems have "re_search dv MorningHour cs \<noteq> None" by simp
    then have "re_search dv HourMark cs \<noteq> None" by (rule Cons.IH)
    then show ?thesis by (rule re_search_mono)
  next
    case (Some m)
    then show ?thesis by (intro morning_here_gives_mark) simp
  qed
qed

text \<open>So the second and the third pattern never decide the hour: the loop over the four
  patterns computes what the loop over the first and the last computes.\<close>

lemma scan_time_patterns_dead:
  "scan_time_patterns dv q time_patterns d = scan_time_patterns dv q [HourMark, HourMinute] d"
proof (cases d)
  case (Pair h m)
  show ?thesis
  proof (cases "re_search dv HourMark q")
    case None
    with afternoon_shadowed [of dv q] morning_shadowed [of dv q]
    have "re_search dv AfternoonHour q = None" "re_search dv MorningHour q = None"
      by blast+
    with None Pair show ?thesis by (simp add: time_patterns_def)
  next
    case (Some a)
    with Pair show ?thesis by (simp add: time_patterns_def)
  qed
qed


text \<open>
  What the normalisation returns when it returns: the start is on the day given by the day
  words of the query, at the hour and minute of the scan, with zero seconds, and the end
  is one hour later; neither depends on the times in the parameters it was given.
\<close>

lemma add_hour_seconds:
  "add_hour dt = Inr dt' \<Longrightarrow> dt_hour dt \<le> 23 \<Longrightarrow> seconds_of dt' = seconds_of dt + 3600"
  by (auto simp: add_hour_def seconds_of_def split: if_splits)

lemma process_calendar_time_result:
  assumes "process_calendar_time dv rd now params q = Inr params'"
  shows "\<exists>start_dt end_dt.
           params' = dset (dset params (u ''start_time'') (JStr (strftime_iso rd start_dt)))
                       (u ''end_time'') (JStr (strftime_iso rd end_dt))
         \<and> dt_ordinal start_dt = dt_ordinal now + day_offset q
         \<and> (dt_hour start_dt, dt_minute start_dt) = scan_time_patterns dv q [HourMark, HourMinute] (14, 0)
         \<and> dt_second start_dt = 0
         \<and> seconds_of end_dt = seconds_of start_dt + 3600"
proof -
  obtain h m where hm: "scan_time_patterns dv q time_patterns (14, 0) = (h, m)"
    by (cases "scan_time_patterns dv q time_patterns (14, 0)")
  from assms obtain target where tg: "add_days now (day_offset q) = Inr target"
    by (auto simp: process_calendar_time_def split: sum.splits)
  from assms tg hm obtain start_dt where st: "replace_time target h m = Inr start_dt"
    by (auto simp: process_calendar_time_def split: sum.splits)
  from assms tg hm st obtain end_dt where en: "add_hour start_dt = Inr end_dt"
    by (auto simp: process_calendar_time_def split: sum.splits)
  from assms tg hm st en
  have p: "params' = dset (dset params (u ''start_time'') (JStr (strftime_iso rd start_dt)))
                       (u ''end_time'') (JStr (strftime_iso rd end_dt))"
    by (simp add: process_calendar_time_def)
  from tg have o1: "dt_ordinal target = dt_ordinal now + day_offset q"
    by (auto simp: add_days_def split: if_splits)
  from st have s1: "dt_ordinal start_dt = dt_ordinal target" "dt_hour start_dt = h"
    "dt_minute start_dt = m" "dt_second start_dt = 0" "dt_hour start_dt \<le> 23"
    by (auto simp: replace_time_def split: if_splits)
  from hm have "scan_time_patterns dv q [HourMark, HourMinute] (14, 0) = (h, m)"
    by (simp add: scan_time_patterns_dead)
  with p o1 s1 add_hour_seconds [OF en s1(5)] show ?thesis
    by (intro exI [of _ start_dt] exI [of _ end_dt]) simp
qed

text \<open>An hour above 23 found in the text makes the normalisation raise; the extraction
  then falls back.\<close>

lemma process_calendar_time_raises:
  assumes "scan_time_patterns dv q time_patterns (14, 0) = (h, m)" and "23 < h"
    and "dt_ordinal now + day_offset q \<le> max_ordinal"
  shows "process_calendar_time dv rd now params q = Inl (Exn ValueError (u ''hour must be in 0..23''))"
  using assms by (simp add: process_calendar_time_def add_days_def replace_time_def)

lemma scan_afternoon_three:
  "scan_time_patterns ascii_digit [26126, 22825, 19979, 21320, 51, 28857, 24320, 20250] time_patterns (14, 0)
   = (3, 0)"
  by (simp add: time_patterns_def match_digits_def match_dian_def ascii_digit_def group_int_def py_int_def)

lemma day_offset_tomorrow:
  "day_offset [26126, 22825, 19979, 21320, 51, 28857, 24320, 20250] = 1"
  by (simp add: day_offset_def)

text \<open>
  C8. The claim lists the afternoon pattern (afternoon, N, hour mark) with the hour
  \<open>N + 12\<close> for \<open>N < 12\<close> among the rules that decide the start hour. On the code, with
  the clock at 2024-01-15 09:30:12 and the query of eight characters
  "tomorrow afternoon 3 o'clock meeting" (U+660E U+5929 U+4E0B U+5348 3 U+70B9 U+5F00
  U+4F1A), for which the model's reply proposes 15:00 to 16:30, the extraction returns the
  start 2024-01-16T03:00:00 and the end 2024-01-16T04:00:00: the first pattern matches
  "3 o'clock" inside the afternoon phrase and ends the loop.
\<close>

theorem afternoon_three_is_three_am:
  "extract_tool_parameters
     (scripted_env (\<lambda>category. [(u ''tool_name'', JStr (u ''calendar_event'')),
                                  (u ''action'', JStr (u ''create'')),
                                  (u ''title'', JStr (u ''Review'')),
                                  (u ''start_time'', JStr (u ''2024-01-16T15:00:00'')),
                                  (u ''end_time'', JStr (u ''2024-01-16T16:30:00''))]))
     [26126, 22825, 19979, 21320, 51, 28857, 24320, 20250] (u ''calendar'') ()
   = (Inr [(u ''tool_name'', JStr (u ''calendar_event'')),
           (u ''action'', JStr (u ''create'')),
           (u ''title'', JStr (u ''Review'')),
           (u ''start_time'', JStr (u ''2024-01-16T03:00:00'')),
           (u ''end_time'', JStr (u ''2024-01-16T04:00:00''))], ())"
  by (simp add: extract_tool_parameters_def intelligent_parameter_extraction_def scripted_env_def
      py_bind_def py_return_def process_calendar_time_def scan_afternoon_three day_offset_tomorrow
      add_days_def max_ordinal_def replace_time_def add_hour_def strftime_iso_def
      render_january_2024_def two_digits_def category_defaults_def setdefault_def dget_default_def
      default_settings_def u_def)

section \<open>Composite tool execution\<close>

lemma py_bind_Inr:
  "py_bind m f w = (Inr b, w') \<Longrightarrow> \<exists>a w1. m w = (Inr a, w1) \<and> f a w1 = (Inr b, w')"
  by (auto simp: py_bind_def split: prod.splits sum.splits)

lemma py_bind_Inl:
  "py_bind m f w = (Inl e, w') \<Longrightarrow>
   m w = (Inl e, w') \<or> (\<exists>a w1. m w = (Inr a, w1) \<and> f a w1 = (Inl e, w'))"
  by (auto simp: py_bind_def split: prod.splits sum.splits)

lemma py_return_eq: "py_return a w = (r, w') \<longleftrightarrow> r = Inr a \<and> w' = w"
  by (auto simp: py_return_def)

lemma py_raise_eq: "py_raise e w = (r, w') \<longleftrightarrow> r = Inl e \<and> w' = w"
  by (auto simp: py_raise_def)

lemma py_pure_eq: "py_pure x w = (r, w') \<longleftrightarrow> x = r \<and> w' = w"
  by (auto simp: py_pure_def)

text \<open>One turn of the loop: an unknown category only clears the flag; a known category
  that raises nothing appends one entry, leaves the flag alone, and extends the trace.\<close>

lemma run_category_unknown:
  "map_of tm c = None \<Longrightarrow> run_category env fmt tm q c (rs, a, mi) w = (Inr (rs, False, mi), w)"
  by (simp add: run_category_def py_return_def)

lemma run_category_unknown_any:
  assumes "map_of tm c = None"
  shows "\<exists>st'. run_category env fmt tm q c st w = (Inr st', w)"
proof (cases st)
  case (fields rs a mi)
  with run_category_unknown [OF assms] show ?thesis
    by (intro exI [of _ "(rs, False, mi)"]) simp
qed

lemma run_category_known:
  fixes q :: pystr
  assumes m: "map_of tm c = Some inst"
    and run: "run_category env fmt tm q c (rs, a, mi) w = (Inr (rs', a', mi'), w')"
  shows "a' = a \<and> (\<exists>r tp. rs' = rs @ [composite_entry (c, r, tp)]
           \<and> (\<forall>cats es w''. composite_trace env fmt tm q cats mi' w' es w'' \<longrightarrow>
                 composite_trace env fmt tm q (c # cats) mi w ((c, r, tp) # es) w''))"
proof -
  let ?X = "if c = u ''email'' \<and> truthy mi then env_email_with_meeting env q mi
            else extract_tool_parameters env q c"
  from run m obtain tp0 w1 where x: "?X w = (Inr tp0, w1)"
    and rest: "(if c = u ''calendar'' \<and> dget tp0 (u ''_multiple_meetings'') \<noteq> None then
             py_bind (py_pure (py_iter (dget_default tp0 (u ''_multiple_meetings'') JNone))) (\<lambda>meetings.
             py_bind (create_meetings fmt inst meetings ([], mi)) (\<lambda>(meeting_results, meeting_info1).
             py_bind (py_pure (successful_meetings meeting_results)) (\<lambda>successful.
             py_bind (py_pure (all_succeeded meeting_results)) (\<lambda>ok.
               py_return
                 (rs @
                    [JDict [(u ''category'', JStr c),
                            (u ''result'',
                               JDict [(u ''success'', JBool ok),
                                      (u ''result'',
                                         JDict [(u ''action'', JStr (u ''create_multiple'')),
                                                (u ''meetings'', JList successful),
                                                (u ''total_created'', JInt (int (length successful)))])]),
                            (u ''tool_params'', JDict (ddel tp0 (u ''_multiple_meetings'')))]],
                  a,
                  if successful \<noteq> []
                  then JDict [(u ''meetings'', JList successful),
                              (u ''total_created'', JInt (int (length successful)))]
                  else meeting_info1)))))
           else
             py_bind (if c = u ''email'' then apply_email_template fmt inst tp0
                      else py_return tp0) (\<lambda>tool_params1.
             if \<not> truthy (dget_default tool_params1 (u ''tool_name'') JNone) then py_raise missing_tool_name
             else
               py_bind (collection_execute_tool fmt inst
                          (dget_default tool_params1 (u ''tool_name'') JNone)
                          (ddel tool_params1 (u ''tool_name''))) (\<lambda>result.
               py_bind (py_pure (if c = u ''calendar'' then created_meeting_info mi result
                                 else Inr mi)) (\<lambda>meeting_info1.
                 py_return
                   (rs @
                      [JDict [(u ''category'', JStr c),
                              (u ''result'', result),
                              (u ''tool_params'', JDict tool_params1)]],
                    a, meeting_info1))))) w1 = (Inr (rs', a', mi'), w')"
    unfolding run_category_def
    by (simp only: prod.case option.case) (drule py_bind_Inr, blast)
  show ?thesis
  proof (cases "c = u ''calendar'' \<and> dget tp0 (u ''_multiple_meetings'') \<noteq> None")
    case True
    then have cal: "c = u ''calendar''" and "dget tp0 (u ''_multiple_meetings'') \<noteq> None"
      by simp_all
    then obtain marker where mk: "dget tp0 (u ''_multiple_meetings'') = Some marker"
      by auto
    from cal x have x': "extract_tool_parameters env q c w = (Inr tp0, w1)"
      by simp
    from rest True mk obtain meetings meeting_results mi1 w2 successful ok
      where it: "py_iter marker = Inr meetings"
        and cr: "create_meetings fmt inst meetings ([], mi) w1 = (Inr (meeting_results, mi1), w2)"
        and su: "successful_meetings meeting_results = Inr successful"
        and al: "all_succeeded meeting_results = Inr ok"
        and res: "rs' = rs @
                    [JDict [(u ''category'', JStr c),
                            (u ''result'',
                               JDict [(u ''success'', JBool ok),
                                      (u ''result'',
                                         JDict [(u ''action'', JStr (u ''create_multiple'')),
                                                (u ''meetings'', JList successful),
                                                (u ''total_created'', JInt (int (length successful)))])]),
                            (u ''tool_params'', JDict (ddel tp0 (u ''_multiple_meetings'')))]]"
        and fl: "a' = a"
        and mi': "mi' = (if successful \<noteq> []
                  then JDict [(u ''meetings'', JList successful),
                              (u ''total_created'', JInt (int (length successful)))]
                  else mi1)"
        and w': "w' = w2"
      by (simp only: if_True dget_default_def option.case)
         (auto simp: py_return_eq py_pure_eq dest!: py_bind_Inr)
    have "composite_trace env fmt tm q (c # cats) mi w
            ((c, JDict [(u ''success'', JBool ok),
                        (u ''result'',
                           JDict [(u ''action'', JStr (u ''create_multiple'')),
                                  (u ''meetings'', JList successful),
                                  (u ''total_created'', JInt (int (length successful)))])],
              ddel tp0 (u ''_multiple_meetings'')) # es) w''"
      if "composite_trace env fmt tm q cats mi' w' es w''" for cats es w''
      using trace_meetings [OF m cal x' mk it cr su al] that
      unfolding mi' w' by blast
    with res fl show ?thesis
      unfolding composite_entry_def by (simp only: prod.case) blast
  next
    case False
    from rest False obtain tp w2 r w3 mi1
      where te: "(if c = u ''email'' then apply_email_template fmt inst tp0 else py_return tp0) w1 = (Inr tp, w2)"
        and tn: "truthy (dget_default tp (u ''tool_name'') JNone)"
        and ex: "collection_execute_tool fmt inst (dget_default tp (u ''tool_name'') JNone)
                   (ddel tp (u ''tool_name'')) w2 = (Inr r, w3)"
        and cm: "(if c = u ''calendar'' then created_meeting_info mi r else Inr mi) = Inr mi1"
        and res: "rs' = rs @ [JDict [(u ''category'', JStr c), (u ''result'', r), (u ''tool_params'', JDict tp)]]"
        and fl: "a' = a" and mi': "mi' = mi1" and w': "w' = w3"
      by (simp only: if_False)
         (auto simp: py_return_eq py_pure_eq py_raise_eq split: if_splits dest!: py_bind_Inr)
    have "composite_trace env fmt tm q (c # cats) mi w ((c, r, tp) # es) w''"
      if "composite_trace env fmt tm q cats mi' w' es w''" for cats es w''
      using trace_tool [OF m x False te tn ex cm] that
      unfolding mi' w' by blast
    with res fl show ?thesis
      unfolding composite_entry_def by (simp only: prod.case) blast
  qed
qed

lemma composite_loop_Inr:
  fixes q :: pystr
  shows "composite_loop env fmt tm q cats (rs, a, mi) w = (Inr (rs', a', mi'), w') \<Longrightarrow>
   a' = (a \<and> list_all (\<lambda>c. map_of tm c \<noteq> None) cats)
   \<and> (\<exists>es. rs' = rs @ map composite_entry es
          \<and> map fst es = filter (\<lambda>c. map_of tm c \<noteq> None) cats
          \<and> composite_trace env fmt tm q cats mi w es w')"
proof (induction cats arbitrary: rs a mi w)
  case Nil
  then show ?case by (auto simp: py_return_eq intro: trace_end)
next
  case (Cons c cats)
  from Cons.prems obtain st1 w1
    where step: "run_category env fmt tm q c (rs, a, mi) w = (Inr st1, w1)"
      and rest: "composite_loop env fmt tm q cats st1 w1 = (Inr (rs', a', mi'), w')"
    by (auto dest!: py_bind_Inr)
  obtain rs1 a1 mi1 where st1: "st1 = (rs1, a1, mi1)"
    by (cases st1)
  from Cons.IH [OF rest [unfolded st1]] obtain es
    where ih: "a' = (a1 \<and> list_all (\<lambda>c. map_of tm c \<noteq> None) cats)"
      "rs' = rs1 @ map composite_entry es"
      "map fst es = filter (\<lambda>c. map_of tm c \<noteq> None) cats"
      "composite_trace env fmt tm q cats mi1 w1 es w'"
    by blast
  show ?case
  proof (cases "map_of tm c")
    case None
    with step st1 have "rs1 = rs" "a1 = False" "mi1 = mi" "w1 = w"
      by (simp_all add: run_category_unknown)
    with ih None trace_unknown [OF None, of env fmt q cats mi w es w'] show ?thesis
      by auto
  next
    case (Some inst)
    from run_category_known [OF Some step [unfolded st1]]
    obtain r tp where k: "a1 = a" "rs1 = rs @ [composite_entry (c, r, tp)]"
      "composite_trace env fmt tm q (c # cats) mi w ((c, r, tp) # es) w'"
      using ih(4) by blast
    with ih Some show ?thesis
      by (intro conjI exI [of _ "(c, r, tp) # es"]) auto
  qed
qed

lemma composite_loop_append:
  "composite_loop env fmt tm q (xs @ ys) st w =
     py_bind (composite_loop env fmt tm q xs st) (composite_loop env fmt tm q ys) w"
proof (induction xs arbitrary: st w)
  case Nil
  show ?case by (simp add: py_bind_def py_return_def)
next
  case (Cons x xs)
  show ?case
    by (cases "run_category env fmt tm q x st w"; cases "fst (run_category env fmt tm q x st w)")
       (auto simp: py_bind_def Cons.IH)
qed

lemma composite_loop_stops:
  assumes "composite_loop env fmt tm q before st w = (Inr st1, w1)"
    and "run_category env fmt tm q c st1 w1 = (Inl e, w2)"
  shows "composite_loop env fmt tm q (before @ c # after) st w = (Inl e, w2)"
  using assms by (simp add: composite_loop_append py_bind_def)

lemma composite_loop_Inl:
  "composite_loop env fmt tm q cats st w = (Inl e, w') \<Longrightarrow>
   \<exists>before c after st1 w1.
     cats = before @ c # after \<and> map_of tm c \<noteq> None
     \<and> composite_loop env fmt tm q before st w = (Inr st1, w1)
     \<and> run_category env fmt tm q c st1 w1 = (Inl e, w')"
proof (induction cats arbitrary: st w)
  case Nil
  then show ?case by (simp add: py_return_def)
next
  case (Cons c cats)
  from Cons.prems have "run_category env fmt tm q c st w = (Inl e, w')
      \<or> (\<exists>st1 w1. run_category env fmt tm q c st w = (Inr st1, w1)
            \<and> composite_loop env fmt tm q cats st1 w1 = (Inl e, w'))"
    by (auto dest!: py_bind_Inl)
  then show ?case
  proof
    assume r: "run_category env fmt tm q c st w = (Inl e, w')"
    then have "map_of tm c \<noteq> None"
      using run_category_unknown_any [of tm c env fmt q st w] by auto
    with r show ?thesis
      by (intro exI [of _ "[]"] exI [of _ c] exI [of _ cats] exI [of _ st] exI [of _ w])
         (simp add: py_return_def)
  next
    assume "\<exists>st1 w1. run_category env fmt tm q c st w = (Inr st1, w1)
            \<and> composite_loop env fmt tm q cats st1 w1 = (Inl e, w')"
    then obtain st1 w1 where s: "run_category env fmt tm q c st w = (Inr st1, w1)"
      and l: "composite_loop env fmt tm q cats st1 w1 = (Inl e, w')"
      by blast
    from Cons.IH [OF l] obtain before d after st2 w2
      where d: "cats = before @ d # after" "map_of tm d \<noteq> None"
        "composite_loop env fmt tm q before st1 w1 = (Inr st2, w2)"
        "run_category env fmt tm q d st2 w2 = (Inl e, w')"
      by blast
    with s show ?thesis
      by (intro exI [of _ "c # before"] exI [of _ d] exI [of _ after] exI [of _ st2] exI [of _ w2])
         (simp add: py_bind_def)
  qed
qed

text \<open>Runs of the fixture.\<close>

lemma categories_calendar_email:
  "categories_of (u ''calendar|email'') = [u ''calendar'', u ''email'']"
  by (simp add: categories_of_def u_def py_strip_def is_space_def)

lemma categories_calendar_weather_calendar:
  "categories_of (u ''calendar|weather|calendar'') = [u ''calendar'', u ''weather'', u ''calendar'']"
  by (simp add: categories_of_def u_def py_strip_def is_space_def)

lemma categories_calendar_calendar:
  "categories_of (u ''calendar|calendar'') = [u ''calendar'', u ''calendar'']"
  by (simp add: categories_of_def u_def py_strip_def is_space_def)

lemma categories_weather_calendar:
  "categories_of (u ''weather|calendar'') = [u ''weather'', u ''calendar'']"
  by (simp add: categories_of_def u_def py_strip_def is_space_def)

lemma fixture_lookup:
  "map_of fixture_tools_map (u ''calendar'') =
     Some (CalendarTools
          (CalendarEventTool (\<lambda>v. []) \<lparr>now_timestamp = u ''1705311012.0'', now_isoformat = u ''2024-01-15T09:30:12''\<rparr>)
          (stub_tool (u ''smart_scheduling'')))"
  "map_of fixture_tools_map (u ''email'') \<noteq> None"
  "\<exists>y. map_of fixture_tools_map (u ''email'') = Some y"
  "map_of fixture_tools_map (u ''weather'') = None"
  by (simp_all add: fixture_tools_map_def tools_map_of_def)

lemma scripted_extract_calendar:
  "dget (replies (u ''calendar'')) (u ''action'') \<noteq> Some (JStr (u ''create'')) \<Longrightarrow>
   extract_tool_parameters (scripted_env replies) q (u ''calendar'') w =
     (Inr (category_defaults default_settings (u ''calendar'') (replies (u ''calendar''))), w)"
  by (simp add: extract_tool_parameters_def intelligent_parameter_extraction_def scripted_env_def
      py_bind_def py_return_def)

lemmas fixture_run =
  run_category_def fixture_lookup scripted_extract_calendar category_defaults_def
  setdefault_def dget_default_def py_bind_def py_return_def py_raise_def py_pure_def
  collection_execute_tool_def CalendarTools_def safe_execute_def CalendarEventTool_def
  calendar_execute_def list_events_def created_meeting_info_def try_bind_def composite_entry_def

lemma loop_list_weather_list:
  "composite_loop
     (scripted_env (\<lambda>c. [(u ''tool_name'', JStr (u ''calendar_event'')), (u ''action'', JStr (u ''list''))]))
     (\<lambda>v. []) fixture_tools_map (u ''list my meetings'') (categories_of (u ''calendar|weather|calendar''))
     ([], True, JNone) []
   = (Inr ([composite_entry (u ''calendar'',
              JDict [(u ''success'', JBool True),
                     (u ''result'', JDict [(u ''action'', JStr (u ''list'')), (u ''events'', JList []),
                                           (u ''total_count'', JInt 0), (u ''date_filter'', JNone)]),
                     (u ''tool_name'', JStr (u ''calendar_event''))],
              [(u ''tool_name'', JStr (u ''calendar_event'')), (u ''action'', JStr (u ''list''))]),
            composite_entry (u ''calendar'',
              JDict [(u ''success'', JBool True),
                     (u ''result'', JDict [(u ''action'', JStr (u ''list'')), (u ''events'', JList []),
                                           (u ''total_count'', JInt 0), (u ''date_filter'', JNone)]),
                     (u ''tool_name'', JStr (u ''calendar_event''))],
              [(u ''tool_name'', JStr (u ''calendar_event'')), (u ''action'', JStr (u ''list''))])],
           False, JNone), [])"
  by (simp add: categories_calendar_weather_calendar fixture_run)

lemma loop_unregistered_tool:
  "composite_loop
     (scripted_env (\<lambda>c. [(u ''tool_name'', JStr (u ''calendar_update'')), (u ''action'', JStr (u ''list''))]))
     (\<lambda>v. []) fixture_tools_map (u ''move my meeting'') (categories_of (u ''weather|calendar''))
     ([], True, JNone) []
   = (Inl (Exn ValueError ([26410, 30693, 30340, 26085, 21382, 24037, 20855, 58, 32] @ u ''calendar_update'')), [])"
  by (simp add: categories_weather_calendar fixture_run)

lemma loop_purge_purge:
  "composite_loop
     (scripted_env (\<lambda>c. [(u ''tool_name'', JStr (u ''calendar_event'')), (u ''action'', JStr (u ''purge''))]))
     (\<lambda>v. []) fixture_tools_map (u ''purge my meetings'') (categories_of (u ''calendar|calendar''))
     ([], True, JNone) []
   = (Inr ([composite_entry (u ''calendar'',
              JDict [(u ''success'', JBool False),
                     (u ''error'', JStr ([19981, 25903, 25345, 30340, 25805, 20316, 58, 32] @ u ''purge'')),
                     (u ''tool_name'', JStr (u ''calendar_event''))],
              [(u ''tool_name'', JStr (u ''calendar_event'')), (u ''action'', JStr (u ''purge''))]),
            composite_entry (u ''calendar'',
              JDict [(u ''success'', JBool False),
                     (u ''error'', JStr ([19981, 25903, 25345, 30340, 25805, 20316, 58, 32] @ u ''purge'')),
                     (u ''tool_name'', JStr (u ''calendar_event''))],
              [(u ''tool_name'', JStr (u ''calendar_event'')), (u ''action'', JStr (u ''purge''))])],
           True, JNone), [])"
  by (simp add: categories_calendar_calendar fixture_run)

lemma loop_weather_purge:
  "composite_loop
     (scripted_env (\<lambda>c. [(u ''tool_name'', JStr (u ''calendar_event'')), (u ''action'', JStr (u ''purge''))]))
     (\<lambda>v. []) fixture_tools_map (u ''purge my meetings'') (categories_of (u ''weather|calendar''))
     ([], True, JNone) []
   = (Inr ([composite_entry (u ''calendar'',
              JDict [(u ''success'', JBool False),
                     (u ''error'', JStr ([19981, 25903, 25345, 30340, 25805, 20316, 58, 32] @ u ''purge'')),
                     (u ''tool_name'', JStr (u ''calendar_event''))],
              [(u ''tool_name'', JStr (u ''calendar_event'')), (u ''action'', JStr (u ''purge''))])],
           False, JNone), [])"
  by (simp add: categories_weather_calendar fixture_run)

lemma loop_self_key:
  "composite_loop
     (scripted_env (\<lambda>c. [(u ''tool_name'', JStr (u ''calendar_event'')), (u ''action'', JStr (u ''list'')),
                          (u ''self'', JInt 1)]))
     (\<lambda>v. []) fixture_tools_map (u ''list my meetings'') (categories_of (u ''calendar|calendar''))
     ([], True, JNone) []
   = (Inl (multiple_values (u ''CalendarTools.execute_tool'') (u ''self'')), [])"
  by (simp add: categories_calendar_calendar fixture_run) (simp add: u_def)

text \<open>
  C7, as claimed, fails: for the category list \<open>calendar|email\<close>, when the model names a
  calendar tool that is not registered (\<open>calendar_create\<close>), the dispatch raises, the loop
  stops before the email category, and the envelope is the handler's
  \<open>{success: False, error, tool_category}\<close>, which has no \<open>tool_params\<close> and no \<open>result\<close>.
\<close>

theorem composite_envelope_counterexample:
  "execute_composite_tools
     (scripted_env (\<lambda>c. [(u ''tool_name'', JStr (u ''calendar_create'')), (u ''action'', JStr (u ''list''))]))
     (\<lambda>v. []) fixture_tools_map (u ''calendar|email'') (u ''list my meetings and mail them'') []
   = (JDict [(u ''success'', JBool False),
             (u ''error'', JStr ([26410, 30693, 30340, 26085, 21382, 24037, 20855, 58, 32] @ u ''calendar_create'')),
             (u ''tool_category'', JStr (u ''calendar|email''))], [])
   \<and> (case fst (execute_composite_tools
          (scripted_env (\<lambda>c. [(u ''tool_name'', JStr (u ''calendar_create'')), (u ''action'', JStr (u ''list''))]))
          (\<lambda>v. []) fixture_tools_map (u ''calendar|email'') (u ''list my meetings and mail them'') []) of
         JDict d \<Rightarrow> dget d (u ''tool_params'')
       | v \<Rightarrow> None) = None"
  by (simp add: execute_composite_tools_def categories_calendar_email run_category_def fixture_lookup
      scripted_extract_calendar category_defaults_def setdefault_def dget_default_def
      py_bind_def py_return_def py_raise_def py_pure_def collection_execute_tool_def CalendarTools_def)

text \<open>
  C7, amended. For every composite execution over a \<open>|\<close>-joined category list, the
  categories are gone through in the listed order.

  When the loop raises no exception, the envelope is
  \<open>{success, result: {composite_results, total_tools, executed_tools}, tool_category,
  tool_params: {composite: True}}\<close>; \<open>success\<close> is true exactly when every listed category
  is in the tool map; and \<open>composite_results\<close> holds one \<open>{category, result, tool_params}\<close>
  entry for each listed category that is in the tool map, in the listed order, so a
  category after an unknown one is still executed. The entries are those of the trace of
  the run: \<open>tool_params\<close> are the parameters extracted for the category and \<open>result\<close> is what
  the collection's \<open>execute_tool\<close> returned for them (for a multiple creation, the aggregate
  of the meetings created).

  When an exception is raised while a category is gone through (by the extraction of its
  parameters, by a missing or empty \<open>tool_name\<close>, or by the collection's \<open>execute_tool\<close>:
  an unregistered tool name, or the key \<open>self\<close> among the parameters), the loop stops at
  that category, which is in the tool map: the categories after it are not gone through,
  and the envelope is \<open>{success: False, error: str(e), tool_category}\<close>, without
  \<open>tool_params\<close> and without \<open>result\<close>.
\<close>

theorem composite_envelope:
  fixes q :: pystr
  shows
  "(composite_loop env fmt tm q (categories_of tool_category) ([], True, JNone) w
      = (Inr (results, all_success, meeting_info), w') \<longrightarrow>
      execute_composite_tools env fmt tm tool_category q w
        = (JDict [(u ''success'', JBool (list_all (\<lambda>c. map_of tm c \<noteq> None) (categories_of tool_category))),
                  (u ''result'',
                     JDict [(u ''composite_results'', JList results),
                            (u ''total_tools'', JInt (int (length (categories_of tool_category)))),
                            (u ''executed_tools'', JInt (int (length results)))]),
                  (u ''tool_category'', JStr tool_category),
                  (u ''tool_params'', JDict [(u ''composite'', JBool True)])], w')
      \<and> (\<exists>es. results = map composite_entry es
             \<and> map fst es = filter (\<lambda>c. map_of tm c \<noteq> None) (categories_of tool_category)
             \<and> composite_trace env fmt tm q (categories_of tool_category) JNone w es w'))
   \<and> (composite_loop env fmt tm q (categories_of tool_category) ([], True, JNone) w = (Inl e, w') \<longrightarrow>
      execute_composite_tools env fmt tm tool_category q w
        = (JDict [(u ''success'', JBool False),
                  (u ''error'', JStr (exn_str e)),
                  (u ''tool_category'', JStr tool_category)], w')
      \<and> (\<exists>before c after st1 w1.
             categories_of tool_category = before @ c # after
           \<and> map_of tm c \<noteq> None
           \<and> composite_loop env fmt tm q before ([], True, JNone) w = (Inr st1, w1)
           \<and> run_category env fmt tm q c st1 w1 = (Inl e, w')))"
proof (intro conjI impI)
  assume l: "composite_loop env fmt tm q (categories_of tool_category) ([], True, JNone) w
      = (Inr (results, all_success, meeting_info), w')"
  from composite_loop_Inr [OF l]
  have a: "all_success = list_all (\<lambda>c. map_of tm c \<noteq> None) (categories_of tool_category)"
    and es: "\<exists>es. results = map composite_entry es
             \<and> map fst es = filter (\<lambda>c. map_of tm c \<noteq> None) (categories_of tool_category)
             \<and> composite_trace env fmt tm q (categories_of tool_category) JNone w es w'"
    by simp_all
  from l a show "execute_composite_tools env fmt tm tool_category q w
        = (JDict [(u ''success'', JBool (list_all (\<lambda>c. map_of tm c \<noteq> None) (categories_of tool_category))),
                  (u ''result'',
                     JDict [(u ''composite_results'', JList results),
                            (u ''total_tools'', JInt (int (length (categories_of tool_category)))),
                            (u ''executed_tools'', JInt (int (length results)))]),
                  (u ''tool_category'', JStr tool_category),
                  (u ''tool_params'', JDict [(u ''composite'', JBool True)])], w')"
    by (simp add: execute_composite_tools_def)
  from es show "\<exists>es. results = map composite_entry es
             \<and> map fst es = filter (\<lambda>c. map_of tm c \<noteq> None) (categories_of tool_category)
             \<and> composite_trace env fmt tm q (categories_of tool_category) JNone w es w'" .
next
  assume l: "composite_loop env fmt tm q (categories_of tool_category) ([], True, JNone) w = (Inl e, w')"
  then show "execute_composite_tools env fmt tm tool_category q w
        = (JDict [(u ''success'', JBool False),
                  (u ''error'', JStr (exn_str e)),
                  (u ''tool_category'', JStr tool_category)], w')"
    by (simp add: execute_composite_tools_def)
  from composite_loop_Inl [OF l]
  show "\<exists>before c after st1 w1.
             categories_of tool_category = before @ c # after
           \<and> map_of tm c \<noteq> None
           \<and> composite_loop env fmt tm q before ([], True, JNone) w = (Inr st1, w1)
           \<and> run_category env fmt tm q c st1 w1 = (Inl e, w')" .
qed

text \<open>The list \<open>calendar|weather|calendar\<close>: \<open>weather\<close> is not in the tool map; both
  calendar calls run, and the flag is false. The list \<open>weather|calendar\<close> with the
  unregistered tool \<open>calendar_update\<close>: the dispatch raises.\<close>

theorem composite_envelope_witness:
  "execute_composite_tools
     (scripted_env (\<lambda>c. [(u ''tool_name'', JStr (u ''calendar_event'')), (u ''action'', JStr (u ''list''))]))
     (\<lambda>v. []) fixture_tools_map (u ''calendar|weather|calendar'') (u ''list my meetings'') []
   = (JDict [(u ''success'', JBool False),
             (u ''result'',
                JDict [(u ''composite_results'',
                          JList [JDict [(u ''category'', JStr (u ''calendar'')),
                                        (u ''result'',
                                           JDict [(u ''success'', JBool True),
                                                  (u ''result'', JDict [(u ''action'', JStr (u ''list'')), (u ''events'', JList []),
                                                                        (u ''total_count'', JInt 0), (u ''date_filter'', JNone)]),
                                                  (u ''tool_name'', JStr (u ''calendar_event''))]),
                                        (u ''tool_params'',
                                           JDict [(u ''tool_name'', JStr (u ''calendar_event'')), (u ''action'', JStr (u ''list''))])],
                                 JDict [(u ''category'', JStr (u ''calendar'')),
                                        (u ''result'',
                                           JDict [(u ''success'', JBool True),
                                                  (u ''result'', JDict [(u ''action'', JStr (u ''list'')), (u ''events'', JList []),
                                                                        (u ''total_count'', JInt 0), (u ''date_filter'', JNone)]),
                                                  (u ''tool_name'', JStr (u ''calendar_event''))]),
                                        (u ''tool_params'',
                                           JDict [(u ''tool_name'', JStr (u ''calendar_event'')), (u ''action'', JStr (u ''list''))])]]),
                       (u ''total_tools'', JInt 3),
                       (u ''executed_tools'', JInt 2)]),
             (u ''tool_category'', JStr (u ''calendar|weather|calendar'')),
             (u ''tool_params'', JDict [(u ''composite'', JBool True)])], [])
   \<and> execute_composite_tools
       (scripted_env (\<lambda>c. [(u ''tool_name'', JStr (u ''calendar_update'')), (u ''action'', JStr (u ''list''))]))
       (\<lambda>v. []) fixture_tools_map (u ''weather|calendar'') (u ''move my meeting'') []
     = (JDict [(u ''success'', JBool False),
               (u ''error'', JStr ([26410, 30693, 30340, 26085, 21382, 24037, 20855, 58, 32] @ u ''calendar_update'')),
               (u ''tool_category'', JStr (u ''weather|calendar''))], [])"
proof -
  from composite_envelope [THEN conjunct1, THEN mp, OF loop_list_weather_list, THEN conjunct1]
  have one: "execute_composite_tools
     (scripted_env (\<lambda>c. [(u ''tool_name'', JStr (u ''calendar_event'')), (u ''action'', JStr (u ''list''))]))
     (\<lambda>v. []) fixture_tools_map (u ''calendar|weather|calendar'') (u ''list my meetings'') []
   = (JDict [(u ''success'', JBool False),
             (u ''result'',
                JDict [(u ''composite_results'',
                          JList [JDict [(u ''category'', JStr (u ''calendar'')),
                                        (u ''result'',
                                           JDict [(u ''success'', JBool True),
                                                  (u ''result'', JDict [(u ''action'', JStr (u ''list'')), (u ''events'', JList []),
                                                                        (u ''total_count'', JInt 0), (u ''date_filter'', JNone)]),
                                                  (u ''tool_name'', JStr (u ''calendar_event''))]),
                                        (u ''tool_params'',
                                           JDict [(u ''tool_name'', JStr (u ''calendar_event'')), (u ''action'', JStr (u ''list''))])],
                                 JDict [(u ''category'', JStr (u ''calendar'')),
                                        (u ''result'',
                                           JDict [(u ''success'', JBool True),
                                                  (u ''result'', JDict [(u ''action'', JStr (u ''list'')), (u ''events'', JList []),
                                                                        (u ''total_count'', JInt 0), (u ''date_filter'', JNone)]),
                                                  (u ''tool_name'', JStr (u ''calendar_event''))]),
                                        (u ''tool_params'',
                                           JDict [(u ''tool_name'', JStr (u ''calendar_event'')), (u ''action'', JStr (u ''list''))])]]),
                       (u ''total_tools'', JInt 3),
                       (u ''executed_tools'', JInt 2)]),
             (u ''tool_category'', JStr (u ''calendar|weather|calendar'')),
             (u ''tool_params'', JDict [(u ''composite'', JBool True)])], [])"
    by (simp add: categories_calendar_weather_calendar fixture_lookup composite_entry_def)
  from composite_envelope [THEN conjunct2, THEN mp, OF loop_unregistered_tool, THEN conjunct1]
  have two: "execute_composite_tools
       (scripted_env (\<lambda>c. [(u ''tool_name'', JStr (u ''calendar_update'')), (u ''action'', JStr (u ''list''))]))
       (\<lambda>v. []) fixture_tools_map (u ''weather|calendar'') (u ''move my meeting'') []
     = (JDict [(u ''success'', JBool False),
               (u ''error'', JStr ([26410, 30693, 30340, 26085, 21382, 24037, 20855, 58, 32] @ u ''calendar_update'')),
               (u ''tool_category'', JStr (u ''weather|calendar''))], [])"
    by simp
  from one two show ?thesis by (rule conjI)
qed

text \<open>
  C10, as claimed, fails: for the category list \<open>calendar|email\<close>, both in the tool map,
  when the model's reply carries an empty \<open>tool_name\<close> the loop raises and the envelope's
  \<open>success\<close> is false.
\<close>

theorem composite_success_counterexample:
  "list_all (\<lambda>c. map_of fixture_tools_map c \<noteq> None) (categories_of (u ''calendar|email''))
   \<and> execute_composite_tools
       (scripted_env (\<lambda>c. [(u ''tool_name'', JStr (u '''')), (u ''action'', JStr (u ''list''))]))
       (\<lambda>v. []) fixture_tools_map (u ''calendar|email'') (u ''list my meetings and mail them'') []
     = (JDict [(u ''success'', JBool False),
               (u ''error'', JStr [32570, 23569, 24517, 35201, 30340, 116, 111, 111, 108, 95, 110, 97, 109, 101, 21442, 25968]),
               (u ''tool_category'', JStr (u ''calendar|email''))], [])"
  by (simp add: execute_composite_tools_def categories_calendar_email run_category_def fixture_lookup
      scripted_extract_calendar category_defaults_def setdefault_def dget_default_def
      py_bind_def py_return_def py_raise_def py_pure_def missing_tool_name_def)

text \<open>
  C10, amended. For every composite execution whose loop raises no exception: when every
  listed category is in the tool map the envelope's \<open>success\<close> is true, whatever the
  envelopes of the individual tools say (the entries of \<open>composite_results\<close> are
  arbitrary); when a listed category is not in the tool map, \<open>success\<close> is false. When an
  exception is raised inside the loop (possible also when every category is in the tool
  map), the envelope is \<open>{success: False, error: str(e), tool_category}\<close>.
\<close>

theorem composite_success_flag:
  fixes q :: pystr
  shows
  "(composite_loop env fmt tm q (categories_of tool_category) ([], True, JNone) w
      = (Inr (results, all_success, meeting_info), w')
    \<and> list_all (\<lambda>c. map_of tm c \<noteq> None) (categories_of tool_category) \<longrightarrow>
      execute_composite_tools env fmt tm tool_category q w
        = (JDict [(u ''success'', JBool True),
                  (u ''result'',
                     JDict [(u ''composite_results'', JList results),
                            (u ''total_tools'', JInt (int (length (categories_of tool_category)))),
                            (u ''executed_tools'', JInt (int (length results)))]),
                  (u ''tool_category'', JStr tool_category),
                  (u ''tool_params'', JDict [(u ''composite'', JBool True)])], w'))
   \<and> (composite_loop env fmt tm q (categories_of tool_category) ([], True, JNone) w
        = (Inr (results, all_success, meeting_info), w')
      \<and> \<not> list_all (\<lambda>c. map_of tm c \<noteq> None) (categories_of tool_category) \<longrightarrow>
      execute_composite_tools env fmt tm tool_category q w
        = (JDict [(u ''success'', JBool False),
                  (u ''result'',
                     JDict [(u ''composite_results'', JList results),
                            (u ''total_tools'', JInt (int (length (categories_of tool_category)))),
                            (u ''executed_tools'', JInt (int (length results)))]),
                  (u ''tool_category'', JStr tool_category),
                  (u ''tool_params'', JDict [(u ''composite'', JBool True)])], w'))
   \<and> (composite_loop env fmt tm q (categories_of tool_category) ([], True, JNone) w = (Inl e, w') \<longrightarrow>
      execute_composite_tools env fmt tm tool_category q w
        = (JDict [(u ''success'', JBool False),
                  (u ''error'', JStr (exn_str e)),
                  (u ''tool_category'', JStr tool_category)], w'))"
proof (intro conjI impI)
  assume "composite_loop env fmt tm q (categories_of tool_category) ([], True, JNone) w
      = (Inr (results, all_success, meeting_info), w')
    \<and> list_all (\<lambda>c. map_of tm c \<noteq> None) (categories_of tool_category)"
  then have l: "composite_loop env fmt tm q (categories_of tool_category) ([], True, JNone) w
      = (Inr (results, all_success, meeting_info), w')"
    and k: "list_all (\<lambda>c. map_of tm c \<noteq> None) (categories_of tool_category)"
    by simp_all
  from composite_loop_Inr [OF l] k have "all_success" by simp
  with l show "execute_composite_tools env fmt tm tool_category q w
        = (JDict [(u ''success'', JBool True),
                  (u ''result'',
                     JDict [(u ''composite_results'', JList results),
                            (u ''total_tools'', JInt (int (length (categories_of tool_category)))),
                            (u ''executed_tools'', JInt (int (length results)))]),
                  (u ''tool_category'', JStr tool_category),
                  (u ''tool_params'', JDict [(u ''composite'', JBool True)])], w')"
    by (simp add: execute_composite_tools_def)
next
  assume "composite_loop env fmt tm q (categories_of tool_category) ([], True, JNone) w
        = (Inr (results, all_success, meeting_info), w')
      \<and> \<not> list_all (\<lambda>c. map_of tm c \<noteq> None) (categories_of tool_category)"
  then have l: "composite_loop env fmt tm q (categories_of tool_category) ([], True, JNone) w
      = (Inr (results, all_success, meeting_info), w')"
    and k: "\<not> list_all (\<lambda>c. map_of tm c \<noteq> None) (categories_of tool_category)"
    by simp_all
  from composite_loop_Inr [OF l] k have "\<not> all_success" by simp
  with l show "execute_composite_tools env fmt tm tool_category q w
        = (JDict [(u ''success'', JBool False),
                  (u ''result'',
                     JDict [(u ''composite_results'', JList results),
                            (u ''total_tools'', JInt (int (length (categories_of tool_category)))),
                            (u ''executed_tools'', JInt (int (length results)))]),
                  (u ''tool_category'', JStr tool_category),
                  (u ''tool_params'', JDict [(u ''composite'', JBool True)])], w')"
    by (simp add: execute_composite_tools_def)
next
  assume "composite_loop env fmt tm q (categories_of tool_category) ([], True, JNone) w = (Inl e, w')"
  then show "execute_composite_tools env fmt tm tool_category q w
        = (JDict [(u ''success'', JBool False),
                  (u ''error'', JStr (exn_str e)),
                  (u ''tool_category'', JStr tool_category)], w')"
    by (simp add: execute_composite_tools_def)
qed

text \<open>The list \<open>calendar|calendar\<close> with the unsupported action \<open>purge\<close>: both tool calls
  fail inside the tool and come back with \<open>success: False\<close>; the envelope says
  \<open>success: True\<close>. The list \<open>weather|calendar\<close>: \<open>weather\<close> is not in the tool map and the
  envelope says \<open>success: False\<close>. The list \<open>calendar|calendar\<close> with the key \<open>self\<close> in
  the model's reply: the collection's \<open>execute_tool\<close> raises at the first category.\<close>

theorem composite_success_flag_witness:
  "execute_composite_tools
     (scripted_env (\<lambda>c. [(u ''tool_name'', JStr (u ''calendar_event'')), (u ''action'', JStr (u ''purge''))]))
     (\<lambda>v. []) fixture_tools_map (u ''calendar|calendar'') (u ''purge my meetings'') []
   = (JDict [(u ''success'', JBool True),
             (u ''result'',
                JDict [(u ''composite_results'',
                          JList [JDict [(u ''category'', JStr (u ''calendar'')),
                                        (u ''result'',
                                           JDict [(u ''success'', JBool False),
                                                  (u ''error'', JStr ([19981, 25903, 25345, 30340, 25805, 20316, 58, 32] @ u ''purge'')),
                                                  (u ''tool_name'', JStr (u ''calendar_event''))]),
                                        (u ''tool_params'',
                                           JDict [(u ''tool_name'', JStr (u ''calendar_event'')), (u ''action'', JStr (u ''purge''))])],
                                 JDict [(u ''category'', JStr (u ''calendar'')),
                                        (u ''result'',
                                           JDict [(u ''success'', JBool False),
                                                  (u ''error'', JStr ([19981, 25903, 25345, 30340, 25805, 20316, 58, 32] @ u ''purge'')),
                                                  (u ''tool_name'', JStr (u ''calendar_event''))]),
                                        (u ''tool_params'',
                                           JDict [(u ''tool_name'', JStr (u ''calendar_event'')), (u ''action'', JStr (u ''purge''))])]]),
                       (u ''total_tools'', JInt 2),
                       (u ''executed_tools'', JInt 2)]),
             (u ''tool_category'', JStr (u ''calendar|calendar'')),
             (u ''tool_params'', JDict [(u ''composite'', JBool True)])], [])
   \<and> execute_composite_tools
       (scripted_env (\<lambda>c. [(u ''tool_name'', JStr (u ''calendar_event'')), (u ''action'', JStr (u ''purge''))]))
       (\<lambda>v. []) fixture_tools_map (u ''weather|calendar'') (u ''purge my meetings'') []
     = (JDict [(u ''success'', JBool False),
               (u ''result'',
                  JDict [(u ''composite_results'',
                            JList [JDict [(u ''category'', JStr (u ''calendar'')),
                                          (u ''result'',
                                             JDict [(u ''success'', JBool False),
                                                    (u ''error'', JStr ([19981, 25903, 25345, 30340, 25805, 20316, 58, 32] @ u ''purge'')),
                                                    (u ''tool_name'', JStr (u ''calendar_event''))]),
                                          (u ''tool_params'',
                                             JDict [(u ''tool_name'', JStr (u ''calendar_event'')), (u ''action'', JStr (u ''purge''))])]]),
                         (u ''total_tools'', JInt 2),
                         (u ''executed_tools'', JInt 1)]),
               (u ''tool_category'', JStr (u ''weather|calendar'')),
               (u ''tool_params'', JDict [(u ''composite'', JBool True)])], [])
   \<and> execute_composite_tools
       (scripted_env (\<lambda>c. [(u ''tool_name'', JStr (u ''calendar_event'')), (u ''action'', JStr (u ''list'')),
                            (u ''self'', JInt 1)]))
       (\<lambda>v. []) fixture_tools_map (u ''calendar|calendar'') (u ''list my meetings'') []
     = (JDict [(u ''success'', JBool False),
               (u ''error'', JStr (u ''CalendarTools.execute_tool() got multiple values for argument ''
                                     @ [39] @ u ''self'' @ [39])),
               (u ''tool_category'', JStr (u ''calendar|calendar''))], [])"
proof -
  have known: "list_all (\<lambda>c. map_of fixture_tools_map c \<noteq> None) (categories_of (u ''calendar|calendar''))"
    by (simp add: categories_calendar_calendar fixture_lookup)
  have unknown: "\<not> list_all (\<lambda>c. map_of fixture_tools_map c \<noteq> None) (categories_of (u ''weather|calendar''))"
    by (simp add: categories_weather_calendar fixture_lookup)
  from composite_success_flag [THEN conjunct1, THEN mp, OF conjI [OF loop_purge_purge known]]
  have one: "execute_composite_tools
     (scripted_env (\<lambda>c. [(u ''tool_name'', JStr (u ''calendar_event'')), (u ''action'', JStr (u ''purge''))]))
     (\<lambda>v. []) fixture_tools_map (u ''calendar|calendar'') (u ''purge my meetings'') []
   = (JDict [(u ''success'', JBool True),
             (u ''result'',
                JDict [(u ''composite_results'',
                          JList [JDict [(u ''category'', JStr (u ''calendar'')),
                                        (u ''result'',
                                           JDict [(u ''success'', JBool False),
                                                  (u ''error'', JStr ([19981, 25903, 25345, 30340, 25805, 20316, 58, 32] @ u ''purge'')),
                                                  (u ''tool_name'', JStr (u ''calendar_event''))]),
                                        (u ''tool_params'',
                                           JDict [(u ''tool_name'', JStr (u ''calendar_event'')), (u ''action'', JStr (u ''purge''))])],
                                 JDict [(u ''category'', JStr (u ''calendar'')),
                                        (u ''result'',
                                           JDict [(u ''success'', JBool False),
                                                  (u ''error'', JStr ([19981, 25903, 25345, 30340, 25805, 20316, 58, 32] @ u ''purge'')),
                                                  (u ''tool_name'', JStr (u ''calendar_event''))]),
                                        (u ''tool_params'',
                                           JDict [(u ''tool_name'', JStr (u ''calendar_event'')), (u ''action'', JStr (u ''purge''))])]]),
                       (u ''total_tools'', JInt 2),
                       (u ''executed_tools'', JInt 2)]),
             (u ''tool_category'', JStr (u ''calendar|calendar'')),
             (u ''tool_params'', JDict [(u ''composite'', JBool True)])], [])"
    by (simp add: categories_calendar_calendar composite_entry_def)
  from composite_success_flag [THEN conjunct2, THEN conjunct1, THEN mp, OF conjI [OF loop_weather_purge unknown]]
  have two: "execute_composite_tools
       (scripted_env (\<lambda>c. [(u ''tool_name'', JStr (u ''calendar_event'')), (u ''action'', JStr (u ''purge''))]))
       (\<lambda>v. []) fixture_tools_map (u ''weather|calendar'') (u ''purge my meetings'') []
     = (JDict [(u ''success'', JBool False),
               (u ''result'',
                  JDict [(u ''composite_results'',
                            JList [JDict [(u ''category'', JStr (u ''calendar'')),
                                          (u ''result'',
                                             JDict [(u ''success'', JBool False),
                                                    (u ''error'', JStr ([19981, 25903, 25345, 30340, 25805, 20316, 58, 32] @ u ''purge'')),
                                                    (u ''tool_name'', JStr (u ''calendar_event''))]),
                                          (u ''tool_params'',
                                             JDict [(u ''tool_name'', JStr (u ''calendar_event'')), (u ''action'', JStr (u ''purge''))])]]),
                         (u ''total_tools'', JInt 2),
                         (u ''executed_tools'', JInt 1)]),
               (u ''tool_category'', JStr (u ''weather|calendar'')),
               (u ''tool_params'', JDict [(u ''composite'', JBool True)])], [])"
    by (simp add: categories_weather_calendar composite_entry_def)
  from composite_success_flag [THEN conjunct2, THEN conjunct2, THEN mp, OF loop_self_key]
  have three: "execute_composite_tools
       (scripted_env (\<lambda>c. [(u ''tool_name'', JStr (u ''calendar_event'')), (u ''action'', JStr (u ''list'')),
                            (u ''self'', JInt 1)]))
       (\<lambda>v. []) fixture_tools_map (u ''calendar|calendar'') (u ''list my meetings'') []
     = (JDict [(u ''success'', JBool False),
               (u ''error'', JStr (u ''CalendarTools.execute_tool() got multiple values for argument ''
                                     @ [39] @ u ''self'' @ [39])),
               (u ''tool_category'', JStr (u ''calendar|calendar''))], [])"
    by (simp add: multiple_values_def u_def)
  from one two three show ?thesis by (intro conjI)
qed

end
